theory Spec2Isabelle
  imports Complex_Main "HOL-Library.Word"
begin

unbundle bit_operations_syntax

section \<open>Numbers and vectors of the kernel\<close>

text \<open>
  The path-tracing kernel (raytracing.wgsl) computes on \<open>u32\<close> and \<open>f32\<close>. A \<open>u32\<close> is a
  \<open>32 word\<close>, so \<open>+\<close> and \<open>*\<close> wrap as they do on the device. An \<open>f32\<close> is modelled by a
  \<open>real\<close>: every arithmetic operation is the exact one, without rounding, infinities or NaN
  (\<open>hitSphere\<close> is given a second time with the rounding of binary32).
  Where the kernel divides, HOL's \<open>x / 0 = 0\<close> differs from the device, so the theorems
  below that depend on a quotient assume its divisor is not zero.
\<close>

type_synonym u32 = "32 word"

datatype vec3 = vec3f (vx: real) (vy: real) (vz: real)

definition splat :: "real \<Rightarrow> vec3" where
  "splat c = vec3f c c c"

definition vadd :: "vec3 \<Rightarrow> vec3 \<Rightarrow> vec3" where
  "vadd a b = vec3f (vx a + vx b) (vy a + vy b) (vz a + vz b)"

definition vsub :: "vec3 \<Rightarrow> vec3 \<Rightarrow> vec3" where
  "vsub a b = vec3f (vx a - vx b) (vy a - vy b) (vz a - vz b)"

definition vmul :: "vec3 \<Rightarrow> vec3 \<Rightarrow> vec3" where
  "vmul a b = vec3f (vx a * vx b) (vy a * vy b) (vz a * vz b)"

definition vneg :: "vec3 \<Rightarrow> vec3" where
  "vneg a = vec3f (- vx a) (- vy a) (- vz a)"

definition smul :: "real \<Rightarrow> vec3 \<Rightarrow> vec3" where
  "smul k a = vec3f (k * vx a) (k * vy a) (k * vz a)"

definition vscale :: "vec3 \<Rightarrow> real \<Rightarrow> vec3" where
  "vscale a k = vec3f (vx a * k) (vy a * k) (vz a * k)"

definition vdiv :: "vec3 \<Rightarrow> real \<Rightarrow> vec3" where
  "vdiv a k = vec3f (vx a / k) (vy a / k) (vz a / k)"

definition dot :: "vec3 \<Rightarrow> vec3 \<Rightarrow> real" where
  "dot a b = vx a * vx b + vy a * vy b + vz a * vz b"

definition normalize :: "vec3 \<Rightarrow> vec3" where
  "normalize v = vdiv v (sqrt (dot v v))"

section \<open>Random number generator\<close>

text \<open>\<open>pcg_hash\<close>: multiply, add, a shift by the top four bits plus four, xor, multiply,
  and a final xor-shift by 22.\<close>

definition pcg_hash :: "u32 \<Rightarrow> u32" where
  "pcg_hash input =
    (let state = input * 747796405 + 2891336453;
         word = ((drop_bit (unat (drop_bit 28 state + 4)) state) XOR state) * 277803737
     in (drop_bit 22 word) XOR word)"

text \<open>\<open>rand\<close> replaces the private \<open>rngState\<close> by its hash and returns it divided by
  \<open>f32(0xffffffffu)\<close>. The state is threaded explicitly: the result is the pair of the
  draw and the new state.\<close>

definition rand :: "u32 \<Rightarrow> real \<times> u32" where
  "rand rngState =
    (let s = pcg_hash rngState
     in (real (unat s) / real (unat (0xffffffff :: u32)), s))"

text \<open>
  The rejection samplers are \<open>loop { ... }\<close> blocks whose only exit is the \<open>return p\<close> of an
  accepted candidate; the \<open>return vec3f(0.0)\<close> after each loop cannot be reached. A call
  that never accepts does not return, which is the value \<open>None\<close>. The generator is a
  parameter, so that the loops can be studied on any sequence of draws; the kernel's own
  samplers are the instances at \<open>rand\<close>.
\<close>

definition sphere_candidate :: "('g \<Rightarrow> real \<times> 'g) \<Rightarrow> 'g \<Rightarrow> vec3 \<times> 'g" where
  "sphere_candidate rnd s =
    (let (a, s1) = rnd s; (b, s2) = rnd s1; (c, s3) = rnd s2
     in (vec3f (a * 2 - 1) (b * 2 - 1) (c * 2 - 1), s3))"

definition disk_candidate :: "('g \<Rightarrow> real \<times> 'g) \<Rightarrow> 'g \<Rightarrow> vec3 \<times> 'g" where
  "disk_candidate rnd s =
    (let (a, s1) = rnd s; (b, s2) = rnd s1
     in (vec3f (a * 2 - 1) (b * 2 - 1) 0, s2))"

partial_function (option) rand_in_unit_sphere_on ::
  "('g \<Rightarrow> real \<times> 'g) \<Rightarrow> 'g \<Rightarrow> (vec3 \<times> 'g) option" where
  "rand_in_unit_sphere_on rnd s =
    (let (p, s') = sphere_candidate rnd s
     in if dot p p < 1 then Some (p, s') else rand_in_unit_sphere_on rnd s')"

partial_function (option) rand_in_unit_disk_on ::
  "('g \<Rightarrow> real \<times> 'g) \<Rightarrow> 'g \<Rightarrow> (vec3 \<times> 'g) option" where
  "rand_in_unit_disk_on rnd s =
    (let (p, s') = disk_candidate rnd s
     in if dot p p < 1 then Some (p, s') else rand_in_unit_disk_on rnd s')"

definition rand_in_unit_sphere :: "u32 \<Rightarrow> (vec3 \<times> u32) option" where
  "rand_in_unit_sphere = rand_in_unit_sphere_on rand"

definition rand_in_unit_disk :: "u32 \<Rightarrow> (vec3 \<times> u32) option" where
  "rand_in_unit_disk = rand_in_unit_disk_on rand"

definition rand_unit_vector :: "u32 \<Rightarrow> (vec3 \<times> u32) option" where
  "rand_unit_vector s = map_option (\<lambda>(p, s'). (normalize p, s')) (rand_in_unit_sphere s)"

section \<open>Scene records\<close>

text \<open>The records of the kernel, without their padding fields. The fields of a
  \<open>HitRecord\<close> carry the prefix \<open>rec_\<close> and those of \<open>CameraData\<close> the prefix \<open>cam_\<close>.\<close>

record Uniforms =
  width :: u32
  height :: u32
  frameIndex :: u32
  maxBounces :: u32
  numSpheres :: u32
  numMaterials :: u32
  sampleCount :: u32

record CameraData =
  cam_origin :: vec3
  cam_lowerLeftCorner :: vec3
  cam_horizontal :: vec3
  cam_vertical :: vec3
  cam_u :: vec3
  cam_v :: vec3
  cam_w :: vec3
  cam_lensRadius :: real

record SphereData =
  center :: vec3
  radius :: real
  materialIndex :: u32

record MaterialData =
  albedo :: vec3
  materialType :: u32
  fuzz :: real
  refractionIndex :: real

record HitRecord =
  rec_t :: real
  rec_p :: vec3
  rec_normal :: vec3
  rec_frontFace :: bool
  rec_materialIndex :: u32

text \<open>A \<open>var\<close> without initialiser holds the zero value of its type.\<close>

definition zero_HitRecord :: HitRecord where
  "zero_HitRecord =
    \<lparr>rec_t = 0, rec_p = splat 0, rec_normal = splat 0, rec_frontFace = False,
     rec_materialIndex = 0\<rparr>"

text \<open>
  \<open>spheres[i]\<close> and \<open>materials[i]\<close> read storage buffers. The scan reads \<open>spheres[i]\<close> only
  for \<open>i < numSpheres\<close>, and the host sets \<open>numSpheres\<close> to the length of the list. A read
  past the end of a table is left undefined by the specification (a caller contract); the
  model returns the zero record there.
\<close>

definition sphere_at :: "SphereData list \<Rightarrow> nat \<Rightarrow> SphereData" where
  "sphere_at spheres i =
    (if i < length spheres then spheres ! i
     else \<lparr>center = splat 0, radius = 0, materialIndex = 0\<rparr>)"

definition material_at :: "MaterialData list \<Rightarrow> u32 \<Rightarrow> MaterialData" where
  "material_at materials i =
    (if unat i < length materials then materials ! unat i
     else \<lparr>albedo = splat 0, materialType = 0, fuzz = 0, refractionIndex = 0\<rparr>)"

section \<open>Vector helpers of the kernel\<close>

definition near_zero :: "vec3 \<Rightarrow> bool" where
  "near_zero v =
    (let s = 1 / 10 ^ 8 in \<bar>vx v\<bar> < s \<and> \<bar>vy v\<bar> < s \<and> \<bar>vz v\<bar> < s)"

definition reflect :: "vec3 \<Rightarrow> vec3 \<Rightarrow> vec3" where
  "reflect v n = vsub v (smul (2 * dot v n) n)"

definition refract :: "vec3 \<Rightarrow> vec3 \<Rightarrow> real \<Rightarrow> vec3" where
  "refract uv n etai_over_etat =
    (let cos_theta = min (dot (vneg uv) n) 1;
         r_out_perp = smul etai_over_etat (vadd uv (smul cos_theta n));
         r_out_parallel = smul (- sqrt \<bar>1 - dot r_out_perp r_out_perp\<bar>) n
     in vadd r_out_perp r_out_parallel)"

definition reflectance :: "real \<Rightarrow> real \<Rightarrow> real" where
  "reflectance cosine ref_idx =
    (let r0 = (1 - ref_idx) / (1 + ref_idx);
         r0' = r0 * r0
     in r0' + (1 - r0') * ((1 - cosine) powr 5))"

section \<open>Intersection engine\<close>

text \<open>\<open>hitSphere\<close> returns the accepted root, or the sentinel \<open>-1\<close> for no hit.\<close>

definition hitSphere :: "SphereData \<Rightarrow> vec3 \<Rightarrow> vec3 \<Rightarrow> real \<Rightarrow> real \<Rightarrow> real" where
  "hitSphere sphere rayOrigin rayDir tMin tMax =
    (let oc = vsub rayOrigin (center sphere);
         a = dot rayDir rayDir;
         halfB = dot oc rayDir;
         c = dot oc oc - radius sphere * radius sphere;
         discriminant = halfB * halfB - a * c
     in if discriminant < 0 then - 1
        else
          let sqrtd = sqrt discriminant;
              root = (- halfB - sqrtd) / a
          in if root < tMin \<or> root > tMax
             then (let root' = (- halfB + sqrtd) / a
                   in if root' < tMin \<or> root' > tMax then - 1 else root')
             else root)"

text \<open>
  The kernel computes in \<open>f32\<close>. Above, and in the rest of the kernel, \<open>f32\<close> is taken as the
  reals. \<open>hitSphere_with rnd\<close> is the same function with the result of every operation
  passed through \<open>rnd\<close>: with the identity it is \<open>hitSphere\<close>, and with \<open>f32\<close>, rounding to
  the nearest binary32 value, ties to even, it is \<open>hitSphere\<close> as the device computes it.
  \<open>f32\<close> keeps 24 significant bits and leaves the exponent unbounded (no overflow, no
  subnormal numbers); negation is exact; \<open>dot\<close> is the sum of the rounded products, from
  the left.
\<close>

definition round_even :: "real \<Rightarrow> int" where
  "round_even x =
    (let f = \<lfloor>x\<rfloor>; d = x - of_int f
     in if d < 1 / 2 then f else if 1 / 2 < d then f + 1 else if even f then f else f + 1)"

definition f32 :: "real \<Rightarrow> real" where
  "f32 x =
    (if x = 0 then 0
     else
       let ulp = 2 powr of_int (\<lfloor>log 2 \<bar>x\<bar>\<rfloor> - 23)
       in sgn x * (of_int (round_even (\<bar>x\<bar> / ulp)) * ulp))"

definition vsub_with :: "(real \<Rightarrow> real) \<Rightarrow> vec3 \<Rightarrow> vec3 \<Rightarrow> vec3" where
  "vsub_with rnd a b = vec3f (rnd (vx a - vx b)) (rnd (vy a - vy b)) (rnd (vz a - vz b))"

definition dot_with :: "(real \<Rightarrow> real) \<Rightarrow> vec3 \<Rightarrow> vec3 \<Rightarrow> real" where
  "dot_with rnd a b =
    rnd (rnd (rnd (vx a * vx b) + rnd (vy a * vy b)) + rnd (vz a * vz b))"

definition hitSphere_with ::
  "(real \<Rightarrow> real) \<Rightarrow> SphereData \<Rightarrow> vec3 \<Rightarrow> vec3 \<Rightarrow> real \<Rightarrow> real \<Rightarrow> real" where
  "hitSphere_with rnd sphere rayOrigin rayDir tMin tMax =
    (let oc = vsub_with rnd rayOrigin (center sphere);
         a = dot_with rnd rayDir rayDir;
         halfB = dot_with rnd oc rayDir;
         c = rnd (dot_with rnd oc oc - rnd (radius sphere * radius sphere));
         discriminant = rnd (rnd (halfB * halfB) - rnd (a * c))
     in if discriminant < 0 then - 1
        else
          let sqrtd = rnd (sqrt discriminant);
              root = rnd (rnd (- halfB - sqrtd) / a)
          in if root < tMin \<or> root > tMax
             then (let root' = rnd (rnd (- halfB + sqrtd) / a)
                   in if root' < tMin \<or> root' > tMax then - 1 else root')
             else root)"

definition hitSphere_f32 :: "SphereData \<Rightarrow> vec3 \<Rightarrow> vec3 \<Rightarrow> real \<Rightarrow> real \<Rightarrow> real" where
  "hitSphere_f32 = hitSphere_with f32"

text \<open>The record that the scan writes when sphere \<open>sphere\<close> is hit at parameter \<open>t\<close>
  (the assignments to \<open>rec\<close> in the body of the loop of \<open>closestHit\<close>).\<close>

definition hit_record :: "SphereData \<Rightarrow> vec3 \<Rightarrow> vec3 \<Rightarrow> real \<Rightarrow> HitRecord" where
  "hit_record sphere rayOrigin rayDir t =
    (let p = vadd rayOrigin (smul t rayDir);
         outward = vdiv (vsub p (center sphere)) (radius sphere);
         front = dot rayDir outward < 0
     in \<lparr>rec_t = t, rec_p = p,
         rec_normal = (if front then outward else vneg outward),
         rec_frontFace = front,
         rec_materialIndex = materialIndex sphere\<rparr>)"

text \<open>The loop state is \<open>(closestSoFar, hitAnything, rec)\<close>; one step tests sphere \<open>i\<close>.\<close>

definition closestHit_step ::
  "SphereData list \<Rightarrow> vec3 \<Rightarrow> vec3 \<Rightarrow> real \<Rightarrow> nat \<Rightarrow> real \<times> bool \<times> HitRecord
    \<Rightarrow> real \<times> bool \<times> HitRecord" where
  "closestHit_step spheres rayOrigin rayDir tMin i st =
    (case st of (closestSoFar, hitAnything, rec) \<Rightarrow>
      let t = hitSphere (sphere_at spheres i) rayOrigin rayDir tMin closestSoFar
      in if t > 0 then (t, True, hit_record (sphere_at spheres i) rayOrigin rayDir t)
         else (closestSoFar, hitAnything, rec))"

definition closestHit_scan ::
  "SphereData list \<Rightarrow> vec3 \<Rightarrow> vec3 \<Rightarrow> real \<Rightarrow> real \<Rightarrow> nat \<Rightarrow> real \<times> bool \<times> HitRecord" where
  "closestHit_scan spheres rayOrigin rayDir tMin tMax n =
    fold (closestHit_step spheres rayOrigin rayDir tMin) [0..<n] (tMax, False, zero_HitRecord)"

definition closestHit ::
  "Uniforms \<Rightarrow> SphereData list \<Rightarrow> vec3 \<Rightarrow> vec3 \<Rightarrow> real \<Rightarrow> real \<Rightarrow> HitRecord" where
  "closestHit uniforms spheres rayOrigin rayDir tMin tMax =
    (case closestHit_scan spheres rayOrigin rayDir tMin tMax (unat (numSpheres uniforms)) of
      (closestSoFar, hitAnything, rec) \<Rightarrow>
        if \<not> hitAnything then rec\<lparr>rec_t := - 1\<rparr> else rec)"

section \<open>Material scattering and the path integrator\<close>

text \<open>
  The dielectric branch of \<open>rayColor\<close>. The condition
  \<open>cannotRefract || reflectance(...) > rand()\<close> short-circuits: \<open>rand\<close> is called, and the
  generator advanced, only when \<open>cannotRefract\<close> is false. Besides the new direction and
  generator state the model returns which of the two assignments to \<open>direction\<close> ran.
\<close>

datatype branch = Reflected | Refracted

definition dielectric_scatter ::
  "MaterialData \<Rightarrow> HitRecord \<Rightarrow> vec3 \<Rightarrow> u32 \<Rightarrow> branch \<times> vec3 \<times> u32" where
  "dielectric_scatter material rec currentDir s =
    (let refractionRatio =
           (if rec_frontFace rec then 1 / refractionIndex material
            else refractionIndex material);
         unitDir = normalize currentDir;
         cosTheta = min (dot (vneg unitDir) (rec_normal rec)) 1;
         sinTheta = sqrt (1 - cosTheta * cosTheta);
         cannotRefract = refractionRatio * sinTheta > 1
     in if cannotRefract then (Reflected, reflect unitDir (rec_normal rec), s)
        else
          let (r, s') = rand s
          in if reflectance cosTheta refractionRatio > r
             then (Reflected, reflect unitDir (rec_normal rec), s')
             else (Refracted, refract unitDir (rec_normal rec) refractionRatio, s'))"

definition skyColor :: "vec3 \<Rightarrow> vec3" where
  "skyColor currentDir =
    (let unitDir = normalize currentDir;
         t = 0.5 * (vy unitDir + 1)
     in vadd (smul (1 - t) (vec3f 1 1 1)) (smul t (vec3f 0.5 0.7 1)))"

text \<open>The bounce loop of \<open>rayColor\<close>; the first argument counts the iterations that
  remain, \<open>depth - i\<close>. The result is \<open>None\<close> when a rejection sampler does not return.\<close>

fun rayColor_loop ::
  "Uniforms \<Rightarrow> SphereData list \<Rightarrow> MaterialData list \<Rightarrow> nat \<Rightarrow> vec3 \<Rightarrow> vec3 \<Rightarrow> vec3
    \<Rightarrow> u32 \<Rightarrow> (vec3 \<times> u32) option" where
  "rayColor_loop uniforms spheres materials 0 currentOrigin currentDir throughput s =
    Some (splat 0, s)"
| "rayColor_loop uniforms spheres materials (Suc n) currentOrigin currentDir throughput s =
    (let rec = closestHit uniforms spheres currentOrigin currentDir 0.001 (10 ^ 30)
     in if rec_t rec < 0 then Some (vmul throughput (skyColor currentDir), s)
        else
          let material = material_at materials (rec_materialIndex rec)
          in if materialType material = 0 then
               (case rand_unit_vector s of
                  None \<Rightarrow> None
                | Some (rv, s') \<Rightarrow>
                    let scatterDir = vadd (rec_normal rec) rv;
                        scatterDir' = (if near_zero scatterDir then rec_normal rec else scatterDir)
                    in rayColor_loop uniforms spheres materials n (rec_p rec) scatterDir'
                         (vmul throughput (albedo material)) s')
             else if materialType material = 1 then
               (let reflected = reflect currentDir (rec_normal rec)
                in case rand_in_unit_sphere s of
                     None \<Rightarrow> None
                   | Some (rp, s') \<Rightarrow>
                       let scattered = vadd reflected (smul (fuzz material) rp)
                       in if dot scattered (rec_normal rec) \<le> 0 then Some (splat 0, s')
                          else rayColor_loop uniforms spheres materials n (rec_p rec) scattered
                                 (vmul throughput (albedo material)) s')
             else if materialType material = 2 then
               (case dielectric_scatter material rec currentDir s of
                  (b, direction, s') \<Rightarrow>
                    rayColor_loop uniforms spheres materials n (rec_p rec) direction
                      (vmul throughput (albedo material)) s')
             else rayColor_loop uniforms spheres materials n currentOrigin currentDir
                    throughput s)"

definition rayColor ::
  "Uniforms \<Rightarrow> SphereData list \<Rightarrow> MaterialData list \<Rightarrow> vec3 \<Rightarrow> vec3 \<Rightarrow> u32 \<Rightarrow> u32
    \<Rightarrow> (vec3 \<times> u32) option" where
  "rayColor uniforms spheres materials rayOrigin rayDir depth s =
    rayColor_loop uniforms spheres materials (unat depth) rayOrigin rayDir (vec3f 1 1 1) s"

section \<open>The kernel entry point\<close>

text \<open>
  A texture is a finite map from texel coordinates to four-component values; its domain is
  its extent. A store outside the extent is discarded, and a load outside it is taken to
  return zeros. The accumulation texture is \<open>rgba32float\<close>; the output texture is
  \<open>rgba8unorm\<close>, whose rounding to eight bits per channel is not modelled.
\<close>

datatype vec4 = vec4f (rgb: vec3) (alpha: real)

type_synonym texture = "int \<times> int \<rightharpoonup> vec4"

definition textureLoad :: "texture \<Rightarrow> int \<times> int \<Rightarrow> vec4" where
  "textureLoad tex pixel = (case tex pixel of Some c \<Rightarrow> c | None \<Rightarrow> vec4f (splat 0) 0)"

definition textureStore :: "texture \<Rightarrow> int \<times> int \<Rightarrow> vec4 \<Rightarrow> texture" where
  "textureStore tex pixel c = (if tex pixel = None then tex else tex(pixel \<mapsto> c))"

definition clamp01 :: "vec3 \<Rightarrow> vec3" where
  "clamp01 c = vec3f (min (max (vx c) 0) 1) (min (max (vy c) 0) 1) (min (max (vz c) 0) 1)"

definition vpow :: "vec3 \<Rightarrow> real \<Rightarrow> vec3" where
  "vpow c e = vec3f (vx c powr e) (vy c powr e) (vz c powr e)"

text \<open>One sample of pixel \<open>(px, py)\<close>: the body of the \<open>for\<close> loop of \<open>main\<close>. The
  loop state is \<open>(accumulatedColor, sampleCount, rngState)\<close>.\<close>

definition main_sample ::
  "Uniforms \<Rightarrow> CameraData \<Rightarrow> SphereData list \<Rightarrow> MaterialData list \<Rightarrow> u32 \<Rightarrow> u32 \<Rightarrow> vec3
    \<Rightarrow> vec3 \<times> u32 \<times> u32 \<Rightarrow> (vec3 \<times> u32 \<times> u32) option" where
  "main_sample uniforms camera spheres materials px py offset st =
    (case st of (accumulatedColor, sampleCount', s) \<Rightarrow>
      let (r1, s1) = rand s;
          u = (real_of_int (sint px) + r1) / real (unat (width uniforms));
          (r2, s2) = rand s1;
          v = (real_of_int (sint py) + r2) / real (unat (height uniforms));
          rayDir = vsub (vsub (vadd (vadd (cam_lowerLeftCorner camera)
                     (smul u (cam_horizontal camera))) (smul v (cam_vertical camera)))
                     (cam_origin camera)) offset;
          rayOrigin = vadd (cam_origin camera) offset
      in case rayColor uniforms spheres materials rayOrigin rayDir (maxBounces uniforms) s2 of
           None \<Rightarrow> None
         | Some (color, s3) \<Rightarrow> Some (vadd accumulatedColor color, sampleCount' + 1, s3))"

text \<open>The loop \<open>for (var s = 0u; s < 1u; s++)\<close>, by the number of iterations that remain.\<close>

fun main_samples ::
  "Uniforms \<Rightarrow> CameraData \<Rightarrow> SphereData list \<Rightarrow> MaterialData list \<Rightarrow> u32 \<Rightarrow> u32 \<Rightarrow> vec3
    \<Rightarrow> nat \<Rightarrow> vec3 \<times> u32 \<times> u32 \<Rightarrow> (vec3 \<times> u32 \<times> u32) option" where
  "main_samples uniforms camera spheres materials px py offset 0 st = Some st"
| "main_samples uniforms camera spheres materials px py offset (Suc k) st =
    (case main_sample uniforms camera spheres materials px py offset st of
       None \<Rightarrow> None
     | Some st' \<Rightarrow> main_samples uniforms camera spheres materials px py offset k st')"

text \<open>Lines 244 to 264 of the kernel: seed the generator, read the accumulation cell,
  sample the lens, run the sample loop. The result is the final
  \<open>(accumulatedColor, sampleCount)\<close>.\<close>

definition main_accumulate ::
  "Uniforms \<Rightarrow> CameraData \<Rightarrow> SphereData list \<Rightarrow> MaterialData list \<Rightarrow> u32 \<Rightarrow> u32 \<Rightarrow> vec4
    \<Rightarrow> (vec3 \<times> u32) option" where
  "main_accumulate uniforms camera spheres materials px py prevColor =
    (let rngState = pcg_hash (px + py * width uniforms
                      + frameIndex uniforms * width uniforms * height uniforms)
     in case rand_in_unit_disk rngState of
          None \<Rightarrow> None
        | Some (d, s1) \<Rightarrow>
            let rd = smul (cam_lensRadius camera) d;
                offset = vadd (vscale (cam_u camera) (vx rd)) (vscale (cam_v camera) (vy rd))
            in case main_samples uniforms camera spheres materials px py offset
                      (unat (1 :: u32)) (rgb prevColor, sampleCount uniforms, s1) of
                 None \<Rightarrow> None
               | Some (accumulatedColor, sampleCount', s2) \<Rightarrow>
                   Some (accumulatedColor, sampleCount'))"

text \<open>Lines 268 and 269: the average and its gamma correction.\<close>

definition main_output :: "vec3 \<Rightarrow> u32 \<Rightarrow> vec3" where
  "main_output accumulatedColor sampleCount' =
    (let avgColor = vdiv accumulatedColor (real (unat sampleCount'))
     in vpow (clamp01 avgColor) (1 / 2.2))"

text \<open>One invocation of \<open>main\<close> on the pair \<open>(outputTex, accumulationTex)\<close>. The two
  components of \<open>globalId\<close> are reinterpreted as \<open>i32\<close> by \<open>vec2i\<close>, hence \<open>sint\<close>.\<close>

definition main ::
  "Uniforms \<Rightarrow> CameraData \<Rightarrow> SphereData list \<Rightarrow> MaterialData list \<Rightarrow> u32 \<times> u32
    \<Rightarrow> texture \<times> texture \<Rightarrow> (texture \<times> texture) option" where
  "main uniforms camera spheres materials globalId texs =
    (case globalId of (px, py) \<Rightarrow> case texs of (outputTex, accumulationTex) \<Rightarrow>
      if sint px \<ge> sint (width uniforms) \<or> sint py \<ge> sint (height uniforms)
      then Some (outputTex, accumulationTex)
      else
        let pixel = (sint px, sint py);
            prevColor = textureLoad accumulationTex pixel
        in case main_accumulate uniforms camera spheres materials px py prevColor of
             None \<Rightarrow> None
           | Some (accumulatedColor, sampleCount') \<Rightarrow>
               let accumulationTex' =
                     textureStore accumulationTex pixel (vec4f accumulatedColor 1);
                   gammaColor = main_output accumulatedColor sampleCount'
               in Some (textureStore outputTex pixel (vec4f gammaColor 1), accumulationTex'))"

section \<open>The host: \<open>Raytracer\<close>\<close>

text \<open>
  The invocations of one \<open>dispatchWorkgroups(nx, ny)\<close> with workgroups of 8 by 8. Each
  invocation reads and writes only the texels of its own pixel, so running them one after
  the other gives the result of running them in parallel. An invocation that does not
  return has not reached its two \<open>textureStore\<close>s, which are the last statements of
  \<open>main\<close>: it leaves the textures as they are and does not hold back the other invocations.
\<close>

definition invocations :: "nat \<Rightarrow> nat \<Rightarrow> (u32 \<times> u32) list" where
  "invocations nx ny =
    concat (map (\<lambda>y. map (\<lambda>x. (of_nat x, of_nat y)) [0..<8 * nx]) [0..<8 * ny])"

fun run_invocations ::
  "Uniforms \<Rightarrow> CameraData \<Rightarrow> SphereData list \<Rightarrow> MaterialData list \<Rightarrow> (u32 \<times> u32) list
    \<Rightarrow> texture \<times> texture \<Rightarrow> texture \<times> texture" where
  "run_invocations uniforms camera spheres materials [] texs = texs"
| "run_invocations uniforms camera spheres materials (g # gs) texs =
    run_invocations uniforms camera spheres materials gs
      (case main uniforms camera spheres materials g texs of
         None \<Rightarrow> texs
       | Some texs' \<Rightarrow> texs')"

definition dispatchWorkgroups ::
  "Uniforms \<Rightarrow> CameraData \<Rightarrow> SphereData list \<Rightarrow> MaterialData list \<Rightarrow> nat \<Rightarrow> nat
    \<Rightarrow> texture \<times> texture \<Rightarrow> texture \<times> texture" where
  "dispatchWorkgroups uniforms camera spheres materials nx ny texs =
    run_invocations uniforms camera spheres materials (invocations nx ny) texs"

text \<open>
  The scene as the host receives it. The types \<open>CameraParams\<close>, \<open>Sphere\<close>, \<open>Material\<close>
  and \<open>SceneData\<close> are declared in the module \<open>scene\<close>; their fields are those that
  \<open>Raytracer.ts\<close> reads, with a prefix. JavaScript numbers are reals, and integers where
  the code uses them as counts or indices.
\<close>

record CameraParams =
  cp_origin :: vec3
  cp_lookAt :: vec3
  cp_up :: vec3
  cp_fov :: real
  cp_aperture :: real
  cp_focusDistance :: real

record Sphere =
  sp_center :: vec3
  sp_radius :: real
  sp_materialIndex :: nat

record Material =
  mt_type :: nat
  mt_albedo :: vec3
  mt_fuzz :: real
  mt_refractionIndex :: real

record SceneData =
  scene_spheres :: "Sphere list"
  scene_materials :: "Material list"
  scene_camera :: CameraParams

record RenderSettings =
  samplesPerFrame :: int
  settings_maxBounces :: int
  settings_width :: int
  settings_height :: int

text \<open>\<open>ready\<close> stands for the pipeline, the bind group and the buffers being set, which
  \<open>initialize\<close> does at once.\<close>

record Raytracer =
  ready :: bool
  rt_frameIndex :: int
  rt_sampleCount :: int
  rt_width :: int
  rt_height :: int
  outputTexture :: texture
  accumulationTexture :: texture

datatype error = PipelineNotInitialized | ResourcesNotInitialized

text \<open>A call either returns a value or throws; both leave a state of the object.\<close>

datatype 'a outcome = Returned 'a (state_of: Raytracer) | Threw error (state_of: Raytracer)

text \<open>\<open>device.createTexture\<close>: a texture of the given extent, all zeros.\<close>

definition createTexture :: "int \<Rightarrow> int \<Rightarrow> texture" where
  "createTexture w h =
    (\<lambda>(x, y). if 0 \<le> x \<and> x < w \<and> 0 \<le> y \<and> y < h then Some (vec4f (splat 0) 0) else None)"

text \<open>The \<open>Uint32Array\<close> written to the uniform buffer; a number is stored modulo
  \<open>2 ^ 32\<close>.\<close>

definition uniformData :: "Raytracer \<Rightarrow> SceneData \<Rightarrow> RenderSettings \<Rightarrow> Uniforms" where
  "uniformData rt scene settings =
    \<lparr>width = word_of_int (settings_width settings),
     height = word_of_int (settings_height settings),
     frameIndex = word_of_int (rt_frameIndex rt),
     maxBounces = word_of_int (settings_maxBounces settings),
     numSpheres = of_nat (length (scene_spheres scene)),
     numMaterials = of_nat (length (scene_materials scene)),
     sampleCount = word_of_int (rt_sampleCount rt)\<rparr>"

text \<open>The private vector helper \<open>cross\<close> of the host; \<open>subtract\<close>, \<open>scale\<close> and
  \<open>normalize\<close> are \<open>vsub\<close>, \<open>vscale\<close> and \<open>normalize\<close> above.\<close>

definition cross :: "vec3 \<Rightarrow> vec3 \<Rightarrow> vec3" where
  "cross a b =
    vec3f (vy a * vz b - vz a * vy b) (vz a * vx b - vx a * vz b) (vx a * vy b - vy a * vx b)"

text \<open>\<open>buildCameraData\<close>: the camera block, from the renderer's own \<open>width\<close> and
  \<open>height\<close> and the camera parameters of the scene.\<close>

definition buildCameraData :: "Raytracer \<Rightarrow> CameraParams \<Rightarrow> CameraData" where
  "buildCameraData rt camera =
    (let aspectRatio = real_of_int (rt_width rt) / real_of_int (rt_height rt);
         theta = cp_fov camera * pi / 180;
         h = tan (theta / 2);
         viewportHeight = 2 * h;
         viewportWidth = aspectRatio * viewportHeight;
         w = normalize (vsub (cp_origin camera) (cp_lookAt camera));
         u = normalize (cross (cp_up camera) w);
         v = cross w u;
         horizontal = vscale u (viewportWidth * cp_focusDistance camera);
         vertical = vscale v (viewportHeight * cp_focusDistance camera);
         lowerLeftCorner =
           vsub (vsub (vsub (cp_origin camera) (vscale horizontal 0.5)) (vscale vertical 0.5))
                (vscale w (cp_focusDistance camera))
     in \<lparr>cam_origin = cp_origin camera, cam_lowerLeftCorner = lowerLeftCorner,
         cam_horizontal = horizontal, cam_vertical = vertical,
         cam_u = u, cam_v = v, cam_w = w, cam_lensRadius = cp_aperture camera / 2\<rparr>)"

text \<open>
  \<open>buildSphereData\<close> and \<open>buildMaterialData\<close> fill a \<open>Float32Array\<close>, also at the places
  of \<open>materialIndex\<close> and \<open>type\<close>, which the kernel declares \<open>u32\<close>: the kernel reads there
  the bit pattern of the number converted to binary32. \<open>float32_bits n\<close> is that pattern for
  a natural number \<open>n\<close>: zero for 0, and otherwise the biased exponent followed by the 23
  bits of the significand, rounded to nearest, ties to even (an overflow gives the pattern
  of infinity).
\<close>

fun bit_length :: "nat \<Rightarrow> nat" where
  "bit_length n = (if n = 0 then 0 else Suc (bit_length (n div 2)))"

declare bit_length.simps [simp del]

definition float32_bits :: "nat \<Rightarrow> u32" where
  "float32_bits n =
    (if n = 0 then 0
     else
       let e = bit_length n - 1;
           q = (if e \<le> 23 then n * 2 ^ (23 - e) else n div 2 ^ (e - 23));
           r = (if e \<le> 23 then 0 else n mod 2 ^ (e - 23));
           half = (if e \<le> 23 then 1 else 2 ^ (e - 24));
           m = (if r > half \<or> (r = half \<and> odd q) then q + 1 else q);
           bits = (e + 127) * 2 ^ 23 + (m - 2 ^ 23)
       in if bits \<ge> 255 * 2 ^ 23 then of_nat (255 * 2 ^ 23) else of_nat bits)"

definition buildSphereData :: "Sphere list \<Rightarrow> SphereData list" where
  "buildSphereData spheres =
    map (\<lambda>s. \<lparr>center = sp_center s, radius = sp_radius s,
              materialIndex = float32_bits (sp_materialIndex s)\<rparr>) spheres"

definition buildMaterialData :: "Material list \<Rightarrow> MaterialData list" where
  "buildMaterialData materials =
    map (\<lambda>m. \<lparr>albedo = mt_albedo m, materialType = float32_bits (mt_type m),
              fuzz = mt_fuzz m, refractionIndex = mt_refractionIndex m\<rparr>) materials"

text \<open>
  \<open>render\<close>: the check of the pipeline, the uniform block and the three tables written to
  their buffers, one dispatch of \<open>\<lceil>width / 8\<rceil>\<close> by \<open>\<lceil>height / 8\<rceil>\<close> workgroups on the
  two textures, and the two counters. \<open>render\<close> returns the counter as soon as the
  commands are submitted; the texture fields of the state are what the submitted dispatch
  leaves in the two textures. The copy of the output texture to the texture of the canvas
  changes neither of them and no field of the object; it is taken to be a valid command (a
  canvas configured as a copy destination of a compatible format), so that the submission
  runs. The kernel is taken to read the tables of the scene passed to this call:
  \<open>initialize\<close> sized the buffers for its scene, and what a buffer holds from an earlier
  scene, when a table is empty and not written or shorter than before, is not modelled.
\<close>

definition render :: "Raytracer \<Rightarrow> SceneData \<Rightarrow> RenderSettings \<Rightarrow> int outcome" where
  "render rt scene settings =
    (if \<not> ready rt then Threw PipelineNotInitialized rt
     else
       case dispatchWorkgroups (uniformData rt scene settings)
              (buildCameraData rt (scene_camera scene))
              (buildSphereData (scene_spheres scene))
              (buildMaterialData (scene_materials scene))
              (nat \<lceil>real_of_int (settings_width settings) / 8\<rceil>)
              (nat \<lceil>real_of_int (settings_height settings) / 8\<rceil>)
              (outputTexture rt, accumulationTexture rt) of
         (outputTex, accumulationTex) \<Rightarrow>
           let rt' = rt\<lparr>outputTexture := outputTex, accumulationTexture := accumulationTex,
                        rt_frameIndex := rt_frameIndex rt + 1,
                        rt_sampleCount := rt_sampleCount rt + samplesPerFrame settings\<rparr>
           in Returned (rt_sampleCount rt') rt')"

text \<open>\<open>resetAccumulation\<close>; \<open>createBindGroup\<close> throws when the resources are not set.\<close>

definition resetAccumulation :: "Raytracer \<Rightarrow> unit outcome" where
  "resetAccumulation rt =
    (let rt' = rt\<lparr>rt_frameIndex := 0, rt_sampleCount := 0,
                   accumulationTexture := createTexture (rt_width rt) (rt_height rt)\<rparr>
     in if \<not> ready rt' then Threw ResourcesNotInitialized rt' else Returned () rt')"

section \<open>Notions used in the statements\<close>

text \<open>
  The definitions below are not code of the repository: they name what the theorems speak
  about. \<open>sphere_skip rnd n s\<close> is the generator state after \<open>n\<close> candidates of the sphere
  sampler have been drawn from \<open>s\<close>, and \<open>sphere_accepts rnd s\<close> says that the candidate
  drawn at \<open>s\<close> passes the test of the loop; likewise for the disk.
\<close>

primrec sphere_skip :: "('g \<Rightarrow> real \<times> 'g) \<Rightarrow> nat \<Rightarrow> 'g \<Rightarrow> 'g" where
  "sphere_skip rnd 0 s = s"
| "sphere_skip rnd (Suc n) s = sphere_skip rnd n (snd (sphere_candidate rnd s))"

definition sphere_accepts :: "('g \<Rightarrow> real \<times> 'g) \<Rightarrow> 'g \<Rightarrow> bool" where
  "sphere_accepts rnd s = (let p = fst (sphere_candidate rnd s) in dot p p < 1)"

primrec disk_skip :: "('g \<Rightarrow> real \<times> 'g) \<Rightarrow> nat \<Rightarrow> 'g \<Rightarrow> 'g" where
  "disk_skip rnd 0 s = s"
| "disk_skip rnd (Suc n) s = disk_skip rnd n (snd (disk_candidate rnd s))"

definition disk_accepts :: "('g \<Rightarrow> real \<times> 'g) \<Rightarrow> 'g \<Rightarrow> bool" where
  "disk_accepts rnd s = (let p = fst (disk_candidate rnd s) in dot p p < 1)"

text \<open>A faulty generator: it returns the draw 0, which lies in the range of \<open>rand\<close>, and
  never changes its state.\<close>

definition stuck :: "u32 \<Rightarrow> real \<times> u32" where
  "stuck s = (0, s)"

text \<open>
  The quadratic of a ray and a sphere, as \<open>hitSphere\<close> sets it up: \<open>a t\<^sup>2 + 2 halfB t + c = 0\<close>
  with discriminant \<open>halfB\<^sup>2 - a c\<close> and the two roots \<open>root_near \<le> root_far\<close>.
  \<open>ray_at\<close> is the point of the ray at parameter \<open>t\<close> and \<open>dist_sq\<close> is its squared distance
  from the centre of the sphere. \<open>line_approach_sq\<close> is the squared distance of closest
  approach of the whole line to the centre; \<open>ray_approach_sq\<close> is that of the ray proper,
  the parameters \<open>t \<ge> 0\<close>.
\<close>

definition quad_halfB :: "SphereData \<Rightarrow> vec3 \<Rightarrow> vec3 \<Rightarrow> real" where
  "quad_halfB sphere rayOrigin rayDir = dot (vsub rayOrigin (center sphere)) rayDir"

definition quad_c :: "SphereData \<Rightarrow> vec3 \<Rightarrow> real" where
  "quad_c sphere rayOrigin =
    dot (vsub rayOrigin (center sphere)) (vsub rayOrigin (center sphere))
      - radius sphere * radius sphere"

definition quad_discriminant :: "SphereData \<Rightarrow> vec3 \<Rightarrow> vec3 \<Rightarrow> real" where
  "quad_discriminant sphere rayOrigin rayDir =
    quad_halfB sphere rayOrigin rayDir * quad_halfB sphere rayOrigin rayDir
      - dot rayDir rayDir * quad_c sphere rayOrigin"

definition root_near :: "SphereData \<Rightarrow> vec3 \<Rightarrow> vec3 \<Rightarrow> real" where
  "root_near sphere rayOrigin rayDir =
    (- quad_halfB sphere rayOrigin rayDir - sqrt (quad_discriminant sphere rayOrigin rayDir))
      / dot rayDir rayDir"

definition root_far :: "SphereData \<Rightarrow> vec3 \<Rightarrow> vec3 \<Rightarrow> real" where
  "root_far sphere rayOrigin rayDir =
    (- quad_halfB sphere rayOrigin rayDir + sqrt (quad_discriminant sphere rayOrigin rayDir))
      / dot rayDir rayDir"

definition ray_at :: "vec3 \<Rightarrow> vec3 \<Rightarrow> real \<Rightarrow> vec3" where
  "ray_at rayOrigin rayDir t = vadd rayOrigin (smul t rayDir)"

definition dist_sq :: "SphereData \<Rightarrow> vec3 \<Rightarrow> real" where
  "dist_sq sphere p = dot (vsub p (center sphere)) (vsub p (center sphere))"

definition line_approach_sq :: "SphereData \<Rightarrow> vec3 \<Rightarrow> vec3 \<Rightarrow> real" where
  "line_approach_sq sphere rayOrigin rayDir =
    dist_sq sphere rayOrigin
      - quad_halfB sphere rayOrigin rayDir * quad_halfB sphere rayOrigin rayDir
          / dot rayDir rayDir"

definition ray_approach_sq :: "SphereData \<Rightarrow> vec3 \<Rightarrow> vec3 \<Rightarrow> real" where
  "ray_approach_sq sphere rayOrigin rayDir =
    (if 0 \<le> quad_halfB sphere rayOrigin rayDir then dist_sq sphere rayOrigin
     else line_approach_sq sphere rayOrigin rayDir)"

definition in_range :: "real \<Rightarrow> real \<Rightarrow> real \<Rightarrow> bool" where
  "in_range tMin tMax t = (tMin \<le> t \<and> t \<le> tMax)"

text \<open>The quantities of \<open>hitSphere\<close> as computed in binary32, named as in the kernel, and
  a unit sphere far from the origin, five units off the \<open>z\<close> axis.\<close>

definition f32_a :: "vec3 \<Rightarrow> real" where
  "f32_a rayDir = dot_with f32 rayDir rayDir"

definition f32_halfB :: "SphereData \<Rightarrow> vec3 \<Rightarrow> vec3 \<Rightarrow> real" where
  "f32_halfB sphere rayOrigin rayDir =
    dot_with f32 (vsub_with f32 rayOrigin (center sphere)) rayDir"

definition f32_c :: "SphereData \<Rightarrow> vec3 \<Rightarrow> real" where
  "f32_c sphere rayOrigin =
    f32 (dot_with f32 (vsub_with f32 rayOrigin (center sphere))
           (vsub_with f32 rayOrigin (center sphere))
         - f32 (radius sphere * radius sphere))"

definition f32_discriminant :: "SphereData \<Rightarrow> vec3 \<Rightarrow> vec3 \<Rightarrow> real" where
  "f32_discriminant sphere rayOrigin rayDir =
    f32 (f32 (f32_halfB sphere rayOrigin rayDir * f32_halfB sphere rayOrigin rayDir)
         - f32 (f32_a rayDir * f32_c sphere rayOrigin))"

definition f32_root_near :: "SphereData \<Rightarrow> vec3 \<Rightarrow> vec3 \<Rightarrow> real" where
  "f32_root_near sphere rayOrigin rayDir =
    f32 (f32 (- f32_halfB sphere rayOrigin rayDir
              - f32 (sqrt (f32_discriminant sphere rayOrigin rayDir))) / f32_a rayDir)"

definition f32_root_far :: "SphereData \<Rightarrow> vec3 \<Rightarrow> vec3 \<Rightarrow> real" where
  "f32_root_far sphere rayOrigin rayDir =
    f32 (f32 (- f32_halfB sphere rayOrigin rayDir
              + f32 (sqrt (f32_discriminant sphere rayOrigin rayDir))) / f32_a rayDir)"

definition far_sphere :: SphereData where
  "far_sphere = \<lparr>center = vec3f 5 0 30000, radius = 1, materialIndex = 0\<rparr>"

text \<open>Example data for the concrete instances below: a unit sphere five units down the
  \<open>z\<close> axis, and the same sphere carrying material 1.\<close>

definition unit_sphere5 :: SphereData where
  "unit_sphere5 = \<lparr>center = vec3f 0 0 5, radius = 1, materialIndex = 0\<rparr>"

definition unit_sphere5' :: SphereData where
  "unit_sphere5' = \<lparr>center = vec3f 0 0 5, radius = 1, materialIndex = 1\<rparr>"

text \<open>\<open>full_range_hit spheres rayOrigin rayDir tMin tMax j\<close> is what \<open>hitSphere\<close> returns
  for sphere \<open>j\<close> on the whole range \<open>[tMin, tMax]\<close>, before the scan shrinks it.\<close>

definition full_range_hit ::
  "SphereData list \<Rightarrow> vec3 \<Rightarrow> vec3 \<Rightarrow> real \<Rightarrow> real \<Rightarrow> nat \<Rightarrow> real" where
  "full_range_hit spheres rayOrigin rayDir tMin tMax j =
    hitSphere (sphere_at spheres j) rayOrigin rayDir tMin tMax"

definition uniforms_of :: "nat \<Rightarrow> Uniforms" where
  "uniforms_of n =
    \<lparr>width = 1, height = 1, frameIndex = 0, maxBounces = 1, numSpheres = of_nat n,
     numMaterials = 0, sampleCount = 0\<rparr>"

text \<open>The quantities of the dielectric branch, named as in the kernel.\<close>

definition refractionRatio :: "MaterialData \<Rightarrow> HitRecord \<Rightarrow> real" where
  "refractionRatio material rec =
    (if rec_frontFace rec then 1 / refractionIndex material else refractionIndex material)"

definition cosTheta :: "HitRecord \<Rightarrow> vec3 \<Rightarrow> real" where
  "cosTheta rec currentDir = min (dot (vneg (normalize currentDir)) (rec_normal rec)) 1"

definition sinTheta :: "HitRecord \<Rightarrow> vec3 \<Rightarrow> real" where
  "sinTheta rec currentDir = sqrt (1 - cosTheta rec currentDir * cosTheta rec currentDir)"




text \<open>The texel that invocation \<open>g\<close> of \<open>main\<close> works on, and the test that \<open>g\<close> passes the
  bounds check at the head of \<open>main\<close>.\<close>

definition pixel_of :: "u32 \<times> u32 \<Rightarrow> int \<times> int" where
  "pixel_of g = (sint (fst g), sint (snd g))"

definition in_image :: "Uniforms \<Rightarrow> u32 \<times> u32 \<Rightarrow> bool" where
  "in_image uniforms g =
    (sint (fst g) < sint (width uniforms) \<and> sint (snd g) < sint (height uniforms))"

text \<open>
  A smallest complete run: a pinhole camera looking down \<open>-z\<close>, a scene without spheres,
  a one-pixel image rendered with \<open>samplesPerFrame = 4\<close> and one bounce, on a renderer
  that has been constructed and initialised for a canvas of one pixel. \<open>first_frame\<close> is
  the renderer after its first call of \<open>render\<close>.
\<close>

definition pinhole :: CameraData where
  "pinhole =
    \<lparr>cam_origin = vec3f 0 0 0, cam_lowerLeftCorner = vec3f (- 1) (- 1) (- 1),
     cam_horizontal = vec3f 2 0 0, cam_vertical = vec3f 0 2 0,
     cam_u = vec3f 1 0 0, cam_v = vec3f 0 1 0, cam_w = vec3f 0 0 1, cam_lensRadius = 0\<rparr>"

definition straight_camera :: CameraParams where
  "straight_camera =
    \<lparr>cp_origin = vec3f 0 0 0, cp_lookAt = vec3f 0 0 (- 1), cp_up = vec3f 0 1 0,
     cp_fov = 90, cp_aperture = 0, cp_focusDistance = 1\<rparr>"

definition empty_scene :: SceneData where
  "empty_scene =
    \<lparr>scene_spheres = [], scene_materials = [], scene_camera = straight_camera\<rparr>"

definition one_pixel :: RenderSettings where
  "one_pixel =
    \<lparr>samplesPerFrame = 4, settings_maxBounces = 1, settings_width = 1, settings_height = 1\<rparr>"

definition fresh_raytracer :: Raytracer where
  "fresh_raytracer =
    \<lparr>ready = True, rt_frameIndex = 0, rt_sampleCount = 0, rt_width = 1, rt_height = 1,
     outputTexture = createTexture 1 1, accumulationTexture = createTexture 1 1\<rparr>"

definition first_frame :: Raytracer where
  "first_frame = state_of (render fresh_raytracer empty_scene one_pixel)"

text \<open>The uniforms of that first dispatch, and the direction of its one camera ray, from
  the draws of the generator seeded for pixel (0, 0) of frame 0.\<close>

definition u0 :: Uniforms where
  "u0 = \<lparr>width = 1, height = 1, frameIndex = 0, maxBounces = 1, numSpheres = 0,
          numMaterials = 0, sampleCount = 0\<rparr>"

definition first_ray :: vec3 where
  "first_ray = vec3f (2 * (2368882721 / 4294967295) - 1) (2 * (920646579 / 4294967295) - 1) (- 1)"

section \<open>The random number generator\<close>

lemma unsigned_u32_ge0: "0 \<le> (unsigned (w :: u32) :: real)"
proof -
  have "(unsigned w :: real) = of_nat (unat w)" by simp
  also have "0 \<le> (of_nat (unat w) :: real)" by (rule of_nat_0_le_iff)
  finally show ?thesis .
qed

lemma unsigned_u32_le: "(unsigned (w :: u32) :: real) \<le> 4294967295"
proof -
  have "unat w < 2 ^ 32"
    using unsigned_less [of w, where ?'a = nat] by simp
  then have le: "unat w \<le> 4294967295" by simp
  have "(unsigned w :: real) = of_nat (unat w)" by simp
  also have "\<dots> \<le> of_nat 4294967295" using le by (rule of_nat_mono)
  finally show ?thesis by simp
qed

text \<open>
  C7, as stated, fails: the draw is the hashed state divided by \<open>0xffffffff\<close>, so the state
  whose hash is \<open>0xffffffff\<close> yields the draw 1, outside the half-open interval. The hash
  of 2222045655 is \<open>0xffffffff\<close>.
\<close>

theorem rand_half_open_counterexample:
  "pcg_hash 2222045655 = 0xffffffff \<and> fst (rand 2222045655) = 1
    \<and> \<not> fst (rand 2222045655) < 1"
  by (simp add: rand_def pcg_hash_def Let_def)

text \<open>
  C7, amended: for every state, \<open>rand\<close> returns a number of the closed interval from 0 to 1,
  namely the hashed state divided by \<open>2 ^ 32 - 1\<close>; the new state is the hash of the old
  one, the fixed function of multiply, add, xor-shift, multiply and final xor-shift. Draw
  and new state are functions of the state alone, so equal seeds give equal sequences.
\<close>

theorem rand_closed_unit_interval:
  "0 \<le> fst (rand s) \<and> fst (rand s) \<le> 1
    \<and> fst (rand s) = real (unat (pcg_hash s)) / 4294967295
    \<and> snd (rand s) = pcg_hash s
    \<and> pcg_hash s =
        (let state = s * 747796405 + 2891336453;
             word = ((drop_bit (unat (drop_bit 28 state + 4)) state) XOR state) * 277803737
         in (drop_bit 22 word) XOR word)"
  using unsigned_u32_le [of "pcg_hash s"] unsigned_u32_ge0 [of "pcg_hash s"]
  by (simp add: rand_def Let_def) (simp add: pcg_hash_def Let_def)

section \<open>The rejection samplers\<close>

lemma sphere_unfold:
  "rand_in_unit_sphere_on rnd s =
    (if sphere_accepts rnd s then Some (sphere_candidate rnd s)
     else rand_in_unit_sphere_on rnd (snd (sphere_candidate rnd s)))"
  by (subst rand_in_unit_sphere_on.simps)
     (simp add: sphere_accepts_def Let_def split: prod.split)

lemma disk_unfold:
  "rand_in_unit_disk_on rnd s =
    (if disk_accepts rnd s then Some (disk_candidate rnd s)
     else rand_in_unit_disk_on rnd (snd (disk_candidate rnd s)))"
  by (subst rand_in_unit_disk_on.simps)
     (simp add: disk_accepts_def Let_def split: prod.split)

lemma sphere_first_accepted:
  "sphere_accepts rnd (sphere_skip rnd n s) \<Longrightarrow>
    (\<And>m. m < n \<Longrightarrow> \<not> sphere_accepts rnd (sphere_skip rnd m s)) \<Longrightarrow>
    rand_in_unit_sphere_on rnd s = Some (sphere_candidate rnd (sphere_skip rnd n s))"
proof (induction n arbitrary: s)
  case 0
  then show ?case by (subst sphere_unfold) simp
next
  case (Suc n)
  from Suc.prems(2) [of 0] have rej: "\<not> sphere_accepts rnd s" by simp
  have later: "\<not> sphere_accepts rnd (sphere_skip rnd m (snd (sphere_candidate rnd s)))"
    if "m < n" for m
    using Suc.prems(2) [of "Suc m"] that by simp
  have "rand_in_unit_sphere_on rnd (snd (sphere_candidate rnd s)) =
      Some (sphere_candidate rnd (sphere_skip rnd n (snd (sphere_candidate rnd s))))"
    using Suc.prems(1) later by (intro Suc.IH) simp_all
  with rej show ?case by (subst sphere_unfold) simp
qed

lemma sphere_returned:
  "rand_in_unit_sphere_on rnd s = Some r \<Longrightarrow>
    \<exists>n. sphere_accepts rnd (sphere_skip rnd n s)
      \<and> (\<forall>m<n. \<not> sphere_accepts rnd (sphere_skip rnd m s))
      \<and> r = sphere_candidate rnd (sphere_skip rnd n s)"
proof (induction rnd s r rule: rand_in_unit_sphere_on.raw_induct [rotated 1, consumes 1])
  case (1 f rnd s r)
  show ?case
  proof (cases "sphere_accepts rnd s")
    case True
    then have "r = sphere_candidate rnd s"
      using 1(2) by (auto simp: sphere_accepts_def Let_def case_prod_beta split: if_splits)
    with True have "sphere_accepts rnd (sphere_skip rnd 0 s)
      \<and> (\<forall>m<0. \<not> sphere_accepts rnd (sphere_skip rnd m s))
      \<and> r = sphere_candidate rnd (sphere_skip rnd 0 s)" by simp
    then show ?thesis by blast
  next
    case False
    then have "f rnd (snd (sphere_candidate rnd s)) = Some r"
      using 1(2) by (auto simp: sphere_accepts_def Let_def case_prod_beta split: if_splits)
    from 1(1) [OF this] obtain n where
      a: "sphere_accepts rnd (sphere_skip rnd n (snd (sphere_candidate rnd s)))"
      and b: "\<forall>m<n. \<not> sphere_accepts rnd (sphere_skip rnd m (snd (sphere_candidate rnd s)))"
      and c: "r = sphere_candidate rnd (sphere_skip rnd n (snd (sphere_candidate rnd s)))"
      by blast
    have "\<not> sphere_accepts rnd (sphere_skip rnd m s)" if "m < Suc n" for m
      using that False b by (cases m) simp_all
    with a c have "sphere_accepts rnd (sphere_skip rnd (Suc n) s)
      \<and> (\<forall>m<Suc n. \<not> sphere_accepts rnd (sphere_skip rnd m s))
      \<and> r = sphere_candidate rnd (sphere_skip rnd (Suc n) s)" by simp
    then show ?thesis by blast
  qed
qed

lemma disk_first_accepted:
  "disk_accepts rnd (disk_skip rnd n s) \<Longrightarrow>
    (\<And>m. m < n \<Longrightarrow> \<not> disk_accepts rnd (disk_skip rnd m s)) \<Longrightarrow>
    rand_in_unit_disk_on rnd s = Some (disk_candidate rnd (disk_skip rnd n s))"
proof (induction n arbitrary: s)
  case 0
  then show ?case by (subst disk_unfold) simp
next
  case (Suc n)
  from Suc.prems(2) [of 0] have rej: "\<not> disk_accepts rnd s" by simp
  have later: "\<not> disk_accepts rnd (disk_skip rnd m (snd (disk_candidate rnd s)))"
    if "m < n" for m
    using Suc.prems(2) [of "Suc m"] that by simp
  have "rand_in_unit_disk_on rnd (snd (disk_candidate rnd s)) =
      Some (disk_candidate rnd (disk_skip rnd n (snd (disk_candidate rnd s))))"
    using Suc.prems(1) later by (intro Suc.IH) simp_all
  with rej show ?case by (subst disk_unfold) simp
qed

lemma disk_returned:
  "rand_in_unit_disk_on rnd s = Some r \<Longrightarrow>
    \<exists>n. disk_accepts rnd (disk_skip rnd n s)
      \<and> (\<forall>m<n. \<not> disk_accepts rnd (disk_skip rnd m s))
      \<and> r = disk_candidate rnd (disk_skip rnd n s)"
proof (induction rnd s r rule: rand_in_unit_disk_on.raw_induct [rotated 1, consumes 1])
  case (1 f rnd s r)
  show ?case
  proof (cases "disk_accepts rnd s")
    case True
    then have "r = disk_candidate rnd s"
      using 1(2) by (auto simp: disk_accepts_def Let_def case_prod_beta split: if_splits)
    with True have "disk_accepts rnd (disk_skip rnd 0 s)
      \<and> (\<forall>m<0. \<not> disk_accepts rnd (disk_skip rnd m s))
      \<and> r = disk_candidate rnd (disk_skip rnd 0 s)" by simp
    then show ?thesis by blast
  next
    case False
    then have "f rnd (snd (disk_candidate rnd s)) = Some r"
      using 1(2) by (auto simp: disk_accepts_def Let_def case_prod_beta split: if_splits)
    from 1(1) [OF this] obtain n where
      a: "disk_accepts rnd (disk_skip rnd n (snd (disk_candidate rnd s)))"
      and b: "\<forall>m<n. \<not> disk_accepts rnd (disk_skip rnd m (snd (disk_candidate rnd s)))"
      and c: "r = disk_candidate rnd (disk_skip rnd n (snd (disk_candidate rnd s)))"
      by blast
    have "\<not> disk_accepts rnd (disk_skip rnd m s)" if "m < Suc n" for m
      using that False b by (cases m) simp_all
    with a c have "disk_accepts rnd (disk_skip rnd (Suc n) s)
      \<and> (\<forall>m<Suc n. \<not> disk_accepts rnd (disk_skip rnd m s))
      \<and> r = disk_candidate rnd (disk_skip rnd (Suc n) s)" by simp
    then show ?thesis by blast
  qed
qed

lemma stuck_sphere_rejects: "\<not> sphere_accepts stuck (sphere_skip stuck n s)"
  by (induction n arbitrary: s)
     (simp_all add: sphere_accepts_def sphere_candidate_def stuck_def dot_def)

lemma stuck_disk_rejects: "\<not> disk_accepts stuck (disk_skip stuck n s)"
  by (induction n arbitrary: s)
     (simp_all add: disk_accepts_def disk_candidate_def stuck_def dot_def)

text \<open>
  C8, as stated, fails: the loops have no iteration cap, and the \<open>return vec3f(0.0)\<close> that
  follows each of them is never reached. On the generator \<open>stuck\<close>, whose every draw is 0,
  each candidate is \<open>(-1, -1, -1)\<close> or \<open>(-1, -1, 0)\<close> and is rejected, and neither sampler
  returns.
\<close>

theorem samplers_uncapped_counterexample:
  "rand_in_unit_sphere_on stuck 0 = None \<and> rand_in_unit_disk_on stuck 0 = None"
proof
  show "rand_in_unit_sphere_on stuck 0 = None"
  proof (cases "rand_in_unit_sphere_on stuck 0")
    case None
    then show ?thesis .
  next
    case (Some r)
    from sphere_returned [OF this] stuck_sphere_rejects show ?thesis by blast
  qed
  show "rand_in_unit_disk_on stuck 0 = None"
  proof (cases "rand_in_unit_disk_on stuck 0")
    case None
    then show ?thesis .
  next
    case (Some r)
    from disk_returned [OF this] stuck_disk_rejects show ?thesis by blast
  qed
qed

text \<open>
  C8, amended: the samplers loop without a cap until a candidate is accepted. On every
  generator and from every state, a sampler returns \<open>r\<close> exactly when some candidate of the
  sequence is accepted and \<open>r\<close> is the first accepted one (with the generator state after
  it); the point returned has squared length below 1, and third component 0 for the disk.
  On a sequence without an accepted candidate the call does not return.
\<close>

theorem samplers_return_first_accepted:
  "((rand_in_unit_sphere_on rnd s = Some r) =
      (\<exists>n. sphere_accepts rnd (sphere_skip rnd n s)
         \<and> (\<forall>m<n. \<not> sphere_accepts rnd (sphere_skip rnd m s))
         \<and> r = sphere_candidate rnd (sphere_skip rnd n s)))
   \<and> ((rand_in_unit_disk_on rnd s = Some r) =
      (\<exists>n. disk_accepts rnd (disk_skip rnd n s)
         \<and> (\<forall>m<n. \<not> disk_accepts rnd (disk_skip rnd m s))
         \<and> r = disk_candidate rnd (disk_skip rnd n s)))
   \<and> (rand_in_unit_sphere_on rnd s = Some r \<longrightarrow> dot (fst r) (fst r) < 1)
   \<and> (rand_in_unit_disk_on rnd s = Some r \<longrightarrow> dot (fst r) (fst r) < 1 \<and> vz (fst r) = 0)
   \<and> ((\<forall>n. \<not> sphere_accepts rnd (sphere_skip rnd n s)) \<longrightarrow>
         rand_in_unit_sphere_on rnd s = None)
   \<and> ((\<forall>n. \<not> disk_accepts rnd (disk_skip rnd n s)) \<longrightarrow>
         rand_in_unit_disk_on rnd s = None)"
proof (intro conjI impI)
  show "(rand_in_unit_sphere_on rnd s = Some r) =
      (\<exists>n. sphere_accepts rnd (sphere_skip rnd n s)
         \<and> (\<forall>m<n. \<not> sphere_accepts rnd (sphere_skip rnd m s))
         \<and> r = sphere_candidate rnd (sphere_skip rnd n s))"
    using sphere_returned [of rnd s r] sphere_first_accepted [of rnd _ s] by blast
  show "(rand_in_unit_disk_on rnd s = Some r) =
      (\<exists>n. disk_accepts rnd (disk_skip rnd n s)
         \<and> (\<forall>m<n. \<not> disk_accepts rnd (disk_skip rnd m s))
         \<and> r = disk_candidate rnd (disk_skip rnd n s))"
    using disk_returned [of rnd s r] disk_first_accepted [of rnd _ s] by blast
  show "dot (fst r) (fst r) < 1" if "rand_in_unit_sphere_on rnd s = Some r"
    using sphere_returned [OF that] by (auto simp: sphere_accepts_def Let_def)
  show "dot (fst r) (fst r) < 1" if "rand_in_unit_disk_on rnd s = Some r"
    using disk_returned [OF that] by (auto simp: disk_accepts_def Let_def)
  show "vz (fst r) = 0" if "rand_in_unit_disk_on rnd s = Some r"
    using disk_returned [OF that] by (auto simp: disk_candidate_def Let_def case_prod_beta)
  show "rand_in_unit_sphere_on rnd s = None"
    if "\<forall>n. \<not> sphere_accepts rnd (sphere_skip rnd n s)"
  proof (cases "rand_in_unit_sphere_on rnd s")
    case None
    then show ?thesis .
  next
    case (Some q)
    from sphere_returned [OF this] that show ?thesis by blast
  qed
  show "rand_in_unit_disk_on rnd s = None"
    if "\<forall>n. \<not> disk_accepts rnd (disk_skip rnd n s)"
  proof (cases "rand_in_unit_disk_on rnd s")
    case None
    then show ?thesis .
  next
    case (Some q)
    from disk_returned [OF this] that show ?thesis by blast
  qed
qed

lemma rand_seed0_1: "rand 129708002 = (817759070 / 4294967295, 817759070)"
  by (simp add: rand_def pcg_hash_def Let_def)

lemma rand_seed0_2: "rand 817759070 = (2145236065 / 4294967295, 2145236065)"
  by (simp add: rand_def pcg_hash_def Let_def)

lemma rand_seed0_3: "rand 2145236065 = (2368882721 / 4294967295, 2368882721)"
  by (simp add: rand_def pcg_hash_def Let_def)

lemma seed0_sphere_candidate:
  "sphere_candidate rand 129708002 =
    (vec3f (817759070 / 4294967295 * 2 - 1) (2145236065 / 4294967295 * 2 - 1)
      (2368882721 / 4294967295 * 2 - 1), 2368882721)"
  by (simp add: sphere_candidate_def rand_seed0_1 rand_seed0_2 rand_seed0_3)

lemma seed0_sphere_accepts: "sphere_accepts rand 129708002"
  by (simp add: sphere_accepts_def seed0_sphere_candidate dot_def)

lemma seed0_disk_candidate:
  "disk_candidate rand 129708002 =
    (vec3f (817759070 / 4294967295 * 2 - 1) (2145236065 / 4294967295 * 2 - 1) 0, 2145236065)"
  by (simp add: disk_candidate_def rand_seed0_1 rand_seed0_2)

lemma seed0_disk_accepts: "disk_accepts rand 129708002"
  by (simp add: disk_accepts_def seed0_disk_candidate dot_def)

text \<open>The kernel's generator at the state \<open>pcg_hash 0\<close>, the seed of pixel (0, 0) in frame
  0: both samplers accept their first candidate. The generator \<open>stuck\<close> never does.\<close>

theorem samplers_return_first_accepted_witness:
  "rand_in_unit_sphere_on rand 129708002 = Some (sphere_candidate rand 129708002)
   \<and> dot (fst (sphere_candidate rand 129708002)) (fst (sphere_candidate rand 129708002)) < 1
   \<and> rand_in_unit_disk_on rand 129708002 = Some (disk_candidate rand 129708002)
   \<and> vz (fst (disk_candidate rand 129708002)) = 0
   \<and> (\<forall>n. \<not> sphere_accepts stuck (sphere_skip stuck n 0))
   \<and> rand_in_unit_sphere_on stuck 0 = None
   \<and> (\<forall>n. \<not> disk_accepts stuck (disk_skip stuck n 0))
   \<and> rand_in_unit_disk_on stuck 0 = None"
proof -
  note S = samplers_return_first_accepted [of rand 129708002 "sphere_candidate rand 129708002"]
  note D = samplers_return_first_accepted [of rand 129708002 "disk_candidate rand 129708002"]
  note F = samplers_return_first_accepted [of stuck 0 "undefined"]
  have s: "\<exists>n. sphere_accepts rand (sphere_skip rand n 129708002)
      \<and> (\<forall>m<n. \<not> sphere_accepts rand (sphere_skip rand m 129708002))
      \<and> sphere_candidate rand 129708002 = sphere_candidate rand (sphere_skip rand n 129708002)"
    by (rule exI [of _ 0]) (simp add: seed0_sphere_accepts)
  have d: "\<exists>n. disk_accepts rand (disk_skip rand n 129708002)
      \<and> (\<forall>m<n. \<not> disk_accepts rand (disk_skip rand m 129708002))
      \<and> disk_candidate rand 129708002 = disk_candidate rand (disk_skip rand n 129708002)"
    by (rule exI [of _ 0]) (simp add: seed0_disk_accepts)
  have a1: "rand_in_unit_sphere_on rand 129708002 = Some (sphere_candidate rand 129708002)"
    by (rule S [THEN conjunct1, THEN iffD2, OF s])
  have a2: "dot (fst (sphere_candidate rand 129708002))
      (fst (sphere_candidate rand 129708002)) < 1"
    by (rule S [THEN conjunct2, THEN conjunct2, THEN conjunct1, THEN mp, OF a1])
  have a3: "rand_in_unit_disk_on rand 129708002 = Some (disk_candidate rand 129708002)"
    by (rule D [THEN conjunct2, THEN conjunct1, THEN iffD2, OF d])
  have a4: "vz (fst (disk_candidate rand 129708002)) = 0"
    by (rule D [THEN conjunct2, THEN conjunct2, THEN conjunct2, THEN conjunct1, THEN mp,
          OF a3, THEN conjunct2])
  have a5: "\<forall>n. \<not> sphere_accepts stuck (sphere_skip stuck n 0)"
    by (simp add: stuck_sphere_rejects)
  have a6: "rand_in_unit_sphere_on stuck 0 = None"
    by (rule F [THEN conjunct2, THEN conjunct2, THEN conjunct2, THEN conjunct2,
          THEN conjunct1, THEN mp, OF a5])
  have a7: "\<forall>n. \<not> disk_accepts stuck (disk_skip stuck n 0)"
    by (simp add: stuck_disk_rejects)
  have a8: "rand_in_unit_disk_on stuck 0 = None"
    by (rule F [THEN conjunct2, THEN conjunct2, THEN conjunct2, THEN conjunct2,
          THEN conjunct2, THEN mp, OF a7])
  from a1 a2 a3 a4 a5 a6 a7 a8 show ?thesis by (intro conjI)
qed

section \<open>The intersection engine\<close>

lemma dist_sq_ray_at:
  "dist_sq sphere (ray_at rayOrigin rayDir t) =
    dist_sq sphere rayOrigin + 2 * t * quad_halfB sphere rayOrigin rayDir
      + t * t * dot rayDir rayDir"
  by (cases rayOrigin; cases rayDir; cases "center sphere")
     (simp add: dist_sq_def ray_at_def quad_halfB_def dot_def vsub_def vadd_def smul_def
        algebra_simps)

lemma hitSphere_unfold:
  "hitSphere sphere rayOrigin rayDir tMin tMax =
    (if quad_discriminant sphere rayOrigin rayDir < 0 then - 1
     else if in_range tMin tMax (root_near sphere rayOrigin rayDir)
       then root_near sphere rayOrigin rayDir
     else if in_range tMin tMax (root_far sphere rayOrigin rayDir)
       then root_far sphere rayOrigin rayDir
     else - 1)"
  by (auto simp: hitSphere_def Let_def quad_discriminant_def quad_halfB_def quad_c_def
        root_near_def root_far_def in_range_def not_le not_less)

lemma discriminant_approach:
  assumes "0 < dot rayDir rayDir"
  shows "(quad_discriminant sphere rayOrigin rayDir < 0) =
    (radius sphere * radius sphere < line_approach_sq sphere rayOrigin rayDir)"
proof -
  let ?a = "dot rayDir rayDir" and ?h = "quad_halfB sphere rayOrigin rayDir"
  let ?q = "dist_sq sphere rayOrigin" and ?r = "radius sphere"
  have "(?h * ?h - ?a * (?q - ?r * ?r) < 0) = (?h * ?h / ?a < ?q - ?r * ?r)"
    using assms by (simp add: field_simps)
  then show ?thesis
    by (simp add: quad_discriminant_def quad_c_def line_approach_sq_def dist_sq_def
          less_diff_eq algebra_simps)
qed

lemma roots_ordered:
  assumes "0 < dot rayDir rayDir" "0 \<le> quad_discriminant sphere rayOrigin rayDir"
  shows "root_near sphere rayOrigin rayDir \<le> root_far sphere rayOrigin rayDir"
  using assms by (simp add: root_near_def root_far_def divide_le_cancel)

lemma root_on_sphere:
  assumes a: "0 < dot rayDir rayDir" and d: "0 \<le> quad_discriminant sphere rayOrigin rayDir"
    and t: "t = root_near sphere rayOrigin rayDir \<or> t = root_far sphere rayOrigin rayDir"
  shows "dist_sq sphere (ray_at rayOrigin rayDir t) = radius sphere * radius sphere"
proof -
  let ?a = "dot rayDir rayDir" and ?h = "quad_halfB sphere rayOrigin rayDir"
  let ?D = "quad_discriminant sphere rayOrigin rayDir"
  let ?s = "sqrt ?D"
  have ss: "?s * ?s = ?D" using d by simp
  have D: "?D = ?h * ?h - ?a * (dist_sq sphere rayOrigin - radius sphere * radius sphere)"
    by (simp add: quad_discriminant_def quad_c_def dist_sq_def)
  have at: "?a * t = - ?h - ?s \<or> ?a * t = - ?h + ?s"
    using t a by (auto simp: root_near_def root_far_def)
  have "(?a * t + ?h) * (?a * t + ?h) = ?D"
    using at ss by auto
  then have "?a * (dist_sq sphere rayOrigin + 2 * t * ?h + t * t * ?a)
      = ?a * (radius sphere * radius sphere)"
    unfolding D by (simp add: algebra_simps)
  then have "dist_sq sphere rayOrigin + 2 * t * ?h + t * t * ?a
      = radius sphere * radius sphere"
    using a by simp
  then show ?thesis by (simp only: dist_sq_ray_at)
qed


lemma ray_approach_least:
  assumes a: "0 < dot rayDir rayDir" and t: "0 \<le> t"
  shows "ray_approach_sq sphere rayOrigin rayDir \<le> dist_sq sphere (ray_at rayOrigin rayDir t)"
proof -
  let ?a = "dot rayDir rayDir" and ?h = "quad_halfB sphere rayOrigin rayDir"
  let ?q = "dist_sq sphere rayOrigin"
  show ?thesis
  proof (cases "0 \<le> ?h")
    case True
    have "0 \<le> 2 * t * ?h" "0 \<le> t * t * ?a" using True t a by simp_all
    then show ?thesis using True by (simp add: ray_approach_sq_def dist_sq_ray_at)
  next
    case False
    have "0 \<le> (?a * t + ?h) * (?a * t + ?h) / ?a" using a by simp
    also have "(?a * t + ?h) * (?a * t + ?h) / ?a = 2 * t * ?h + t * t * ?a + ?h * ?h / ?a"
      using a by (simp add: field_simps)
    finally show ?thesis
      using False by (simp add: ray_approach_sq_def line_approach_sq_def dist_sq_ray_at)
  qed
qed

lemma hitSphere_result:
  "hitSphere sphere rayOrigin rayDir tMin tMax = - 1
    \<or> (0 \<le> quad_discriminant sphere rayOrigin rayDir
        \<and> in_range tMin tMax (hitSphere sphere rayOrigin rayDir tMin tMax)
        \<and> (hitSphere sphere rayOrigin rayDir tMin tMax = root_near sphere rayOrigin rayDir
            \<or> hitSphere sphere rayOrigin rayDir tMin tMax = root_far sphere rayOrigin rayDir))"
  by (simp add: hitSphere_unfold)

lemma hitSphere_beyond_radius:
  assumes a: "0 < dot rayDir rayDir" and m: "0 \<le> tMin"
    and far: "radius sphere * radius sphere < ray_approach_sq sphere rayOrigin rayDir"
  shows "hitSphere sphere rayOrigin rayDir tMin tMax = - 1"
proof (rule ccontr)
  let ?t = "hitSphere sphere rayOrigin rayDir tMin tMax"
  assume "?t \<noteq> - 1"
  with hitSphere_result [of sphere rayOrigin rayDir tMin tMax]
  have d: "0 \<le> quad_discriminant sphere rayOrigin rayDir"
    and r: "in_range tMin tMax ?t"
    and t: "?t = root_near sphere rayOrigin rayDir \<or> ?t = root_far sphere rayOrigin rayDir"
    by blast+
  from r m have "0 \<le> ?t" by (simp add: in_range_def)
  from ray_approach_least [OF a this, of sphere rayOrigin]
  have "ray_approach_sq sphere rayOrigin rayDir \<le> radius sphere * radius sphere"
    by (simp only: root_on_sphere [OF a d t])
  with far show False by simp
qed

lemma near_root_positive:
  assumes a: "0 < dot rayDir rayDir" and d: "0 \<le> quad_discriminant sphere rayOrigin rayDir"
    and out: "radius sphere * radius sphere < dist_sq sphere rayOrigin"
    and m: "0 \<le> tMin" and r: "in_range tMin tMax (root_near sphere rayOrigin rayDir)"
  shows "0 < root_near sphere rayOrigin rayDir"
proof -
  let ?t = "root_near sphere rayOrigin rayDir"
  have on: "dist_sq sphere (ray_at rayOrigin rayDir ?t) = radius sphere * radius sphere"
    by (rule root_on_sphere [OF a d]) simp
  have "?t \<noteq> 0"
  proof
    assume "?t = 0"
    with on have "dist_sq sphere rayOrigin = radius sphere * radius sphere"
      by (simp add: dist_sq_ray_at)
    with out show False by simp
  qed
  moreover have "0 \<le> ?t" using r m by (simp add: in_range_def)
  ultimately show ?thesis by simp
qed

lemma ex_disc: "quad_discriminant unit_sphere5 (vec3f 0 0 0) (vec3f 0 0 1) = 1"
  by (simp add: quad_discriminant_def quad_halfB_def quad_c_def unit_sphere5_def dot_def vsub_def)

lemma ex_near: "root_near unit_sphere5 (vec3f 0 0 0) (vec3f 0 0 1) = 4"
  by (simp add: root_near_def ex_disc) (simp add: quad_halfB_def unit_sphere5_def dot_def vsub_def)

lemma ex_far: "root_far unit_sphere5 (vec3f 0 0 0) (vec3f 0 0 1) = 6"
  by (simp add: root_far_def ex_disc) (simp add: quad_halfB_def unit_sphere5_def dot_def vsub_def)

lemma ex_disc_miss: "quad_discriminant unit_sphere5 (vec3f 0 0 0) (vec3f 0 1 0) = - 24"
  by (simp add: quad_discriminant_def quad_halfB_def quad_c_def unit_sphere5_def dot_def vsub_def)

lemma ex_approach: "ray_approach_sq unit_sphere5 (vec3f 0 0 0) (vec3f 0 1 0) = 25"
  by (simp add: ray_approach_sq_def line_approach_sq_def dist_sq_def quad_halfB_def
        unit_sphere5_def dot_def vsub_def)

subsection \<open>\<open>hitSphere\<close> in binary32\<close>

lemma round_even_bounds:
  "real_of_int (round_even x) \<le> x + 1 / 2" "x - 1 / 2 \<le> real_of_int (round_even x)"
proof -
  define f where "f = real_of_int \<lfloor>x\<rfloor>"
  have a: "f \<le> x" and b: "x < f + 1" unfolding f_def by linarith+
  have c: "real_of_int (round_even x) =
      (if x - f < 1 / 2 then f else if 1 / 2 < x - f then f + 1
       else if even \<lfloor>x\<rfloor> then f else f + 1)"
    by (simp add: round_even_def Let_def f_def)
  show "real_of_int (round_even x) \<le> x + 1 / 2"
    unfolding c using a b by auto
  show "x - 1 / 2 \<le> real_of_int (round_even x)"
    unfolding c using a b by auto
qed

lemma round_even_of_int: "round_even (of_int n) = n"
  by (simp add: round_even_def)

lemma round_even_mono:
  assumes "x \<le> y"
  shows "round_even x \<le> round_even y"
proof (cases "x = y")
  case True
  then show ?thesis by simp
next
  case False
  with assms have "x < y" by simp
  with round_even_bounds(1) [of x] round_even_bounds(2) [of y]
  have "real_of_int (round_even x) < real_of_int (round_even y) + 1" by linarith
  then have "round_even x < round_even y + 1" by linarith
  then show ?thesis by simp
qed

lemma f32_0: "f32 0 = 0"
  by (simp add: f32_def)

lemma f32_minus: "f32 (- x) = - f32 x"
  by (simp add: f32_def Let_def sgn_minus)

lemma f32_pos_eq:
  assumes "0 < x"
  shows "f32 x = of_int (round_even (x / 2 powr of_int (\<lfloor>log 2 x\<rfloor> - 23)))
            * 2 powr of_int (\<lfloor>log 2 x\<rfloor> - 23)"
  using assms by (simp add: f32_def Let_def)

lemma f32_exponent:
  assumes "0 < x"
  shows "2 powr of_int \<lfloor>log 2 x\<rfloor> \<le> x" "x < 2 powr of_int (\<lfloor>log 2 x\<rfloor> + 1)"
  using floor_log_eq_powr_iff [of x 2 "\<lfloor>log 2 x\<rfloor>"] assms by simp_all

lemma ulp_scale:
  "(2 :: real) powr of_int (e - 23) * 2 ^ 23 = 2 powr of_int e"
  "(2 :: real) powr of_int (e - 23) * 2 ^ 24 = 2 powr of_int (e + 1)"
  by (simp_all add: powr_diff powr_add)

lemma f32_pos_bounds:
  assumes "0 < x"
  shows "2 powr of_int \<lfloor>log 2 x\<rfloor> \<le> f32 x" "f32 x \<le> 2 powr of_int (\<lfloor>log 2 x\<rfloor> + 1)"
proof -
  let ?e = "\<lfloor>log 2 x\<rfloor>"
  let ?u = "2 powr of_int (?e - 23) :: real"
  have u: "0 < ?u" by simp
  from f32_exponent [OF assms] have "?u * 2 ^ 23 \<le> x" "x < ?u * 2 ^ 24"
    by (simp_all only: ulp_scale)
  then have lo: "real_of_int (2 ^ 23) \<le> x / ?u" and hi: "x / ?u \<le> real_of_int (2 ^ 24)"
    using u by (simp_all add: field_simps)
  from round_even_mono [OF lo] have "2 ^ 23 \<le> round_even (x / ?u)"
    by (simp only: round_even_of_int)
  then have "real_of_int (2 ^ 23) \<le> real_of_int (round_even (x / ?u))" by linarith
  then have "real_of_int (2 ^ 23) * ?u \<le> real_of_int (round_even (x / ?u)) * ?u"
    using u by (simp only: mult_le_cancel_right_pos)
  moreover have "real_of_int (2 ^ 23) * ?u = 2 powr of_int ?e"
    using ulp_scale(1) [of ?e] by (simp add: mult.commute)
  ultimately show "2 powr of_int ?e \<le> f32 x"
    unfolding f32_pos_eq [OF assms] by (simp only:)
  from round_even_mono [OF hi] have "round_even (x / ?u) \<le> 2 ^ 24"
    by (simp only: round_even_of_int)
  then have "real_of_int (round_even (x / ?u)) \<le> real_of_int (2 ^ 24)" by linarith
  then have "real_of_int (round_even (x / ?u)) * ?u \<le> real_of_int (2 ^ 24) * ?u"
    using u by (simp only: mult_le_cancel_right_pos)
  moreover have "real_of_int (2 ^ 24) * ?u = 2 powr of_int (?e + 1)"
    using ulp_scale(2) [of ?e] by (simp add: mult.commute)
  ultimately show "f32 x \<le> 2 powr of_int (?e + 1)"
    unfolding f32_pos_eq [OF assms] by (simp only:)
qed

lemma f32_pos: "0 < x \<Longrightarrow> 0 < f32 x"
proof -
  assume "0 < x"
  from f32_pos_bounds(1) [OF this] have "2 powr of_int \<lfloor>log 2 x\<rfloor> \<le> f32 x" .
  moreover have "(0 :: real) < 2 powr of_int \<lfloor>log 2 x\<rfloor>" by simp
  ultimately show ?thesis by linarith
qed

lemma f32_mono_pos:
  assumes "0 < x" "x \<le> y"
  shows "f32 x \<le> f32 y"
proof -
  from assms have y: "0 < y" by simp
  let ?ex = "\<lfloor>log 2 x\<rfloor>" and ?ey = "\<lfloor>log 2 y\<rfloor>"
  have "log 2 x \<le> log 2 y" using assms by simp
  then have le: "?ex \<le> ?ey" by (rule floor_mono)
  show ?thesis
  proof (cases "?ex = ?ey")
    case True
    let ?u = "2 powr of_int (?ey - 23) :: real"
    have u: "0 < ?u" by simp
    have "x / ?u \<le> y / ?u" using assms(2) u by (simp add: divide_right_mono)
    from round_even_mono [OF this]
    have "real_of_int (round_even (x / ?u)) \<le> real_of_int (round_even (y / ?u))" by linarith
    then have "real_of_int (round_even (x / ?u)) * ?u \<le> real_of_int (round_even (y / ?u)) * ?u"
      using u by simp
    then show ?thesis unfolding f32_pos_eq [OF assms(1)] f32_pos_eq [OF y] True .
  next
    case False
    with le have "?ex + 1 \<le> ?ey" by simp
    then have "(2 :: real) powr of_int (?ex + 1) \<le> 2 powr of_int ?ey"
      by simp
    with f32_pos_bounds(2) [OF assms(1)] f32_pos_bounds(1) [OF y] show ?thesis by linarith
  qed
qed

lemma f32_mono:
  assumes "x \<le> y"
  shows "f32 x \<le> f32 y"
proof -
  consider "0 < x" | "x \<le> 0" "0 \<le> y" | "y < 0" by linarith
  then show ?thesis
  proof cases
    case 1
    then show ?thesis using assms by (rule f32_mono_pos)
  next
    case 2
    have "f32 x \<le> 0"
    proof (cases "x = 0")
      case True
      then show ?thesis by (simp add: f32_0)
    next
      case False
      with 2 have "0 < - x" by simp
      from f32_pos [OF this] show ?thesis by (simp add: f32_minus)
    qed
    moreover have "0 \<le> f32 y"
    proof (cases "y = 0")
      case True
      then show ?thesis by (simp add: f32_0)
    next
      case False
      with 2 have "0 < y" by simp
      from f32_pos [OF this] show ?thesis by simp
    qed
    ultimately show ?thesis by linarith
  next
    case 3
    then have "0 < - y" "- y \<le> - x" using assms by simp_all
    from f32_mono_pos [OF this] show ?thesis by (simp add: f32_minus)
  qed
qed

lemma f32_round:
  assumes "2 ^ k \<le> x" "x < 2 ^ Suc k"
  shows "f32 x = real_of_int (round_even (x * 2 ^ 23 / 2 ^ k)) * 2 ^ k / 2 ^ 23"
proof -
  have p: "(0 :: real) < 2 ^ k" by simp
  with assms(1) have x: "0 < x" by linarith
  have "(2 :: real) powr of_int (int k) \<le> x \<and> x < 2 powr of_int (int k + 1)"
    using assms by (simp add: powr_realpow powr_add)
  then have e: "\<lfloor>log 2 x\<rfloor> = int k"
    using floor_log_eq_powr_iff [of x 2 "int k"] x by simp
  have "2 powr of_int (int k - 23) * 2 ^ 23 = (2 :: real) powr of_int (int k)"
    by (rule ulp_scale(1))
  then have u: "2 powr of_int (int k - 23) = (2 :: real) ^ k / 2 ^ 23"
    by (simp add: powr_realpow field_simps)
  show ?thesis unfolding f32_pos_eq [OF x] e u by simp
qed

lemma f32_1: "f32 1 = 1"
  using f32_round [of 0 1] by (simp add: round_even_def)

lemma f32_4: "f32 4 = 4"
  using f32_round [of 2 4] by (simp add: round_even_def)

lemma f32_5: "f32 5 = 5"
  using f32_round [of 2 5] by (simp add: round_even_def)

lemma f32_6: "f32 6 = 6"
  using f32_round [of 2 6] by (simp add: round_even_def)

lemma f32_24: "f32 24 = 24"
  using f32_round [of 4 24] by (simp add: round_even_def)

lemma f32_25: "f32 25 = 25"
  using f32_round [of 4 25] by (simp add: round_even_def)

lemma f32_30000: "f32 30000 = 30000"
  using f32_round [of 14 30000] by (simp add: round_even_def)

lemma f32_9e8: "f32 900000000 = 900000000"
  using f32_round [of 29 900000000] by (simp add: round_even_def)

lemma f32_above: "f32 900000025 = 900000000"
  using f32_round [of 29 900000025] by (simp add: round_even_def)

lemma f32_below: "f32 899999999 = 900000000"
  using f32_round [of 29 899999999] by (simp add: round_even_def)


lemma hitSphere_exact:
  "hitSphere_with (\<lambda>x. x) sphere rayOrigin rayDir tMin tMax
    = hitSphere sphere rayOrigin rayDir tMin tMax"
proof -
  have v: "vsub_with (\<lambda>x. x) a b = vsub a b" for a b
    by (simp add: vsub_with_def vsub_def)
  have d: "dot_with (\<lambda>x. x) a b = dot a b" for a b
    by (simp add: dot_with_def dot_def)
  show ?thesis by (simp only: hitSphere_with_def hitSphere_def v d)
qed

lemma hitSphere_f32_unfold:
  "hitSphere_f32 sphere rayOrigin rayDir tMin tMax =
    (if f32_discriminant sphere rayOrigin rayDir < 0 then - 1
     else if in_range tMin tMax (f32_root_near sphere rayOrigin rayDir)
       then f32_root_near sphere rayOrigin rayDir
     else if in_range tMin tMax (f32_root_far sphere rayOrigin rayDir)
       then f32_root_far sphere rayOrigin rayDir
     else - 1)"
  by (auto simp: hitSphere_f32_def hitSphere_with_def Let_def f32_discriminant_def
        f32_halfB_def f32_c_def f32_a_def f32_root_near_def f32_root_far_def in_range_def
        not_le not_less)

lemma f32_nonneg: "0 \<le> x \<Longrightarrow> 0 \<le> f32 x"
  using f32_mono [of 0 x] by (simp add: f32_0)

lemma f32_a_pos:
  assumes "0 < dot rayDir rayDir"
  shows "0 < f32_a rayDir"
proof -
  obtain x y z where d: "rayDir = vec3f x y z" by (cases rayDir)
  have sq: "0 \<le> f32 (t * t)" for t by (rule f32_nonneg) simp
  have sqp: "0 < f32 (t * t)" if "t \<noteq> 0" for t
  proof (rule f32_pos)
    show "0 < t * t" using that by (auto simp: zero_less_mult_iff)
  qed
  from assms have nz: "x \<noteq> 0 \<or> y \<noteq> 0 \<or> z \<noteq> 0" by (auto simp: d dot_def)
  have p: "0 \<le> f32 (f32 (x * x) + f32 (y * y))"
    by (rule f32_nonneg) (simp add: sq)
  have "0 < f32 (f32 (x * x) + f32 (y * y)) + f32 (z * z)"
  proof (cases "z = 0")
    case False
    from sqp [OF this] p show ?thesis by linarith
  next
    case True
    with nz have "x \<noteq> 0 \<or> y \<noteq> 0" by simp
    then have "0 < f32 (x * x) + f32 (y * y)"
      using sq [of x] sq [of y] sqp [of x] sqp [of y] by (auto simp: add_pos_nonneg add_nonneg_pos)
    from f32_pos [OF this] sq [of z] show ?thesis by linarith
  qed
  from f32_pos [OF this] show ?thesis by (simp add: f32_a_def dot_with_def d)
qed

lemma f32_a_dot:
  assumes "0 < f32_a rayDir"
  shows "0 < dot rayDir rayDir"
proof (rule ccontr)
  obtain x y z where d: "rayDir = vec3f x y z" by (cases rayDir)
  assume "\<not> 0 < dot rayDir rayDir"
  then have "x * x + y * y + z * z \<le> 0" by (simp add: d dot_def)
  moreover have "0 \<le> x * x" "0 \<le> y * y" "0 \<le> z * z" by simp_all
  ultimately have "x * x = 0" "y * y = 0" "z * z = 0" by linarith+
  then have "f32_a rayDir = 0" by (simp add: f32_a_def dot_with_def d f32_0)
  with assms show False by simp
qed

lemma f32_roots_ordered:
  assumes "0 < f32_a rayDir" and "0 \<le> f32_discriminant sphere rayOrigin rayDir"
  shows "f32_root_near sphere rayOrigin rayDir \<le> f32_root_far sphere rayOrigin rayDir"
proof -
  let ?h = "f32_halfB sphere rayOrigin rayDir"
  let ?s = "f32 (sqrt (f32_discriminant sphere rayOrigin rayDir))"
  note a = assms(1)
  have "0 \<le> ?s" by (rule f32_nonneg) (simp add: assms(2))
  then have "- ?h - ?s \<le> - ?h + ?s" by simp
  then have "f32 (- ?h - ?s) \<le> f32 (- ?h + ?s)" by (rule f32_mono)
  then have "f32 (- ?h - ?s) / f32_a rayDir \<le> f32 (- ?h + ?s) / f32_a rayDir"
    using a by (simp add: divide_right_mono)
  then show ?thesis unfolding f32_root_near_def f32_root_far_def by (rule f32_mono)
qed

lemma far_oc:
  "vsub_with f32 (vec3f 0 0 0) (center far_sphere) = vec3f (- 5) 0 (- 30000)"
  by (simp add: vsub_with_def far_sphere_def f32_minus f32_5 f32_30000 f32_0)

lemma far_a: "f32_a (vec3f 0 0 1) = 1"
  by (simp add: f32_a_def dot_with_def f32_0 f32_1)

lemma far_halfB: "f32_halfB far_sphere (vec3f 0 0 0) (vec3f 0 0 1) = - 30000"
  unfolding f32_halfB_def far_oc
  by (simp add: dot_with_def f32_0 f32_minus f32_30000)

lemma far_c: "f32_c far_sphere (vec3f 0 0 0) = 900000000"
proof -
  have "dot_with f32 (vec3f (- 5) 0 (- 30000)) (vec3f (- 5) 0 (- 30000)) = 900000000"
    by (simp add: dot_with_def f32_0 f32_25 f32_9e8 f32_above)
  then show ?thesis
    unfolding f32_c_def far_oc by (simp add: far_sphere_def f32_1 f32_below)
qed

lemma far_disc: "f32_discriminant far_sphere (vec3f 0 0 0) (vec3f 0 0 1) = 0"
  unfolding f32_discriminant_def far_halfB far_a far_c
  by (simp add: f32_9e8 f32_0)

lemma far_near: "f32_root_near far_sphere (vec3f 0 0 0) (vec3f 0 0 1) = 30000"
  unfolding f32_root_near_def far_halfB far_a far_disc
  by (simp add: f32_0 f32_30000)

lemma far_exact_disc: "quad_discriminant far_sphere (vec3f 0 0 0) (vec3f 0 0 1) = - 24"
  by (simp add: quad_discriminant_def quad_halfB_def quad_c_def far_sphere_def dot_def
        vsub_def)

lemma far_approach: "ray_approach_sq far_sphere (vec3f 0 0 0) (vec3f 0 0 1) = 25"
  by (simp add: ray_approach_sq_def line_approach_sq_def dist_sq_def quad_halfB_def
        far_sphere_def dot_def vsub_def)

text \<open>
  C3, as stated, fails in the arithmetic of the kernel: a negative discriminant is not
  equivalent to a closest approach beyond the radius. The ray from the origin along \<open>z\<close>
  passes the unit sphere centred at \<open>(5, 0, 30000)\<close> at distance 5, and the exact
  discriminant is \<open>-24\<close>; in binary32 \<open>dot(oc, oc) = 900000025\<close> and \<open>c = 899999999\<close> both
  round to \<open>900000000\<close>, the computed discriminant is 0, and \<open>hitSphere\<close> returns the hit
  \<open>t = 30000\<close> on the range \<open>[0.001, 10\<^sup>30]\<close> of the integrator.
\<close>

theorem hitSphere_rounding_counterexample:
  "radius far_sphere * radius far_sphere
      < ray_approach_sq far_sphere (vec3f 0 0 0) (vec3f 0 0 1)
   \<and> quad_discriminant far_sphere (vec3f 0 0 0) (vec3f 0 0 1) < 0
   \<and> f32_discriminant far_sphere (vec3f 0 0 0) (vec3f 0 0 1) = 0
   \<and> hitSphere_f32 far_sphere (vec3f 0 0 0) (vec3f 0 0 1) 0.001 (10 ^ 30) = 30000
   \<and> hitSphere_f32 far_sphere (vec3f 0 0 0) (vec3f 0 0 1) 0.001 (10 ^ 30) \<noteq> - 1"
proof -
  have r: "radius far_sphere * radius far_sphere
      < ray_approach_sq far_sphere (vec3f 0 0 0) (vec3f 0 0 1)"
    unfolding far_approach by (simp add: far_sphere_def)
  have q: "quad_discriminant far_sphere (vec3f 0 0 0) (vec3f 0 0 1) < 0"
    unfolding far_exact_disc by simp
  have h: "hitSphere_f32 far_sphere (vec3f 0 0 0) (vec3f 0 0 1) 0.001 (10 ^ 30) = 30000"
    unfolding hitSphere_f32_unfold far_disc far_near by (simp add: in_range_def)
  then have n: "hitSphere_f32 far_sphere (vec3f 0 0 0) (vec3f 0 0 1) 0.001 (10 ^ 30) \<noteq> - 1"
    by simp
  from r q far_disc h n show ?thesis by (intro conjI)
qed


lemma s5_oc: "vsub_with f32 (vec3f 0 0 0) (center unit_sphere5) = vec3f 0 0 (- 5)"
  by (simp add: vsub_with_def unit_sphere5_def f32_minus f32_5 f32_0)

lemma s5_a: "f32_a (vec3f 0 1 0) = 1"
  by (simp add: f32_a_def dot_with_def f32_0 f32_1)

lemma s5_halfB: "f32_halfB unit_sphere5 (vec3f 0 0 0) (vec3f 0 0 1) = - 5"
  unfolding f32_halfB_def s5_oc by (simp add: dot_with_def f32_0 f32_minus f32_5)

lemma s5_halfB_y: "f32_halfB unit_sphere5 (vec3f 0 0 0) (vec3f 0 1 0) = 0"
  unfolding f32_halfB_def s5_oc by (simp add: dot_with_def f32_0)

lemma s5_c: "f32_c unit_sphere5 (vec3f 0 0 0) = 24"
proof -
  have "dot_with f32 (vec3f 0 0 (- 5)) (vec3f 0 0 (- 5)) = 25"
    by (simp add: dot_with_def f32_0 f32_25)
  then show ?thesis
    unfolding f32_c_def s5_oc by (simp add: unit_sphere5_def f32_1 f32_24)
qed

lemma s5_disc: "f32_discriminant unit_sphere5 (vec3f 0 0 0) (vec3f 0 0 1) = 1"
  unfolding f32_discriminant_def s5_halfB far_a s5_c by (simp add: f32_25 f32_24 f32_1)

lemma s5_disc_y: "f32_discriminant unit_sphere5 (vec3f 0 0 0) (vec3f 0 1 0) = - 24"
  unfolding f32_discriminant_def s5_halfB_y s5_a s5_c by (simp add: f32_0 f32_24 f32_minus)

lemma s5_near: "f32_root_near unit_sphere5 (vec3f 0 0 0) (vec3f 0 0 1) = 4"
  unfolding f32_root_near_def s5_halfB far_a s5_disc by (simp add: f32_1 f32_4)

lemma s5_far: "f32_root_far unit_sphere5 (vec3f 0 0 0) (vec3f 0 0 1) = 6"
  unfolding f32_root_far_def s5_halfB far_a s5_disc by (simp add: f32_1 f32_6)

text \<open>
  C3, amended: for a ray whose direction has a positive computed square \<open>a\<close>, and so is
  not zero, \<open>hitSphere\<close> evaluates the half-b
  quadratic in binary32 and returns the sentinel \<open>-1\<close> when the computed discriminant is
  negative; otherwise the smaller computed root is at most the larger one, and the result
  is the smaller root if it is in \<open>[tMin, tMax]\<close>, else the larger root if that is in the
  range, else \<open>-1\<close>; in particular it is the smaller root when both are in the range, and
  every result other than \<open>-1\<close> lies in \<open>[tMin, tMax]\<close>. The geometric reading holds of
  the same function in exact arithmetic, which is \<open>hitSphere_with\<close> at the identity: there
  the discriminant is negative exactly when the closest approach of the line to the centre
  exceeds the radius, the result is \<open>-1\<close> when \<open>tMin \<ge> 0\<close> and the closest approach of the
  ray exceeds the radius, the two roots lie on the sphere, and with the origin outside the
  sphere, \<open>tMin \<ge> 0\<close> and both roots in the range the result is the smaller root, which is
  positive.
\<close>

theorem hitSphere_first_root_in_range:
  assumes "0 < f32_a rayDir"
  shows "(f32_discriminant sphere rayOrigin rayDir < 0 \<longrightarrow>
            hitSphere_f32 sphere rayOrigin rayDir tMin tMax = - 1)
    \<and> (0 \<le> f32_discriminant sphere rayOrigin rayDir \<longrightarrow>
          f32_root_near sphere rayOrigin rayDir \<le> f32_root_far sphere rayOrigin rayDir
          \<and> hitSphere_f32 sphere rayOrigin rayDir tMin tMax =
              (if in_range tMin tMax (f32_root_near sphere rayOrigin rayDir)
                 then f32_root_near sphere rayOrigin rayDir
               else if in_range tMin tMax (f32_root_far sphere rayOrigin rayDir)
                 then f32_root_far sphere rayOrigin rayDir
               else - 1))
    \<and> (0 \<le> f32_discriminant sphere rayOrigin rayDir
          \<and> in_range tMin tMax (f32_root_near sphere rayOrigin rayDir)
          \<and> in_range tMin tMax (f32_root_far sphere rayOrigin rayDir)
          \<longrightarrow> hitSphere_f32 sphere rayOrigin rayDir tMin tMax
                = f32_root_near sphere rayOrigin rayDir)
    \<and> (hitSphere_f32 sphere rayOrigin rayDir tMin tMax = - 1
        \<or> in_range tMin tMax (hitSphere_f32 sphere rayOrigin rayDir tMin tMax))
    \<and> hitSphere_with (\<lambda>x. x) sphere rayOrigin rayDir tMin tMax
        = hitSphere sphere rayOrigin rayDir tMin tMax
    \<and> (quad_discriminant sphere rayOrigin rayDir < 0 \<longrightarrow>
          hitSphere sphere rayOrigin rayDir tMin tMax = - 1)
    \<and> ((quad_discriminant sphere rayOrigin rayDir < 0) =
          (radius sphere * radius sphere < line_approach_sq sphere rayOrigin rayDir))
    \<and> (0 \<le> tMin \<and> radius sphere * radius sphere < ray_approach_sq sphere rayOrigin rayDir
          \<longrightarrow> hitSphere sphere rayOrigin rayDir tMin tMax = - 1)
    \<and> (0 \<le> quad_discriminant sphere rayOrigin rayDir \<longrightarrow>
          root_near sphere rayOrigin rayDir \<le> root_far sphere rayOrigin rayDir
          \<and> dist_sq sphere (ray_at rayOrigin rayDir (root_near sphere rayOrigin rayDir))
              = radius sphere * radius sphere
          \<and> dist_sq sphere (ray_at rayOrigin rayDir (root_far sphere rayOrigin rayDir))
              = radius sphere * radius sphere
          \<and> hitSphere sphere rayOrigin rayDir tMin tMax =
              (if in_range tMin tMax (root_near sphere rayOrigin rayDir)
                 then root_near sphere rayOrigin rayDir
               else if in_range tMin tMax (root_far sphere rayOrigin rayDir)
                 then root_far sphere rayOrigin rayDir
               else - 1))
    \<and> (0 \<le> quad_discriminant sphere rayOrigin rayDir
          \<and> radius sphere * radius sphere < dist_sq sphere rayOrigin
          \<and> 0 \<le> tMin
          \<and> in_range tMin tMax (root_near sphere rayOrigin rayDir)
          \<and> in_range tMin tMax (root_far sphere rayOrigin rayDir)
          \<longrightarrow> hitSphere sphere rayOrigin rayDir tMin tMax = root_near sphere rayOrigin rayDir
              \<and> 0 < root_near sphere rayOrigin rayDir)"
proof -
  have dir: "0 < dot rayDir rayDir" by (rule f32_a_dot [OF assms])
  show ?thesis
  proof (intro conjI impI)
    show "hitSphere_f32 sphere rayOrigin rayDir tMin tMax = - 1"
      if "f32_discriminant sphere rayOrigin rayDir < 0"
      using that by (simp add: hitSphere_f32_unfold)
    show "hitSphere_f32 sphere rayOrigin rayDir tMin tMax = - 1
        \<or> in_range tMin tMax (hitSphere_f32 sphere rayOrigin rayDir tMin tMax)"
      by (simp add: hitSphere_f32_unfold)
    show "hitSphere_with (\<lambda>x. x) sphere rayOrigin rayDir tMin tMax
        = hitSphere sphere rayOrigin rayDir tMin tMax"
      by (rule hitSphere_exact)
    show "hitSphere sphere rayOrigin rayDir tMin tMax = - 1"
      if "quad_discriminant sphere rayOrigin rayDir < 0"
      using that by (simp add: hitSphere_unfold)
    show "(quad_discriminant sphere rayOrigin rayDir < 0) =
        (radius sphere * radius sphere < line_approach_sq sphere rayOrigin rayDir)"
      by (rule discriminant_approach [OF dir])
    show "hitSphere sphere rayOrigin rayDir tMin tMax = - 1"
      if "0 \<le> tMin \<and> radius sphere * radius sphere < ray_approach_sq sphere rayOrigin rayDir"
      using that hitSphere_beyond_radius [OF dir] by blast
  next
    assume d: "0 \<le> f32_discriminant sphere rayOrigin rayDir"
    show "f32_root_near sphere rayOrigin rayDir \<le> f32_root_far sphere rayOrigin rayDir"
      by (rule f32_roots_ordered [OF assms d])
    show "hitSphere_f32 sphere rayOrigin rayDir tMin tMax =
        (if in_range tMin tMax (f32_root_near sphere rayOrigin rayDir)
           then f32_root_near sphere rayOrigin rayDir
         else if in_range tMin tMax (f32_root_far sphere rayOrigin rayDir)
           then f32_root_far sphere rayOrigin rayDir
         else - 1)"
      using d by (simp add: hitSphere_f32_unfold)
  next
    assume "0 \<le> f32_discriminant sphere rayOrigin rayDir
        \<and> in_range tMin tMax (f32_root_near sphere rayOrigin rayDir)
        \<and> in_range tMin tMax (f32_root_far sphere rayOrigin rayDir)"
    then show "hitSphere_f32 sphere rayOrigin rayDir tMin tMax
        = f32_root_near sphere rayOrigin rayDir"
      by (simp add: hitSphere_f32_unfold)
  next
    assume d: "0 \<le> quad_discriminant sphere rayOrigin rayDir"
    show "root_near sphere rayOrigin rayDir \<le> root_far sphere rayOrigin rayDir"
      by (rule roots_ordered [OF dir d])
    show "dist_sq sphere (ray_at rayOrigin rayDir (root_near sphere rayOrigin rayDir))
        = radius sphere * radius sphere"
      by (rule root_on_sphere [OF dir d]) simp
    show "dist_sq sphere (ray_at rayOrigin rayDir (root_far sphere rayOrigin rayDir))
        = radius sphere * radius sphere"
      by (rule root_on_sphere [OF dir d]) simp
    show "hitSphere sphere rayOrigin rayDir tMin tMax =
        (if in_range tMin tMax (root_near sphere rayOrigin rayDir)
           then root_near sphere rayOrigin rayDir
         else if in_range tMin tMax (root_far sphere rayOrigin rayDir)
           then root_far sphere rayOrigin rayDir
         else - 1)"
      using d by (simp add: hitSphere_unfold)
  next
    assume h: "0 \<le> quad_discriminant sphere rayOrigin rayDir
      \<and> radius sphere * radius sphere < dist_sq sphere rayOrigin
      \<and> 0 \<le> tMin
      \<and> in_range tMin tMax (root_near sphere rayOrigin rayDir)
      \<and> in_range tMin tMax (root_far sphere rayOrigin rayDir)"
    show "hitSphere sphere rayOrigin rayDir tMin tMax = root_near sphere rayOrigin rayDir"
      using h by (simp add: hitSphere_unfold)
    show "0 < root_near sphere rayOrigin rayDir"
      using h near_root_positive [OF dir, of sphere rayOrigin tMin tMax] by blast
  qed
qed

text \<open>The ray from the origin along \<open>z\<close> meets \<open>unit_sphere5\<close> at 4 and 6, also in
  binary32, and \<open>hitSphere\<close> returns 4; the ray along \<open>y\<close> passes at distance 5 and
  \<open>hitSphere\<close> returns \<open>-1\<close>.\<close>

theorem hitSphere_first_root_in_range_witness:
  "0 < f32_a (vec3f 0 0 1)
   \<and> 0 \<le> f32_discriminant unit_sphere5 (vec3f 0 0 0) (vec3f 0 0 1)
   \<and> in_range 0.001 (10 ^ 30) (f32_root_near unit_sphere5 (vec3f 0 0 0) (vec3f 0 0 1))
   \<and> in_range 0.001 (10 ^ 30) (f32_root_far unit_sphere5 (vec3f 0 0 0) (vec3f 0 0 1))
   \<and> f32_root_near unit_sphere5 (vec3f 0 0 0) (vec3f 0 0 1) = 4
   \<and> f32_root_far unit_sphere5 (vec3f 0 0 0) (vec3f 0 0 1) = 6
   \<and> hitSphere_f32 unit_sphere5 (vec3f 0 0 0) (vec3f 0 0 1) 0.001 (10 ^ 30) = 4
   \<and> 0 < f32_a (vec3f 0 1 0)
   \<and> f32_discriminant unit_sphere5 (vec3f 0 0 0) (vec3f 0 1 0) < 0
   \<and> hitSphere_f32 unit_sphere5 (vec3f 0 0 0) (vec3f 0 1 0) 0.001 (10 ^ 30) = - 1
   \<and> 0 \<le> quad_discriminant unit_sphere5 (vec3f 0 0 0) (vec3f 0 0 1)
   \<and> in_range 0.001 (10 ^ 30) (root_near unit_sphere5 (vec3f 0 0 0) (vec3f 0 0 1))
   \<and> in_range 0.001 (10 ^ 30) (root_far unit_sphere5 (vec3f 0 0 0) (vec3f 0 0 1))
   \<and> radius unit_sphere5 * radius unit_sphere5 < dist_sq unit_sphere5 (vec3f 0 0 0)
   \<and> hitSphere unit_sphere5 (vec3f 0 0 0) (vec3f 0 0 1) 0.001 (10 ^ 30) = 4
   \<and> radius unit_sphere5 * radius unit_sphere5
        < ray_approach_sq unit_sphere5 (vec3f 0 0 0) (vec3f 0 1 0)
   \<and> hitSphere unit_sphere5 (vec3f 0 0 0) (vec3f 0 1 0) 0.001 (10 ^ 30) = - 1"
proof -
  have az: "0 < f32_a (vec3f 0 0 1)" by (simp add: far_a)
  have ay: "0 < f32_a (vec3f 0 1 0)" by (simp add: s5_a)
  note Z = hitSphere_first_root_in_range [OF az, of unit_sphere5 "vec3f 0 0 0" "0.001"
      "10 ^ 30"]
  note Y = hitSphere_first_root_in_range [OF ay, of unit_sphere5 "vec3f 0 0 0" "0.001"
      "10 ^ 30"]
  have fd: "0 \<le> f32_discriminant unit_sphere5 (vec3f 0 0 0) (vec3f 0 0 1)"
    by (simp add: s5_disc)
  have fn: "in_range 0.001 (10 ^ 30) (f32_root_near unit_sphere5 (vec3f 0 0 0) (vec3f 0 0 1))"
    by (simp add: s5_near in_range_def)
  have ff: "in_range 0.001 (10 ^ 30) (f32_root_far unit_sphere5 (vec3f 0 0 0) (vec3f 0 0 1))"
    by (simp add: s5_far in_range_def)
  have fhit: "hitSphere_f32 unit_sphere5 (vec3f 0 0 0) (vec3f 0 0 1) 0.001 (10 ^ 30) = 4"
    using Z [THEN conjunct2, THEN conjunct2, THEN conjunct1, THEN mp, OF conjI [OF fd
        conjI [OF fn ff]]]
    by (simp only: s5_near)
  have fdm: "f32_discriminant unit_sphere5 (vec3f 0 0 0) (vec3f 0 1 0) < 0"
    by (simp add: s5_disc_y)
  have fmiss: "hitSphere_f32 unit_sphere5 (vec3f 0 0 0) (vec3f 0 1 0) 0.001 (10 ^ 30) = - 1"
    by (rule Y [THEN conjunct1, THEN mp, OF fdm])
  have d: "0 \<le> quad_discriminant unit_sphere5 (vec3f 0 0 0) (vec3f 0 0 1)"
    by (simp add: ex_disc)
  have n: "in_range 0.001 (10 ^ 30) (root_near unit_sphere5 (vec3f 0 0 0) (vec3f 0 0 1))"
    by (simp add: ex_near in_range_def)
  have f: "in_range 0.001 (10 ^ 30) (root_far unit_sphere5 (vec3f 0 0 0) (vec3f 0 0 1))"
    by (simp add: ex_far in_range_def)
  have out: "radius unit_sphere5 * radius unit_sphere5 < dist_sq unit_sphere5 (vec3f 0 0 0)"
    by (simp add: dist_sq_def unit_sphere5_def dot_def vsub_def)
  have m: "(0 :: real) \<le> 0.001" by simp
  have hit: "hitSphere unit_sphere5 (vec3f 0 0 0) (vec3f 0 0 1) 0.001 (10 ^ 30) = 4"
    using Z [THEN conjunct2, THEN conjunct2, THEN conjunct2, THEN conjunct2, THEN conjunct2,
        THEN conjunct2, THEN conjunct2, THEN conjunct2, THEN conjunct2, THEN mp,
        OF conjI [OF d conjI [OF out conjI [OF m conjI [OF n f]]]], THEN conjunct1]
    by (simp only: ex_near)
  have ap: "radius unit_sphere5 * radius unit_sphere5
      < ray_approach_sq unit_sphere5 (vec3f 0 0 0) (vec3f 0 1 0)"
    by (simp add: ex_approach) (simp add: unit_sphere5_def)
  have miss: "hitSphere unit_sphere5 (vec3f 0 0 0) (vec3f 0 1 0) 0.001 (10 ^ 30) = - 1"
    by (rule Y [THEN conjunct2, THEN conjunct2, THEN conjunct2, THEN conjunct2, THEN conjunct2,
        THEN conjunct2, THEN conjunct2, THEN conjunct1, THEN mp, OF conjI [OF m ap]])
  from az fd fn ff s5_near s5_far fhit ay fdm fmiss d n f out hit ap miss
  show ?thesis by (intro conjI)
qed

subsection \<open>The scan of \<open>closestHit\<close>\<close>

lemma closestHit_scan_0:
  "closestHit_scan spheres rayOrigin rayDir tMin tMax 0 = (tMax, False, zero_HitRecord)"
  by (simp add: closestHit_scan_def)

lemma closestHit_scan_Suc:
  "closestHit_scan spheres rayOrigin rayDir tMin tMax (Suc n) =
    closestHit_step spheres rayOrigin rayDir tMin n
      (closestHit_scan spheres rayOrigin rayDir tMin tMax n)"
  by (simp add: closestHit_scan_def)

lemma hitSphere_positive_in_range:
  assumes "0 < hitSphere sphere rayOrigin rayDir tMin tMax"
  shows "in_range tMin tMax (hitSphere sphere rayOrigin rayDir tMin tMax)"
  using assms hitSphere_result [of sphere rayOrigin rayDir tMin tMax] by auto

lemma hitSphere_shrink:
  assumes a: "0 < dot rayDir rayDir" and m: "0 < tMin" and c: "closest \<le> tMax"
  shows "hitSphere sphere rayOrigin rayDir tMin closest =
    (if 0 < hitSphere sphere rayOrigin rayDir tMin tMax
        \<and> hitSphere sphere rayOrigin rayDir tMin tMax \<le> closest
     then hitSphere sphere rayOrigin rayDir tMin tMax else - 1)"
proof (cases "quad_discriminant sphere rayOrigin rayDir < 0")
  case True
  then show ?thesis by (simp add: hitSphere_unfold)
next
  case False
  then have d: "0 \<le> quad_discriminant sphere rayOrigin rayDir" by simp
  from roots_ordered [OF a d]
  have o: "root_near sphere rayOrigin rayDir \<le> root_far sphere rayOrigin rayDir" .
  show ?thesis
    using False o m c by (auto simp: hitSphere_unfold in_range_def)
qed


lemma scan_no_hit:
  assumes "\<forall>j<n. \<not> 0 < full_range_hit spheres rayOrigin rayDir tMin tMax j"
  shows "closestHit_scan spheres rayOrigin rayDir tMin tMax n = (tMax, False, zero_HitRecord)"
  using assms
proof (induction n)
  case 0
  show ?case by (rule closestHit_scan_0)
next
  case (Suc n)
  then have "closestHit_scan spheres rayOrigin rayDir tMin tMax n
      = (tMax, False, zero_HitRecord)" by simp
  moreover have "\<not> 0 < hitSphere (sphere_at spheres n) rayOrigin rayDir tMin tMax"
    using Suc.prems by (simp add: full_range_hit_def)
  ultimately show ?case
    by (simp add: closestHit_scan_Suc closestHit_step_def Let_def)
qed

lemma scan_hit_record:
  assumes "closestHit_scan spheres rayOrigin rayDir tMin tMax n = (closest, True, rec)"
  shows "\<exists>k<n. \<exists>t>0. rec = hit_record (sphere_at spheres k) rayOrigin rayDir t"
  using assms
proof (induction n arbitrary: closest rec)
  case 0
  then show ?case by (simp add: closestHit_scan_0)
next
  case (Suc n)
  obtain c h r where st: "closestHit_scan spheres rayOrigin rayDir tMin tMax n = (c, h, r)"
    by (cases "closestHit_scan spheres rayOrigin rayDir tMin tMax n") auto
  let ?t = "hitSphere (sphere_at spheres n) rayOrigin rayDir tMin c"
  show ?case
  proof (cases "0 < ?t")
    case True
    then have "rec = hit_record (sphere_at spheres n) rayOrigin rayDir ?t"
      using Suc.prems st by (auto simp: closestHit_scan_Suc closestHit_step_def Let_def)
    with True show ?thesis by blast
  next
    case False
    then have "closestHit_scan spheres rayOrigin rayDir tMin tMax n = (closest, True, rec)"
      using Suc.prems st by (simp add: closestHit_scan_Suc closestHit_step_def Let_def)
    from Suc.IH [OF this] show ?thesis using less_Suc_eq by blast
  qed
qed

lemma scan_unhit_record:
  assumes "closestHit_scan spheres rayOrigin rayDir tMin tMax n = (closest, False, rec)"
  shows "rec = zero_HitRecord"
  using assms
proof (induction n arbitrary: closest rec)
  case 0
  then show ?case by (simp add: closestHit_scan_0)
next
  case (Suc n)
  obtain c h r where st: "closestHit_scan spheres rayOrigin rayDir tMin tMax n = (c, h, r)"
    by (cases "closestHit_scan spheres rayOrigin rayDir tMin tMax n") auto
  from Suc.prems st have "h = False \<and> r = rec"
    by (auto simp: closestHit_scan_Suc closestHit_step_def Let_def split: if_splits)
  with st Suc.IH show ?case by blast
qed

lemma hit_record_normal:
  "dot rayDir (rec_normal (hit_record sphere rayOrigin rayDir t)) \<le> 0"
  by (cases rayDir)
     (auto simp: hit_record_def Let_def dot_def vneg_def not_less)

lemma hit_record_fields:
  "rec_t (hit_record sphere rayOrigin rayDir t) = t"
  "rec_p (hit_record sphere rayOrigin rayDir t) = ray_at rayOrigin rayDir t"
  "rec_materialIndex (hit_record sphere rayOrigin rayDir t) = materialIndex sphere"
  "rec_frontFace (hit_record sphere rayOrigin rayDir t) =
    (dot rayDir (vdiv (vsub (ray_at rayOrigin rayDir t) (center sphere)) (radius sphere)) < 0)"
  "rec_normal (hit_record sphere rayOrigin rayDir t) =
    (if rec_frontFace (hit_record sphere rayOrigin rayDir t)
     then vdiv (vsub (ray_at rayOrigin rayDir t) (center sphere)) (radius sphere)
     else vneg (vdiv (vsub (ray_at rayOrigin rayDir t) (center sphere)) (radius sphere)))"
  by (simp_all add: hit_record_def Let_def ray_at_def)

text \<open>The state of the scan after \<open>n\<close> spheres.\<close>

lemma scan_nearest:
  assumes a: "0 < dot rayDir rayDir" and m: "0 < tMin"
  shows "case closestHit_scan spheres rayOrigin rayDir tMin tMax n of
    (closest, hitAnything, rec) \<Rightarrow>
      (if hitAnything then
         (\<exists>k<n. 0 < full_range_hit spheres rayOrigin rayDir tMin tMax k
            \<and> closest = full_range_hit spheres rayOrigin rayDir tMin tMax k
            \<and> rec = hit_record (sphere_at spheres k) rayOrigin rayDir closest
            \<and> (\<forall>j<n. 0 < full_range_hit spheres rayOrigin rayDir tMin tMax j \<longrightarrow>
                  closest \<le> full_range_hit spheres rayOrigin rayDir tMin tMax j)
            \<and> (\<forall>j<n. k < j \<and> 0 < full_range_hit spheres rayOrigin rayDir tMin tMax j \<longrightarrow>
                  closest < full_range_hit spheres rayOrigin rayDir tMin tMax j))
       else closest = tMax \<and> rec = zero_HitRecord
            \<and> (\<forall>j<n. \<not> 0 < full_range_hit spheres rayOrigin rayDir tMin tMax j))"
proof (induction n)
  case 0
  show ?case by (simp add: closestHit_scan_0)
next
  case (Suc n)
  let ?T = "full_range_hit spheres rayOrigin rayDir tMin tMax"
  obtain c h r where st: "closestHit_scan spheres rayOrigin rayDir tMin tMax n = (c, h, r)"
    by (cases "closestHit_scan spheres rayOrigin rayDir tMin tMax n") auto
  have cle: "c \<le> tMax"
  proof (cases h)
    case True
    with Suc.IH st obtain k where "0 < ?T k" "c = ?T k" by auto
    then show ?thesis
      using hitSphere_positive_in_range [of "sphere_at spheres k" rayOrigin rayDir tMin tMax]
      by (simp add: full_range_hit_def in_range_def)
  next
    case False
    with Suc.IH st show ?thesis by simp
  qed
  let ?t = "hitSphere (sphere_at spheres n) rayOrigin rayDir tMin c"
  have t: "?t = (if 0 < ?T n \<and> ?T n \<le> c then ?T n else - 1)"
    unfolding full_range_hit_def by (rule hitSphere_shrink [OF a m cle])
  show ?case
  proof (cases "0 < ?T n \<and> ?T n \<le> c")
    case True
    have tp: "?t = ?T n" by (simp only: t if_P [OF True])
    have new: "closestHit_scan spheres rayOrigin rayDir tMin tMax (Suc n) =
        (?T n, True, hit_record (sphere_at spheres n) rayOrigin rayDir (?T n))"
      using st True by (simp add: closestHit_scan_Suc closestHit_step_def Let_def tp)
    have le: "?T n \<le> ?T j" if "j < Suc n" "0 < ?T j" for j
    proof (cases "j = n")
      case True
      then show ?thesis by simp
    next
      case False
      with that have jn: "j < n" by simp
      show ?thesis
      proof (cases h)
        case True
        with Suc.IH st jn that have "c \<le> ?T j" by auto
        with \<open>0 < ?T n \<and> ?T n \<le> c\<close> show ?thesis by simp
      next
        case False
        with Suc.IH st jn that show ?thesis by auto
      qed
    qed
    have "n < Suc n \<and> 0 < ?T n \<and> ?T n = ?T n
        \<and> hit_record (sphere_at spheres n) rayOrigin rayDir (?T n)
            = hit_record (sphere_at spheres n) rayOrigin rayDir (?T n)
        \<and> (\<forall>j<Suc n. 0 < ?T j \<longrightarrow> ?T n \<le> ?T j)
        \<and> (\<forall>j<Suc n. n < j \<and> 0 < ?T j \<longrightarrow> ?T n < ?T j)"
      using True le by auto
    then show ?thesis unfolding new by (simp only: prod.case if_True) blast
  next
    case False
    have tm: "?t = - 1" by (simp only: t if_not_P [OF False])
    have same: "closestHit_scan spheres rayOrigin rayDir tMin tMax (Suc n) = (c, h, r)"
      using st by (simp add: closestHit_scan_Suc closestHit_step_def Let_def tm)
    show ?thesis
    proof (cases h)
      case True
      with Suc.IH st obtain k where k: "k < n" "0 < ?T k" "c = ?T k"
        "r = hit_record (sphere_at spheres k) rayOrigin rayDir c"
        "\<forall>j<n. 0 < ?T j \<longrightarrow> c \<le> ?T j"
        "\<forall>j<n. k < j \<and> 0 < ?T j \<longrightarrow> c < ?T j"
        by auto
      have n_far: "0 < ?T n \<longrightarrow> c < ?T n" using False by auto
      have "k < Suc n \<and> 0 < ?T k \<and> c = ?T k
          \<and> r = hit_record (sphere_at spheres k) rayOrigin rayDir c
          \<and> (\<forall>j<Suc n. 0 < ?T j \<longrightarrow> c \<le> ?T j)
          \<and> (\<forall>j<Suc n. k < j \<and> 0 < ?T j \<longrightarrow> c < ?T j)"
        using k n_far by (auto simp: less_Suc_eq)
      then show ?thesis unfolding same using True by (simp only: prod.case if_True) blast
    next
      case False
      with Suc.IH st have z: "c = tMax" "r = zero_HitRecord" "\<forall>j<n. \<not> 0 < ?T j" by auto
      have "\<not> 0 < ?T n"
      proof
        assume p: "0 < ?T n"
        then have "?T n \<le> tMax"
          using hitSphere_positive_in_range [of "sphere_at spheres n" rayOrigin rayDir tMin tMax]
          by (simp add: full_range_hit_def in_range_def)
        with p z \<open>\<not> (0 < ?T n \<and> ?T n \<le> c)\<close> show False by simp
      qed
      with z have "\<forall>j<Suc n. \<not> 0 < ?T j" by (auto simp: less_Suc_eq)
      with z False show ?thesis unfolding same by simp
    qed
  qed
qed

lemma closestHit_miss:
  assumes "\<forall>j<unat (numSpheres uniforms).
      \<not> 0 < full_range_hit spheres rayOrigin rayDir tMin tMax j"
  shows "closestHit uniforms spheres rayOrigin rayDir tMin tMax
      = zero_HitRecord\<lparr>rec_t := - 1\<rparr>"
  using scan_no_hit [OF assms] by (simp add: closestHit_def)

lemma closestHit_cases:
  obtains (miss) closest where
      "closestHit_scan spheres rayOrigin rayDir tMin tMax (unat (numSpheres uniforms))
        = (closest, False, zero_HitRecord)"
      "closestHit uniforms spheres rayOrigin rayDir tMin tMax = zero_HitRecord\<lparr>rec_t := - 1\<rparr>"
    | (hit) closest rec where
      "closestHit_scan spheres rayOrigin rayDir tMin tMax (unat (numSpheres uniforms))
        = (closest, True, rec)"
      "closestHit uniforms spheres rayOrigin rayDir tMin tMax = rec"
proof -
  obtain c h r where st:
    "closestHit_scan spheres rayOrigin rayDir tMin tMax (unat (numSpheres uniforms)) = (c, h, r)"
    by (cases "closestHit_scan spheres rayOrigin rayDir tMin tMax (unat (numSpheres uniforms))")
       auto
  show thesis
  proof (cases h)
    case True
    with st show thesis by (intro hit [of c r]) (simp_all add: closestHit_def)
  next
    case False
    have "r = zero_HitRecord"
      using st False
        scan_unhit_record [of spheres rayOrigin rayDir tMin tMax "unat (numSpheres uniforms)" c r]
      by simp
    with st False show thesis by (intro miss [of c]) (simp_all add: closestHit_def)
  qed
qed

text \<open>
  C4: whenever \<open>closestHit\<close> reports a hit (the returned \<open>t\<close> is not negative, the test of
  \<open>rayColor\<close>), over spheres of non-zero radius, the returned normal opposes the ray:
  \<open>dot rayDir normal \<le> 0\<close>. The record is the one of a sphere \<open>i\<close> of the list at a
  positive \<open>t\<close>: its point is \<open>rayOrigin + t rayDir\<close>, \<open>frontFace\<close> is true exactly when
  \<open>dot rayDir outward < 0\<close> for the outward normal \<open>(p - center) / radius\<close>, and the normal
  is \<open>outward\<close> when \<open>frontFace\<close> holds and its negation otherwise. The bound \<open>tMin > 0\<close> of
  the claim is not needed.
\<close>

theorem closestHit_normal_opposes_ray:
  assumes "\<forall>i<unat (numSpheres uniforms). radius (sphere_at spheres i) \<noteq> 0"
    and "\<not> rec_t (closestHit uniforms spheres rayOrigin rayDir tMin tMax) < 0"
  shows "dot rayDir (rec_normal (closestHit uniforms spheres rayOrigin rayDir tMin tMax)) \<le> 0
    \<and> 0 < rec_t (closestHit uniforms spheres rayOrigin rayDir tMin tMax)
    \<and> rec_p (closestHit uniforms spheres rayOrigin rayDir tMin tMax)
        = ray_at rayOrigin rayDir (rec_t (closestHit uniforms spheres rayOrigin rayDir tMin tMax))
    \<and> (\<exists>i<unat (numSpheres uniforms).
          rec_frontFace (closestHit uniforms spheres rayOrigin rayDir tMin tMax)
            = (dot rayDir
                (vdiv (vsub (rec_p (closestHit uniforms spheres rayOrigin rayDir tMin tMax))
                        (center (sphere_at spheres i)))
                  (radius (sphere_at spheres i))) < 0)
          \<and> rec_normal (closestHit uniforms spheres rayOrigin rayDir tMin tMax)
            = (if rec_frontFace (closestHit uniforms spheres rayOrigin rayDir tMin tMax)
               then vdiv (vsub (rec_p (closestHit uniforms spheres rayOrigin rayDir tMin tMax))
                           (center (sphere_at spheres i)))
                      (radius (sphere_at spheres i))
               else vneg
                      (vdiv (vsub (rec_p (closestHit uniforms spheres rayOrigin rayDir tMin tMax))
                              (center (sphere_at spheres i)))
                        (radius (sphere_at spheres i))))
          \<and> rec_materialIndex (closestHit uniforms spheres rayOrigin rayDir tMin tMax)
            = materialIndex (sphere_at spheres i))"
proof (cases rule: closestHit_cases [of spheres rayOrigin rayDir tMin tMax uniforms])
  case (miss closest)
  with assms(2) show ?thesis by simp
next
  case (hit closest rec)
  from scan_hit_record [OF hit(1)] obtain k t where
    k: "k < unat (numSpheres uniforms)" and t: "0 < t"
    and r: "rec = hit_record (sphere_at spheres k) rayOrigin rayDir t" by blast
  have R: "closestHit uniforms spheres rayOrigin rayDir tMin tMax
      = hit_record (sphere_at spheres k) rayOrigin rayDir t"
    using hit(2) r by simp
  have "rec_frontFace (hit_record (sphere_at spheres k) rayOrigin rayDir t)
        = (dot rayDir
            (vdiv (vsub (rec_p (hit_record (sphere_at spheres k) rayOrigin rayDir t))
                    (center (sphere_at spheres k)))
              (radius (sphere_at spheres k))) < 0)
      \<and> rec_normal (hit_record (sphere_at spheres k) rayOrigin rayDir t)
        = (if rec_frontFace (hit_record (sphere_at spheres k) rayOrigin rayDir t)
           then vdiv (vsub (rec_p (hit_record (sphere_at spheres k) rayOrigin rayDir t))
                       (center (sphere_at spheres k)))
                  (radius (sphere_at spheres k))
           else vneg
                  (vdiv (vsub (rec_p (hit_record (sphere_at spheres k) rayOrigin rayDir t))
                          (center (sphere_at spheres k)))
                    (radius (sphere_at spheres k))))
      \<and> rec_materialIndex (hit_record (sphere_at spheres k) rayOrigin rayDir t)
        = materialIndex (sphere_at spheres k)"
    by (simp only: hit_record_fields)
  with k have ex: "\<exists>i<unat (numSpheres uniforms).
      rec_frontFace (hit_record (sphere_at spheres k) rayOrigin rayDir t)
        = (dot rayDir
            (vdiv (vsub (rec_p (hit_record (sphere_at spheres k) rayOrigin rayDir t))
                    (center (sphere_at spheres i)))
              (radius (sphere_at spheres i))) < 0)
      \<and> rec_normal (hit_record (sphere_at spheres k) rayOrigin rayDir t)
        = (if rec_frontFace (hit_record (sphere_at spheres k) rayOrigin rayDir t)
           then vdiv (vsub (rec_p (hit_record (sphere_at spheres k) rayOrigin rayDir t))
                       (center (sphere_at spheres i)))
                  (radius (sphere_at spheres i))
           else vneg
                  (vdiv (vsub (rec_p (hit_record (sphere_at spheres k) rayOrigin rayDir t))
                          (center (sphere_at spheres i)))
                    (radius (sphere_at spheres i))))
      \<and> rec_materialIndex (hit_record (sphere_at spheres k) rayOrigin rayDir t)
        = materialIndex (sphere_at spheres i)"
    by blast
  show ?thesis
    unfolding R using ex t hit_record_normal [of rayDir "sphere_at spheres k" rayOrigin t]
    by (simp add: hit_record_fields(1,2))
qed

lemma ex_disc': "quad_discriminant unit_sphere5' (vec3f 0 0 0) (vec3f 0 0 1) = 1"
  by (simp add: quad_discriminant_def quad_halfB_def quad_c_def unit_sphere5'_def dot_def
        vsub_def)

lemma ex_near': "root_near unit_sphere5' (vec3f 0 0 0) (vec3f 0 0 1) = 4"
  by (simp add: root_near_def ex_disc')
     (simp add: quad_halfB_def unit_sphere5'_def dot_def vsub_def)

lemma ex_disc_in: "quad_discriminant unit_sphere5 (vec3f 0 0 5) (vec3f 0 0 1) = 1"
  by (simp add: quad_discriminant_def quad_halfB_def quad_c_def unit_sphere5_def dot_def
        vsub_def)

lemma ex_near_in: "root_near unit_sphere5 (vec3f 0 0 5) (vec3f 0 0 1) = - 1"
  by (simp add: root_near_def ex_disc_in)
     (simp add: quad_halfB_def unit_sphere5_def dot_def vsub_def)

lemma ex_far_in: "root_far unit_sphere5 (vec3f 0 0 5) (vec3f 0 0 1) = 1"
  by (simp add: root_far_def ex_disc_in)
     (simp add: quad_halfB_def unit_sphere5_def dot_def vsub_def)

lemma ex_hit_first:
  "tMin \<le> 4 \<Longrightarrow> 4 \<le> tMax \<Longrightarrow>
    hitSphere unit_sphere5 (vec3f 0 0 0) (vec3f 0 0 1) tMin tMax = 4"
  by (simp add: hitSphere_unfold ex_disc ex_near in_range_def)

lemma ex_hit_second:
  "tMin \<le> 4 \<Longrightarrow> 4 \<le> tMax \<Longrightarrow>
    hitSphere unit_sphere5' (vec3f 0 0 0) (vec3f 0 0 1) tMin tMax = 4"
  by (simp add: hitSphere_unfold ex_disc' ex_near' in_range_def)

lemma ex_hit_inside:
  "0 < tMin \<Longrightarrow> tMin \<le> 1 \<Longrightarrow> 1 \<le> tMax \<Longrightarrow>
    hitSphere unit_sphere5 (vec3f 0 0 5) (vec3f 0 0 1) tMin tMax = 1"
  by (simp add: hitSphere_unfold ex_disc_in ex_near_in ex_far_in in_range_def)

lemma ex_miss: "hitSphere unit_sphere5 (vec3f 0 0 0) (vec3f 0 1 0) tMin tMax = - 1"
  by (simp add: hitSphere_unfold ex_disc_miss)

lemma unat_numSpheres_1: "unat (numSpheres (uniforms_of (Suc 0))) = Suc 0"
  by (simp add: uniforms_of_def)

lemma unat_numSpheres_2: "unat (numSpheres (uniforms_of 2)) = Suc (Suc 0)"
  by (simp add: uniforms_of_def)

lemma ex_closest_one:
  "closestHit (uniforms_of 1) [unit_sphere5] (vec3f 0 0 0) (vec3f 0 0 1) 0.001 (10 ^ 30)
    = hit_record unit_sphere5 (vec3f 0 0 0) (vec3f 0 0 1) 4"
  by (simp add: closestHit_def unat_numSpheres_1 closestHit_scan_Suc closestHit_scan_0
        closestHit_step_def sphere_at_def ex_hit_first Let_def)

lemma ex_closest_inside:
  "closestHit (uniforms_of 1) [unit_sphere5] (vec3f 0 0 5) (vec3f 0 0 1) 0.001 (10 ^ 30)
    = hit_record unit_sphere5 (vec3f 0 0 5) (vec3f 0 0 1) 1"
  by (simp add: closestHit_def unat_numSpheres_1 closestHit_scan_Suc closestHit_scan_0
        closestHit_step_def sphere_at_def ex_hit_inside Let_def)

lemma ex_closest_two:
  "closestHit (uniforms_of 2) [unit_sphere5, unit_sphere5'] (vec3f 0 0 0) (vec3f 0 0 1)
      0.001 (10 ^ 30)
    = hit_record unit_sphere5' (vec3f 0 0 0) (vec3f 0 0 1) 4"
  by (simp add: closestHit_def unat_numSpheres_2 closestHit_scan_Suc closestHit_scan_0
        closestHit_step_def sphere_at_def ex_hit_first ex_hit_second Let_def)

lemma ex_record_front:
  "hit_record unit_sphere5 (vec3f 0 0 0) (vec3f 0 0 1) 4 =
    \<lparr>rec_t = 4, rec_p = vec3f 0 0 4, rec_normal = vec3f 0 0 (- 1), rec_frontFace = True,
     rec_materialIndex = 0\<rparr>"
  by (simp add: hit_record_def Let_def unit_sphere5_def vadd_def smul_def vsub_def vdiv_def
        dot_def vneg_def)

lemma ex_record_back:
  "hit_record unit_sphere5 (vec3f 0 0 5) (vec3f 0 0 1) 1 =
    \<lparr>rec_t = 1, rec_p = vec3f 0 0 6, rec_normal = vec3f 0 0 (- 1), rec_frontFace = False,
     rec_materialIndex = 0\<rparr>"
  by (simp add: hit_record_def Let_def unit_sphere5_def vadd_def smul_def vsub_def vdiv_def
        dot_def vneg_def)

lemma ex_record_second:
  "hit_record unit_sphere5' (vec3f 0 0 0) (vec3f 0 0 1) 4 =
    \<lparr>rec_t = 4, rec_p = vec3f 0 0 4, rec_normal = vec3f 0 0 (- 1), rec_frontFace = True,
     rec_materialIndex = 1\<rparr>"
  by (simp add: hit_record_def Let_def unit_sphere5'_def vadd_def smul_def vsub_def vdiv_def
        dot_def vneg_def)

text \<open>Two rays along \<open>z\<close> through \<open>unit_sphere5\<close>: from outside (front face, hit at 4) and
  from its centre (back face, hit at 1, normal flipped).\<close>

theorem closestHit_normal_opposes_ray_witness:
  "unat (numSpheres (uniforms_of 1)) = 1
   \<and> radius (sphere_at [unit_sphere5] 0) \<noteq> 0
   \<and> \<not> rec_t (closestHit (uniforms_of 1) [unit_sphere5] (vec3f 0 0 0) (vec3f 0 0 1)
               0.001 (10 ^ 30)) < 0
   \<and> rec_frontFace (closestHit (uniforms_of 1) [unit_sphere5] (vec3f 0 0 0) (vec3f 0 0 1)
               0.001 (10 ^ 30))
   \<and> dot (vec3f 0 0 1)
        (rec_normal (closestHit (uniforms_of 1) [unit_sphere5] (vec3f 0 0 0) (vec3f 0 0 1)
               0.001 (10 ^ 30))) \<le> 0
   \<and> \<not> rec_t (closestHit (uniforms_of 1) [unit_sphere5] (vec3f 0 0 5) (vec3f 0 0 1)
               0.001 (10 ^ 30)) < 0
   \<and> \<not> rec_frontFace (closestHit (uniforms_of 1) [unit_sphere5] (vec3f 0 0 5) (vec3f 0 0 1)
               0.001 (10 ^ 30))
   \<and> dot (vec3f 0 0 1)
        (rec_normal (closestHit (uniforms_of 1) [unit_sphere5] (vec3f 0 0 5) (vec3f 0 0 1)
               0.001 (10 ^ 30))) \<le> 0"
proof -
  have r: "\<forall>i<unat (numSpheres (uniforms_of 1)). radius (sphere_at [unit_sphere5] i) \<noteq> 0"
    by (simp add: unat_numSpheres_1 sphere_at_def unit_sphere5_def)
  have h1: "\<not> rec_t (closestHit (uniforms_of 1) [unit_sphere5] (vec3f 0 0 0) (vec3f 0 0 1)
      0.001 (10 ^ 30)) < 0"
    by (simp only: ex_closest_one ex_record_front) simp
  have h2: "\<not> rec_t (closestHit (uniforms_of 1) [unit_sphere5] (vec3f 0 0 5) (vec3f 0 0 1)
      0.001 (10 ^ 30)) < 0"
    by (simp only: ex_closest_inside ex_record_back) simp
  have f1: "rec_frontFace (closestHit (uniforms_of 1) [unit_sphere5] (vec3f 0 0 0)
      (vec3f 0 0 1) 0.001 (10 ^ 30))"
    by (simp only: ex_closest_one ex_record_front) simp
  have f2: "\<not> rec_frontFace (closestHit (uniforms_of 1) [unit_sphere5] (vec3f 0 0 5)
      (vec3f 0 0 1) 0.001 (10 ^ 30))"
    by (simp only: ex_closest_inside ex_record_back) simp
  note n1 = closestHit_normal_opposes_ray [OF r h1, THEN conjunct1]
  note n2 = closestHit_normal_opposes_ray [OF r h2, THEN conjunct1]
  have u: "unat (numSpheres (uniforms_of 1)) = 1" by (simp add: uniforms_of_def)
  have r0: "radius (sphere_at [unit_sphere5] 0) \<noteq> 0"
    by (simp add: sphere_at_def unit_sphere5_def)
  from u r0 h1 f1 n1 h2 f2 n2 show ?thesis by (intro conjI)
qed

text \<open>
  C5, as stated, fails in its tie-break: \<open>hitSphere\<close> accepts a root equal to \<open>tMax\<close>, so a
  sphere whose hit is at the same \<open>t\<close> as the closest so far replaces it. The two spheres
  below are both hit at \<open>t = 4\<close>; the record returned carries material 1, that of the
  sphere tested second, not material 0 of the sphere tested first.
\<close>

theorem closestHit_tie_counterexample:
  "full_range_hit [unit_sphere5, unit_sphere5'] (vec3f 0 0 0) (vec3f 0 0 1) 0.001 (10 ^ 30) 0 = 4
   \<and> full_range_hit [unit_sphere5, unit_sphere5'] (vec3f 0 0 0) (vec3f 0 0 1) 0.001 (10 ^ 30) 1
        = 4
   \<and> materialIndex unit_sphere5 = 0
   \<and> materialIndex unit_sphere5' = 1
   \<and> rec_materialIndex (closestHit (uniforms_of 2) [unit_sphere5, unit_sphere5'] (vec3f 0 0 0)
        (vec3f 0 0 1) 0.001 (10 ^ 30)) = 1"
proof (intro conjI)
  show "full_range_hit [unit_sphere5, unit_sphere5'] (vec3f 0 0 0) (vec3f 0 0 1)
      0.001 (10 ^ 30) 0 = 4"
    by (simp add: full_range_hit_def sphere_at_def ex_hit_first)
  show "full_range_hit [unit_sphere5, unit_sphere5'] (vec3f 0 0 0) (vec3f 0 0 1)
      0.001 (10 ^ 30) 1 = 4"
    by (simp add: full_range_hit_def sphere_at_def ex_hit_second)
  show "materialIndex unit_sphere5 = 0" by (simp add: unit_sphere5_def)
  show "materialIndex unit_sphere5' = 1" by (simp add: unit_sphere5'_def)
  show "rec_materialIndex (closestHit (uniforms_of 2) [unit_sphere5, unit_sphere5']
      (vec3f 0 0 0) (vec3f 0 0 1) 0.001 (10 ^ 30)) = 1"
    by (simp only: ex_closest_two ex_record_second) simp
qed

text \<open>
  C5, amended: for a ray with a non-zero direction and \<open>tMin > 0\<close>, \<open>closestHit\<close> scans the
  spheres in list order, shrinking the upper bound to the nearest hit so far. If no sphere
  is hit on \<open>[tMin, tMax]\<close> it reports a miss (\<open>t = -1\<close>). Otherwise it reports the record of
  a sphere \<open>k\<close> whose hit is the nearest of all, and among spheres hit at that same nearest
  \<open>t\<close> it is the one tested last: every later sphere that is hit is hit strictly farther.
\<close>

theorem closestHit_nearest_last_tested:
  assumes "0 < dot rayDir rayDir" and "0 < tMin"
  shows "((\<forall>j<unat (numSpheres uniforms).
              \<not> 0 < full_range_hit spheres rayOrigin rayDir tMin tMax j) \<longrightarrow>
            closestHit uniforms spheres rayOrigin rayDir tMin tMax
              = zero_HitRecord\<lparr>rec_t := - 1\<rparr>)
    \<and> ((\<exists>j<unat (numSpheres uniforms).
              0 < full_range_hit spheres rayOrigin rayDir tMin tMax j) \<longrightarrow>
          (\<exists>k<unat (numSpheres uniforms).
              0 < full_range_hit spheres rayOrigin rayDir tMin tMax k
            \<and> closestHit uniforms spheres rayOrigin rayDir tMin tMax
                = hit_record (sphere_at spheres k) rayOrigin rayDir
                    (full_range_hit spheres rayOrigin rayDir tMin tMax k)
            \<and> (\<forall>j<unat (numSpheres uniforms).
                  0 < full_range_hit spheres rayOrigin rayDir tMin tMax j \<longrightarrow>
                  full_range_hit spheres rayOrigin rayDir tMin tMax k
                    \<le> full_range_hit spheres rayOrigin rayDir tMin tMax j)
            \<and> (\<forall>j<unat (numSpheres uniforms).
                  k < j \<and> 0 < full_range_hit spheres rayOrigin rayDir tMin tMax j \<longrightarrow>
                  full_range_hit spheres rayOrigin rayDir tMin tMax k
                    < full_range_hit spheres rayOrigin rayDir tMin tMax j)))"
proof (intro conjI impI)
  assume "\<forall>j<unat (numSpheres uniforms).
      \<not> 0 < full_range_hit spheres rayOrigin rayDir tMin tMax j"
  then show "closestHit uniforms spheres rayOrigin rayDir tMin tMax
      = zero_HitRecord\<lparr>rec_t := - 1\<rparr>"
    by (rule closestHit_miss)
next
  let ?n = "unat (numSpheres uniforms)"
  let ?T = "full_range_hit spheres rayOrigin rayDir tMin tMax"
  assume ex: "\<exists>j<?n. 0 < ?T j"
  note inv = scan_nearest [OF assms, where spheres = spheres and rayOrigin = rayOrigin
      and tMax = tMax and n = ?n]
  show "\<exists>k<?n. 0 < ?T k
      \<and> closestHit uniforms spheres rayOrigin rayDir tMin tMax
          = hit_record (sphere_at spheres k) rayOrigin rayDir (?T k)
      \<and> (\<forall>j<?n. 0 < ?T j \<longrightarrow> ?T k \<le> ?T j)
      \<and> (\<forall>j<?n. k < j \<and> 0 < ?T j \<longrightarrow> ?T k < ?T j)"
  proof (cases rule: closestHit_cases [of spheres rayOrigin rayDir tMin tMax uniforms])
    case (miss closest)
    with inv have "\<forall>j<?n. \<not> 0 < ?T j" by simp
    with ex show ?thesis by blast
  next
    case (hit closest rec)
    with inv obtain k where "k < ?n" "0 < ?T k" "closest = ?T k"
      "rec = hit_record (sphere_at spheres k) rayOrigin rayDir closest"
      "\<forall>j<?n. 0 < ?T j \<longrightarrow> closest \<le> ?T j"
      "\<forall>j<?n. k < j \<and> 0 < ?T j \<longrightarrow> closest < ?T j"
      by auto
    with hit(2) show ?thesis by blast
  qed
qed

text \<open>On the two coincident spheres the sphere reported is the second; on the ray along
  \<open>y\<close>, which hits nothing, the scan reports a miss.\<close>

theorem closestHit_nearest_last_tested_witness:
  "0 < dot (vec3f 0 0 1) (vec3f 0 0 1) \<and> (0 :: real) < 0.001
   \<and> (\<exists>j<unat (numSpheres (uniforms_of 2)).
        0 < full_range_hit [unit_sphere5, unit_sphere5'] (vec3f 0 0 0) (vec3f 0 0 1)
              0.001 (10 ^ 30) j)
   \<and> (\<exists>k<unat (numSpheres (uniforms_of 2)).
        closestHit (uniforms_of 2) [unit_sphere5, unit_sphere5'] (vec3f 0 0 0) (vec3f 0 0 1)
            0.001 (10 ^ 30)
          = hit_record (sphere_at [unit_sphere5, unit_sphere5'] k) (vec3f 0 0 0) (vec3f 0 0 1)
              (full_range_hit [unit_sphere5, unit_sphere5'] (vec3f 0 0 0) (vec3f 0 0 1)
                0.001 (10 ^ 30) k))
   \<and> 0 < dot (vec3f 0 1 0) (vec3f 0 1 0)
   \<and> unat (numSpheres (uniforms_of 1)) = 1
   \<and> \<not> 0 < full_range_hit [unit_sphere5] (vec3f 0 0 0) (vec3f 0 1 0) 0.001 (10 ^ 30) 0
   \<and> closestHit (uniforms_of 1) [unit_sphere5] (vec3f 0 0 0) (vec3f 0 1 0) 0.001 (10 ^ 30)
        = zero_HitRecord\<lparr>rec_t := - 1\<rparr>"
proof -
  have az: "0 < dot (vec3f 0 0 1) (vec3f 0 0 1)" by (simp add: dot_def)
  have ay: "0 < dot (vec3f 0 1 0) (vec3f 0 1 0)" by (simp add: dot_def)
  have m: "(0 :: real) < 0.001" by simp
  have ex: "\<exists>j<unat (numSpheres (uniforms_of 2)).
      0 < full_range_hit [unit_sphere5, unit_sphere5'] (vec3f 0 0 0) (vec3f 0 0 1)
            0.001 (10 ^ 30) j"
    by (rule exI [of _ 0])
       (simp add: unat_numSpheres_2 full_range_hit_def sphere_at_def ex_hit_first)
  have none: "\<forall>j<unat (numSpheres (uniforms_of 1)).
      \<not> 0 < full_range_hit [unit_sphere5] (vec3f 0 0 0) (vec3f 0 1 0) 0.001 (10 ^ 30) j"
    by (simp add: unat_numSpheres_1 full_range_hit_def sphere_at_def ex_miss)
  note Z = closestHit_nearest_last_tested [OF az m, of "uniforms_of 2"
      "[unit_sphere5, unit_sphere5']" "vec3f 0 0 0" "10 ^ 30"]
  note Y = closestHit_nearest_last_tested [OF ay m, of "uniforms_of 1"
      "[unit_sphere5]" "vec3f 0 0 0" "10 ^ 30"]
  from Z [THEN conjunct2, THEN mp, OF ex]
  have k: "\<exists>k<unat (numSpheres (uniforms_of 2)).
      closestHit (uniforms_of 2) [unit_sphere5, unit_sphere5'] (vec3f 0 0 0) (vec3f 0 0 1)
          0.001 (10 ^ 30)
        = hit_record (sphere_at [unit_sphere5, unit_sphere5'] k) (vec3f 0 0 0) (vec3f 0 0 1)
            (full_range_hit [unit_sphere5, unit_sphere5'] (vec3f 0 0 0) (vec3f 0 0 1)
              0.001 (10 ^ 30) k)"
    by blast
  note miss = Y [THEN conjunct1, THEN mp, OF none]
  have u: "unat (numSpheres (uniforms_of 1)) = 1" by (simp add: uniforms_of_def)
  have n0: "\<not> 0 < full_range_hit [unit_sphere5] (vec3f 0 0 0) (vec3f 0 1 0)
      0.001 (10 ^ 30) 0"
    by (simp add: full_range_hit_def sphere_at_def ex_miss)
  from az m ex k ay u n0 miss show ?thesis by (intro conjI)
qed

section \<open>The path integrator\<close>

lemma rayColor_loop_miss:
  assumes "closestHit uniforms spheres currentOrigin currentDir 0.001 (10 ^ 30)
      = zero_HitRecord\<lparr>rec_t := - 1\<rparr>"
  shows "rayColor_loop uniforms spheres materials (Suc n) currentOrigin currentDir throughput s
      = Some (vmul throughput (skyColor currentDir), s)"
proof -
  have "rec_t (closestHit uniforms spheres currentOrigin currentDir 0.001 (10 ^ 30)) < 0"
    by (simp only: assms) simp
  then show ?thesis by (simp add: Let_def)
qed

lemma vmul_one: "vmul (vec3f 1 1 1) c = c"
  by (cases c) (simp add: vmul_def)

lemma skyColor_up: "skyColor (vec3f 0 1 0) = vec3f 0.5 0.7 1"
  by (simp add: skyColor_def Let_def normalize_def vdiv_def dot_def vadd_def smul_def)







text \<open>
  C1, as stated, fails at \<open>maxBounces = 0\<close>: the bounce loop does not run, and \<open>rayColor\<close>
  returns black without looking at the scene. In an empty scene the ray straight up misses
  every sphere and its sky colour is \<open>(0.5, 0.7, 1)\<close>, yet the result for depth 0 is
  \<open>(0, 0, 0)\<close>.
\<close>

theorem rayColor_depth0_counterexample:
  "numSpheres (uniforms_of 0) = 0
   \<and> rayColor (uniforms_of 0) [] [] (vec3f 0 0 0) (vec3f 0 1 0) 0 0 = Some (vec3f 0 0 0, 0)
   \<and> vmul (vec3f 1 1 1) (skyColor (vec3f 0 1 0)) = vec3f 0.5 0.7 1
   \<and> rayColor (uniforms_of 0) [] [] (vec3f 0 0 0) (vec3f 0 1 0) 0 0
        \<noteq> Some (vmul (vec3f 1 1 1) (skyColor (vec3f 0 1 0)), 0)"
proof -
  have z: "rayColor (uniforms_of 0) [] [] (vec3f 0 0 0) (vec3f 0 1 0) 0 0
      = Some (vec3f 0 0 0, 0)"
    by (simp add: rayColor_def splat_def)
  have s: "vmul (vec3f 1 1 1) (skyColor (vec3f 0 1 0)) = vec3f 0.5 0.7 1"
    by (simp only: vmul_one skyColor_up)
  have n: "numSpheres (uniforms_of 0) = 0"
    by (simp add: uniforms_of_def)
  have "rayColor (uniforms_of 0) [] [] (vec3f 0 0 0) (vec3f 0 1 0) 0 0
      \<noteq> Some (vmul (vec3f 1 1 1) (skyColor (vec3f 0 1 0)), 0)"
    by (simp only: z s) simp
  with n z s show ?thesis by (intro conjI)
qed

text \<open>
  C1, amended: for every bounce budget of at least 1, and every ray with a non-zero
  direction that hits no sphere of the scene on the range \<open>[0.001, 10\<^sup>30]\<close> of the
  integrator, \<open>rayColor\<close> returns the throughput \<open>(1, 1, 1)\<close> times the sky colour of the
  direction, which is the sky colour itself, and leaves the generator untouched. The sky
  colour is the blend \<open>(1 - t) (1, 1, 1) + t (0.5, 0.7, 1)\<close> at
  \<open>t = 0.5 (normalize(dir).y + 1)\<close>.
\<close>

theorem rayColor_miss_sky:
  assumes "depth \<noteq> 0"
    and "0 < dot rayDir rayDir"
    and "\<forall>j<unat (numSpheres uniforms).
          \<not> 0 < full_range_hit spheres rayOrigin rayDir 0.001 (10 ^ 30) j"
  shows "rayColor uniforms spheres materials rayOrigin rayDir depth s
        = Some (vmul (vec3f 1 1 1) (skyColor rayDir), s)
    \<and> vmul (vec3f 1 1 1) (skyColor rayDir) = skyColor rayDir
    \<and> skyColor rayDir =
        vadd (smul (1 - 0.5 * (vy (normalize rayDir) + 1)) (vec3f 1 1 1))
             (smul (0.5 * (vy (normalize rayDir) + 1)) (vec3f 0.5 0.7 1))"
proof (intro conjI)
  from assms(1) have "unat depth \<noteq> 0" by (simp add: unat_eq_0)
  then obtain n where n: "unat depth = Suc n" by (cases "unat depth") auto
  have "closestHit uniforms spheres rayOrigin rayDir 0.001 (10 ^ 30)
      = zero_HitRecord\<lparr>rec_t := - 1\<rparr>"
    using assms(3) by (rule closestHit_miss)
  then show "rayColor uniforms spheres materials rayOrigin rayDir depth s
      = Some (vmul (vec3f 1 1 1) (skyColor rayDir), s)"
    unfolding rayColor_def n by (rule rayColor_loop_miss)
  show "vmul (vec3f 1 1 1) (skyColor rayDir) = skyColor rayDir" by (rule vmul_one)
  show "skyColor rayDir =
      vadd (smul (1 - 0.5 * (vy (normalize rayDir) + 1)) (vec3f 1 1 1))
           (smul (0.5 * (vy (normalize rayDir) + 1)) (vec3f 0.5 0.7 1))"
    by (simp add: skyColor_def Let_def)
qed

text \<open>The ray straight up from the origin passes \<open>unit_sphere5\<close> at distance 5; with a
  budget of one bounce its colour is the sky colour \<open>(0.5, 0.7, 1)\<close>.\<close>

theorem rayColor_miss_sky_witness:
  "(1 :: u32) \<noteq> 0 \<and> 0 < dot (vec3f 0 1 0) (vec3f 0 1 0)
   \<and> unat (numSpheres (uniforms_of 1)) = 1
   \<and> \<not> 0 < full_range_hit [unit_sphere5] (vec3f 0 0 0) (vec3f 0 1 0) 0.001 (10 ^ 30) 0
   \<and> rayColor (uniforms_of 1) [unit_sphere5] [] (vec3f 0 0 0) (vec3f 0 1 0) 1 0
        = Some (vec3f 0.5 0.7 1, 0)"
proof -
  have d: "(1 :: u32) \<noteq> 0" by simp
  have a: "0 < dot (vec3f 0 1 0) (vec3f 0 1 0)" by (simp add: dot_def)
  have none: "\<forall>j<unat (numSpheres (uniforms_of 1)).
      \<not> 0 < full_range_hit [unit_sphere5] (vec3f 0 0 0) (vec3f 0 1 0) 0.001 (10 ^ 30) j"
    by (simp add: unat_numSpheres_1 full_range_hit_def sphere_at_def ex_miss)
  note T = rayColor_miss_sky [OF d a none, of "[]" 0]
  have "rayColor (uniforms_of 1) [unit_sphere5] [] (vec3f 0 0 0) (vec3f 0 1 0) 1 0
      = Some (vec3f 0.5 0.7 1, 0)"
    by (simp only: T [THEN conjunct1] vmul_one skyColor_up)
  moreover have "unat (numSpheres (uniforms_of 1)) = 1"
    by (simp add: uniforms_of_def)
  moreover have "\<not> 0 < full_range_hit [unit_sphere5] (vec3f 0 0 0) (vec3f 0 1 0)
      0.001 (10 ^ 30) 0"
    by (simp add: full_range_hit_def sphere_at_def ex_miss)
  ultimately show ?thesis using d a by (intro conjI)
qed

section \<open>The dielectric branch\<close>












section \<open>The kernel entry point and the host\<close>

lemma main_unfold:
  "main uniforms camera spheres materials g (outputTex, accumulationTex) =
    (if \<not> in_image uniforms g then Some (outputTex, accumulationTex)
     else case main_accumulate uniforms camera spheres materials (fst g) (snd g)
                 (textureLoad accumulationTex (pixel_of g)) of
            None \<Rightarrow> None
          | Some (accumulatedColor, sampleCount') \<Rightarrow>
              Some (textureStore outputTex (pixel_of g)
                      (vec4f (main_output accumulatedColor sampleCount') 1),
                    textureStore accumulationTex (pixel_of g) (vec4f accumulatedColor 1)))"
  by (cases g) (auto simp: main_def in_image_def pixel_of_def Let_def not_less
        split: option.splits)

lemma main_samples_once:
  "main_samples uniforms camera spheres materials px py offset (unat (1 :: u32)) st =
    main_sample uniforms camera spheres materials px py offset st"
  by (simp split: option.split)

lemma main_sample_Some:
  assumes "main_sample uniforms camera spheres materials px py offset (acc, cnt, s)
      = Some (acc', cnt', s')"
  shows "cnt' = cnt + 1
    \<and> (\<exists>color rayOrigin rayDir st.
          rayColor uniforms spheres materials rayOrigin rayDir (maxBounces uniforms) st
            = Some (color, s')
          \<and> acc' = vadd acc color)"
  using assms
  by (auto simp: main_sample_def Let_def case_prod_beta split: option.splits) blast

lemma main_accumulate_Some:
  assumes "main_accumulate uniforms camera spheres materials px py prevColor
      = Some (accumulatedColor, sampleCount')"
  shows "sampleCount' = sampleCount uniforms + 1
    \<and> (\<exists>color rayOrigin rayDir st st'.
          rayColor uniforms spheres materials rayOrigin rayDir (maxBounces uniforms) st
            = Some (color, st')
          \<and> accumulatedColor = vadd (rgb prevColor) color)"
proof -
  from assms obtain d s1 s2 where
    "main_sample uniforms camera spheres materials px py
        (vadd (vscale (cam_u camera) (vx (smul (cam_lensRadius camera) d)))
              (vscale (cam_v camera) (vy (smul (cam_lensRadius camera) d))))
        (rgb prevColor, sampleCount uniforms, s1)
      = Some (accumulatedColor, sampleCount', s2)"
    by (auto simp: main_accumulate_def main_samples_once Let_def
          split: option.splits prod.splits)
  from main_sample_Some [OF this] show ?thesis by blast
qed

lemma textureStore_other: "q \<noteq> p \<Longrightarrow> textureStore tex p c q = tex q"
  by (simp add: textureStore_def)


text \<open>What one invocation leaves in the textures.\<close>

lemma main_effect:
  "(case main uniforms camera spheres materials g (out, acc) of
      None \<Rightarrow> (out, acc) | Some texs' \<Rightarrow> texs') =
    (if \<not> in_image uniforms g then (out, acc)
     else case main_accumulate uniforms camera spheres materials (fst g) (snd g)
                 (textureLoad acc (pixel_of g)) of
            None \<Rightarrow> (out, acc)
          | Some (a, n) \<Rightarrow>
              (textureStore out (pixel_of g) (vec4f (main_output a n) 1),
               textureStore acc (pixel_of g) (vec4f a 1)))"
  by (simp add: main_unfold split: option.splits)

lemma main_frame:
  assumes "(case main uniforms camera spheres materials g (out, acc) of
      None \<Rightarrow> (out, acc) | Some texs' \<Rightarrow> texs') = (out', acc')"
    and "q \<noteq> pixel_of g"
  shows "out' q = out q \<and> acc' q = acc q"
  using assms unfolding main_effect
  by (auto simp: textureStore_other split: if_splits option.splits)

lemma textureStore_at:
  "textureStore tex p c p = (if tex p = None then None else Some c)"
  by (simp add: textureStore_def)

lemma run_frame:
  assumes "run_invocations uniforms camera spheres materials gs (out, acc) = (out', acc')"
    and "\<forall>g\<in>set gs. pixel_of g \<noteq> q"
  shows "out' q = out q \<and> acc' q = acc q"
  using assms
proof (induction gs arbitrary: out acc)
  case Nil
  then show ?case by simp
next
  case (Cons g gs)
  obtain om am where
    m: "(case main uniforms camera spheres materials g (out, acc) of
          None \<Rightarrow> (out, acc) | Some texs' \<Rightarrow> texs') = (om, am)"
    by (cases "case main uniforms camera spheres materials g (out, acc) of
          None \<Rightarrow> (out, acc) | Some texs' \<Rightarrow> texs'")
  from Cons.prems(1) have
    r: "run_invocations uniforms camera spheres materials gs (om, am) = (out', acc')"
    by (simp add: m)
  from Cons.prems(2) have "q \<noteq> pixel_of g" by auto
  from main_frame [OF m this] have "om q = out q \<and> am q = acc q" .
  moreover from Cons.prems(2) have "\<forall>g\<in>set gs. pixel_of g \<noteq> q" by simp
  from Cons.IH [OF r this] have "out' q = om q \<and> acc' q = am q" .
  ultimately show ?case by simp
qed

lemma run_pixel:
  assumes "run_invocations uniforms camera spheres materials gs (out, acc) = (out', acc')"
    and "g \<in> set gs" and "distinct (map pixel_of gs)" and "in_image uniforms g"
  shows "case main_accumulate uniforms camera spheres materials (fst g) (snd g)
                (textureLoad acc (pixel_of g)) of
           None \<Rightarrow> out' (pixel_of g) = out (pixel_of g) \<and> acc' (pixel_of g) = acc (pixel_of g)
         | Some (a, n) \<Rightarrow>
             out' (pixel_of g)
               = textureStore out (pixel_of g) (vec4f (main_output a n) 1) (pixel_of g)
           \<and> acc' (pixel_of g) = textureStore acc (pixel_of g) (vec4f a 1) (pixel_of g)"
  using assms(1-3)
proof (induction gs arbitrary: out acc)
  case Nil
  then show ?case by simp
next
  case (Cons h gs)
  let ?q = "pixel_of g"
  obtain om am where
    m: "(case main uniforms camera spheres materials h (out, acc) of
          None \<Rightarrow> (out, acc) | Some texs' \<Rightarrow> texs') = (om, am)"
    by (cases "case main uniforms camera spheres materials h (out, acc) of
          None \<Rightarrow> (out, acc) | Some texs' \<Rightarrow> texs'")
  from Cons.prems(1) have
    r: "run_invocations uniforms camera spheres materials gs (om, am) = (out', acc')"
    by (simp add: m)
  show ?case
  proof (cases "h = g")
    case True
    have "?q \<notin> pixel_of ` set gs" using Cons.prems(3) True by simp
    then have "\<forall>k\<in>set gs. pixel_of k \<noteq> ?q" by (metis imageI)
    from run_frame [OF r this] have same: "out' ?q = om ?q" "acc' ?q = am ?q" by simp_all
    from m True assms(4) have
      "(om, am) = (case main_accumulate uniforms camera spheres materials (fst g) (snd g)
                          (textureLoad acc ?q) of
                     None \<Rightarrow> (out, acc)
                   | Some (a, n) \<Rightarrow>
                       (textureStore out ?q (vec4f (main_output a n) 1),
                        textureStore acc ?q (vec4f a 1)))"
      by (simp add: main_effect)
    then show ?thesis unfolding same by (auto split: option.splits)
  next
    case False
    with Cons.prems(2) have g: "g \<in> set gs" by simp
    then have "?q \<in> pixel_of ` set gs" by (rule imageI)
    moreover have "pixel_of h \<notin> pixel_of ` set gs" using Cons.prems(3) by simp
    ultimately have ne: "?q \<noteq> pixel_of h" by metis
    from main_frame [OF m ne] have eq: "om ?q = out ?q" "am ?q = acc ?q" by simp_all
    then have l: "textureLoad am ?q = textureLoad acc ?q" by (simp add: textureLoad_def)
    from Cons.prems(3) have "distinct (map pixel_of gs)" by simp
    from Cons.IH [OF r g this] show ?thesis
      unfolding l by (auto simp add: textureStore_at eq split: option.splits)
  qed
qed

lemma sint_of_nat_small:
  assumes "x < 2 ^ 31"
  shows "sint (of_nat x :: u32) = int x"
proof -
  have "int x < 2 ^ 31" using assms by (simp add: of_nat_less_numeral_power_cancel_iff)
  moreover have "- (2 ^ 31) \<le> int x" by simp
  ultimately have "signed_take_bit 31 (int x) = int x"
    by (simp add: signed_take_bit_int_eq_self)
  then show ?thesis by (simp add: signed_of_nat)
qed

lemma invocations_product:
  "invocations nx ny =
    map (\<lambda>(y, x). (of_nat x, of_nat y)) (List.product [0..<8 * ny] [0..<8 * nx])"
  by (simp add: invocations_def product_concat_map map_concat comp_def)

lemma invocations_pixels:
  assumes "8 * nx \<le> 2 ^ 31" "8 * ny \<le> 2 ^ 31"
  shows "map pixel_of (invocations nx ny) =
    map (\<lambda>(y, x). (int x, int y)) (List.product [0..<8 * ny] [0..<8 * nx])"
  unfolding invocations_product map_map
proof (rule map_cong [OF refl])
  fix p assume "p \<in> set (List.product [0..<8 * ny] [0..<8 * nx])"
  then obtain y x where p: "p = (y, x)" and "y < 8 * ny" "x < 8 * nx" by auto
  with assms have "x < 2 ^ 31" "y < 2 ^ 31" by simp_all
  then show "(pixel_of \<circ> (\<lambda>(y, x). (of_nat x, of_nat y))) p = (\<lambda>(y, x). (int x, int y)) p"
    by (simp add: p pixel_of_def sint_of_nat_small)
qed

lemma invocations_distinct:
  assumes "8 * nx \<le> 2 ^ 31" "8 * ny \<le> 2 ^ 31"
  shows "distinct (map pixel_of (invocations nx ny))"
proof -
  have "distinct (List.product [0..<8 * ny] [0..<8 * nx])"
    by (rule distinct_product) simp_all
  moreover have "inj_on (\<lambda>(y, x). (int x, int y)) (set (List.product [0..<8 * ny] [0..<8 * nx]))"
    by (auto simp: inj_on_def)
  ultimately show ?thesis
    unfolding invocations_pixels [OF assms] by (simp only: distinct_map)
qed

lemma invocations_member:
  assumes "x < 8 * nx" "y < 8 * ny"
  shows "(of_nat x, of_nat y) \<in> set (invocations nx ny)"
  using assms by (auto simp: invocations_product image_iff)

lemma sint_word_of_int_small:
  assumes "0 \<le> w" "w < 2 ^ 31"
  shows "sint (word_of_int w :: u32) = w"
proof -
  have "- (2 ^ 31) \<le> w" using assms(1) by simp
  with assms(2) have "signed_take_bit 31 w = w" by (simp add: signed_take_bit_int_eq_self)
  then show ?thesis by (simp add: signed_of_int)
qed

lemma workgroups_cover:
  assumes "0 \<le> x" "x < w" "w < 2 ^ 31"
  shows "nat x < 8 * nat \<lceil>real_of_int w / 8\<rceil> \<and> 8 * nat \<lceil>real_of_int w / 8\<rceil> \<le> 2 ^ 31"
proof -
  let ?c = "\<lceil>real_of_int w / 8\<rceil>"
  have "real_of_int w / 8 \<le> real_of_int ?c" by (rule le_of_int_ceiling)
  then have lo: "w \<le> 8 * ?c" by linarith
  have "real_of_int w / 8 \<le> real_of_int (2 ^ 28)" using assms(3) by simp
  then have hi: "?c \<le> 2 ^ 28" by (rule ceiling_le)
  from lo assms have "0 \<le> ?c" by linarith
  with lo hi assms show ?thesis by (simp add: nat_less_iff nat_le_iff)
qed

text \<open>A material index 1 of the host arrives in the kernel as the bit pattern of the
  binary32 number 1.\<close>

lemma bit_length_1: "bit_length (Suc 0) = Suc 0"
  by (simp add: bit_length.simps [of "Suc 0"] bit_length.simps [of 0])

lemma float32_bits_1: "float32_bits 1 = 0x3f800000"
  by (simp add: float32_bits_def bit_length_1)


lemma uniformData_fields:
  "width (uniformData rt scene settings) = word_of_int (settings_width settings)"
  "height (uniformData rt scene settings) = word_of_int (settings_height settings)"
  "sampleCount (uniformData rt scene settings) = word_of_int (rt_sampleCount rt)"
  by (simp_all add: uniformData_def)

lemma render_ready:
  assumes "ready rt"
  shows "render rt scene settings =
    Returned (rt_sampleCount rt + samplesPerFrame settings)
      (rt\<lparr>outputTexture := fst (dispatchWorkgroups (uniformData rt scene settings)
              (buildCameraData rt (scene_camera scene)) (buildSphereData (scene_spheres scene))
              (buildMaterialData (scene_materials scene))
              (nat \<lceil>real_of_int (settings_width settings) / 8\<rceil>)
              (nat \<lceil>real_of_int (settings_height settings) / 8\<rceil>)
              (outputTexture rt, accumulationTexture rt)),
          accumulationTexture := snd (dispatchWorkgroups (uniformData rt scene settings)
              (buildCameraData rt (scene_camera scene)) (buildSphereData (scene_spheres scene))
              (buildMaterialData (scene_materials scene))
              (nat \<lceil>real_of_int (settings_width settings) / 8\<rceil>)
              (nat \<lceil>real_of_int (settings_height settings) / 8\<rceil>)
              (outputTexture rt, accumulationTexture rt)),
          rt_frameIndex := rt_frameIndex rt + 1,
          rt_sampleCount := rt_sampleCount rt + samplesPerFrame settings\<rparr>)"
  using assms by (simp add: render_def Let_def case_prod_beta)

lemma dispatch_pixel:
  assumes d: "dispatchWorkgroups uniforms camera spheres materials
        (nat \<lceil>real_of_int w / 8\<rceil>) (nat \<lceil>real_of_int h / 8\<rceil>) (out, acc) = (out', acc')"
    and wu: "width uniforms = word_of_int w" and hu: "height uniforms = word_of_int h"
    and x: "0 \<le> x" "x < w" "w < 2 ^ 31"
    and y: "0 \<le> y" "y < h" "h < 2 ^ 31"
  shows "case main_accumulate uniforms camera spheres materials (of_nat (nat x))
                (of_nat (nat y)) (textureLoad acc (x, y)) of
           None \<Rightarrow> out' (x, y) = out (x, y) \<and> acc' (x, y) = acc (x, y)
         | Some (a, n) \<Rightarrow>
             out' (x, y) = textureStore out (x, y) (vec4f (main_output a n) 1) (x, y)
           \<and> acc' (x, y) = textureStore acc (x, y) (vec4f a 1) (x, y)"
proof -
  let ?nx = "nat \<lceil>real_of_int w / 8\<rceil>" and ?ny = "nat \<lceil>real_of_int h / 8\<rceil>"
  let ?g = "(of_nat (nat x) :: u32, of_nat (nat y) :: u32)"
  from workgroups_cover [OF x] have cx: "nat x < 8 * ?nx" "8 * ?nx \<le> 2 ^ 31" by simp_all
  from workgroups_cover [OF y] have cy: "nat y < 8 * ?ny" "8 * ?ny \<le> 2 ^ 31" by simp_all
  have sx: "sint (of_nat (nat x) :: u32) = x"
    using sint_of_nat_small [of "nat x"] cx x by simp
  have sy: "sint (of_nat (nat y) :: u32) = y"
    using sint_of_nat_small [of "nat y"] cy y by simp
  have q: "pixel_of ?g = (x, y)" by (simp add: pixel_of_def sx sy)
  have mem: "?g \<in> set (invocations ?nx ?ny)"
    by (rule invocations_member [OF cx(1) cy(1)])
  have dist: "distinct (map pixel_of (invocations ?nx ?ny))"
    by (rule invocations_distinct [OF cx(2) cy(2)])
  have sw: "sint (word_of_int w :: u32) = w" and sh: "sint (word_of_int h :: u32) = h"
    using x y by (simp_all add: sint_word_of_int_small)
  have img: "in_image uniforms ?g"
    unfolding in_image_def wu hu fst_conv snd_conv sx sy sw sh using x y by simp
  from run_pixel [OF d [unfolded dispatchWorkgroups_def] mem dist img]
  show ?thesis by (simp only: q fst_conv snd_conv)
qed

text \<open>The texels of a pixel of the image after \<open>render\<close>.\<close>

lemma render_pixel:
  assumes rd: "ready rt"
    and x: "0 \<le> x" "x < settings_width settings" "settings_width settings < 2 ^ 31"
    and y: "0 \<le> y" "y < settings_height settings" "settings_height settings < 2 ^ 31"
  shows "case main_accumulate (uniformData rt scene settings)
                (buildCameraData rt (scene_camera scene)) (buildSphereData (scene_spheres scene))
                (buildMaterialData (scene_materials scene)) (of_nat (nat x)) (of_nat (nat y))
                (textureLoad (accumulationTexture rt) (x, y)) of
           None \<Rightarrow>
             outputTexture (state_of (render rt scene settings)) (x, y) = outputTexture rt (x, y)
           \<and> accumulationTexture (state_of (render rt scene settings)) (x, y)
               = accumulationTexture rt (x, y)
         | Some (a, n) \<Rightarrow>
             outputTexture (state_of (render rt scene settings)) (x, y)
               = textureStore (outputTexture rt) (x, y) (vec4f (main_output a n) 1) (x, y)
           \<and> accumulationTexture (state_of (render rt scene settings)) (x, y)
               = textureStore (accumulationTexture rt) (x, y) (vec4f a 1) (x, y)"
proof -
  obtain out acc where d: "dispatchWorkgroups (uniformData rt scene settings)
        (buildCameraData rt (scene_camera scene)) (buildSphereData (scene_spheres scene))
        (buildMaterialData (scene_materials scene))
        (nat \<lceil>real_of_int (settings_width settings) / 8\<rceil>)
        (nat \<lceil>real_of_int (settings_height settings) / 8\<rceil>)
        (outputTexture rt, accumulationTexture rt) = (out, acc)"
    by (cases "dispatchWorkgroups (uniformData rt scene settings)
        (buildCameraData rt (scene_camera scene)) (buildSphereData (scene_spheres scene))
        (buildMaterialData (scene_materials scene))
        (nat \<lceil>real_of_int (settings_width settings) / 8\<rceil>)
        (nat \<lceil>real_of_int (settings_height settings) / 8\<rceil>)
        (outputTexture rt, accumulationTexture rt)")
  have s: "outputTexture (state_of (render rt scene settings)) = out"
    "accumulationTexture (state_of (render rt scene settings)) = acc"
    unfolding render_ready [OF rd] d by simp_all
  from dispatch_pixel [OF d uniformData_fields(1) uniformData_fields(2) x y]
  show ?thesis unfolding s .
qed

lemma rayColor_no_spheres:
  assumes "numSpheres uniforms = 0" and "depth \<noteq> 0"
  shows "rayColor uniforms spheres materials rayOrigin rayDir depth s
      = Some (vmul (vec3f 1 1 1) (skyColor rayDir), s)"
proof -
  from assms(2) have "unat depth \<noteq> 0" by (simp add: unat_eq_0)
  then obtain n where n: "unat depth = Suc n" by (cases "unat depth") auto
  have "closestHit uniforms spheres rayOrigin rayDir 0.001 (10 ^ 30)
      = zero_HitRecord\<lparr>rec_t := - 1\<rparr>"
    by (rule closestHit_miss) (simp add: assms(1))
  then show ?thesis unfolding rayColor_def n by (rule rayColor_loop_miss)
qed

lemma skyColor_blue: "vz (skyColor rayDir) = 1"
  by (simp add: skyColor_def Let_def vadd_def smul_def)

lemma pcg_hash_0: "pcg_hash 0 = 129708002"
  by (simp add: pcg_hash_def Let_def)

lemma rand_seed0_4: "rand 2368882721 = (920646579 / 4294967295, 920646579)"
  by (simp add: rand_def pcg_hash_def Let_def)

lemma seed0_disk: "rand_in_unit_disk 129708002 = Some (disk_candidate rand 129708002)"
  unfolding rand_in_unit_disk_def
  by (subst disk_unfold) (simp add: seed0_disk_accepts)

lemma uniformData_fresh: "uniformData fresh_raytracer empty_scene one_pixel = u0"
  by (simp add: uniformData_def fresh_raytracer_def empty_scene_def one_pixel_def u0_def)

lemma main_sample_first:
  "main_sample u0 pinhole [] [] 0 0 (vec3f 0 0 0) (acc, cnt, 2145236065)
    = Some (vadd acc (skyColor first_ray), cnt + 1, 920646579)"
proof -
  have r: "rayColor u0 [] [] rayOrigin rayDir (maxBounces u0) s
      = Some (skyColor rayDir, s)" for rayOrigin rayDir s
    using rayColor_no_spheres [of u0 "maxBounces u0" "[]" "[]" rayOrigin rayDir s]
    by (simp add: u0_def vmul_one)
  have d: "vsub (vsub (vadd (vadd (cam_lowerLeftCorner pinhole)
        (smul ((real_of_int (sint (0 :: u32)) + 2368882721 / 4294967295)
                / real (unat (width u0))) (cam_horizontal pinhole)))
        (smul ((real_of_int (sint (0 :: u32)) + 920646579 / 4294967295)
                / real (unat (height u0))) (cam_vertical pinhole)))
        (cam_origin pinhole)) (vec3f 0 0 0) = first_ray"
    by (simp add: pinhole_def u0_def first_ray_def vsub_def vadd_def smul_def)
  show ?thesis
    by (simp only: main_sample_def prod.case Let_def rand_seed0_3 rand_seed0_4 r d option.case)
qed

lemma main_accumulate_first:
  "main_accumulate u0 pinhole [] [] 0 0 prevColor
    = Some (vadd (rgb prevColor) (skyColor first_ray), 1)"
proof -
  have seed: "pcg_hash (0 + 0 * width u0 + frameIndex u0 * width u0 * height u0) = 129708002"
    by (simp add: u0_def pcg_hash_0)
  have off: "vadd (vscale (cam_u pinhole) (vx (smul (cam_lensRadius pinhole) d)))
      (vscale (cam_v pinhole) (vy (smul (cam_lensRadius pinhole) d))) = vec3f 0 0 0" for d
    by (simp add: pinhole_def vadd_def vscale_def smul_def)
  have cnt: "sampleCount u0 + 1 = 1" by (simp add: u0_def)
  show ?thesis
    by (simp only: main_accumulate_def Let_def seed seed0_disk seed0_disk_candidate
          option.case prod.case off main_samples_once main_sample_first cnt)
qed

lemma ceiling_eighth: "\<lceil>1 / 8 :: real\<rceil> = 1"
  by (rule ceiling_unique) simp_all

lemma one_pixel_groups:
  "nat \<lceil>real_of_int (settings_width one_pixel) / 8\<rceil> = 1"
  "nat \<lceil>real_of_int (settings_height one_pixel) / 8\<rceil> = 1"
  by (simp_all add: one_pixel_def ceiling_eighth)

lemma reset_state:
  "state_of (resetAccumulation rt) =
    rt\<lparr>rt_frameIndex := 0, rt_sampleCount := 0,
       accumulationTexture := createTexture (rt_width rt) (rt_height rt)\<rparr>"
  by (simp add: resetAccumulation_def Let_def)

lemma createTexture_load: "textureLoad (createTexture w h) p = vec4f (splat 0) 0"
  by (cases p) (simp add: textureLoad_def createTexture_def)

lemma createTexture_origin: "createTexture 1 1 (0, 0) = Some (vec4f (splat 0) 0)"
  by (simp add: createTexture_def)

lemma vadd_zero: "vadd (splat 0) c = c"
  by (cases c) (simp add: vadd_def splat_def)

lemma succ_word_nonzero: "(1 \<le> unat (w + 1)) = (w \<noteq> (0xffffffff :: u32))"
proof -
  have "(unat (w + 1) = 0) = (w + 1 = 0)" by (rule unat_eq_0)
  also have "\<dots> = (w = - 1)" by (rule add_eq_0_iff2 [of w 1, unfolded eq_commute [of 1]])
  finally have "(unat (w + 1) = 0) = (w = - 1)" .
  moreover have "(1 \<le> unat (w + 1)) = (unat (w + 1) \<noteq> 0)" by auto
  moreover have "(0xffffffff :: u32) = - 1" by simp
  ultimately show ?thesis by (simp only:)
qed

lemma normalize_z: "normalize (vec3f 0 0 1) = vec3f 0 0 1"
  by (simp add: normalize_def dot_def vdiv_def)

lemma normalize_x: "normalize (vec3f 1 0 0) = vec3f 1 0 0"
  by (simp add: normalize_def dot_def vdiv_def)

lemma tan_quarter: "tan (90 * pi / 180 / 2) = 1"
proof -
  have "90 * pi / 180 / 2 = pi / 4" by simp
  then show ?thesis by (simp only: tan_45)
qed

lemma straight_camera_pinhole:
  assumes "rt_width rt = 1" and "rt_height rt = 1"
  shows "buildCameraData rt straight_camera = pinhole"
proof -
  have w: "normalize (vsub (cp_origin straight_camera) (cp_lookAt straight_camera))
      = vec3f 0 0 1"
    by (simp add: straight_camera_def vsub_def normalize_z)
  have u: "normalize (cross (cp_up straight_camera) (vec3f 0 0 1)) = vec3f 1 0 0"
    by (simp add: straight_camera_def cross_def normalize_x)
  have h: "tan (cp_fov straight_camera * pi / 180 / 2) = 1"
    using tan_quarter by (simp add: straight_camera_def)
  show ?thesis
    unfolding buildCameraData_def Let_def w u h assms
    by (simp add: straight_camera_def pinhole_def cross_def vscale_def vsub_def)
qed

lemma empty_scene_tables:
  "scene_camera empty_scene = straight_camera"
  "buildSphereData (scene_spheres empty_scene) = []"
  "buildMaterialData (scene_materials empty_scene) = []"
  by (simp_all add: empty_scene_def buildSphereData_def buildMaterialData_def)

lemma fresh_fields:
  "ready fresh_raytracer" "rt_width fresh_raytracer = 1" "rt_height fresh_raytracer = 1"
  "rt_sampleCount fresh_raytracer = 0" "rt_frameIndex fresh_raytracer = 0"
  "outputTexture fresh_raytracer = createTexture 1 1"
  "accumulationTexture fresh_raytracer = createTexture 1 1"
  by (simp_all add: fresh_raytracer_def)

lemma one_pixel_fields:
  "samplesPerFrame one_pixel = 4" "settings_width one_pixel = 1"
  "settings_height one_pixel = 1"
  by (simp_all add: one_pixel_def)

lemma first_frame_fields:
  "ready first_frame" "rt_width first_frame = 1" "rt_height first_frame = 1"
  "rt_sampleCount first_frame = 4" "rt_frameIndex first_frame = 1"
  unfolding first_frame_def render_ready [OF fresh_fields(1)]
  by (simp_all add: fresh_fields one_pixel_fields)

lemma first_frame_render:
  "render fresh_raytracer empty_scene one_pixel = Returned 4 first_frame"
  unfolding first_frame_def render_ready [OF fresh_fields(1)]
  by (simp add: fresh_fields one_pixel_fields)

lemma first_frame_texels:
  "outputTexture first_frame (0, 0) = Some (vec4f (main_output (skyColor first_ray) 1) 1)"
  "accumulationTexture first_frame (0, 0) = Some (vec4f (skyColor first_ray) 1)"
proof -
  have b: "(0 :: int) \<le> 0" "(0 :: int) < settings_width one_pixel"
    "settings_width one_pixel < 2 ^ 31" "(0 :: int) < settings_height one_pixel"
    "settings_height one_pixel < 2 ^ 31"
    by (simp_all add: one_pixel_fields)
  have z: "(of_nat (nat 0) :: u32) = 0" by simp
  have c: "buildCameraData fresh_raytracer straight_camera = pinhole"
    by (rule straight_camera_pinhole [OF fresh_fields(2) fresh_fields(3)])
  note P = render_pixel [OF fresh_fields(1) b(1) b(2) b(3) b(1) b(4) b(5), of empty_scene]
  from P have "outputTexture first_frame (0, 0)
        = textureStore (createTexture 1 1) (0, 0)
            (vec4f (main_output (vadd (rgb (vec4f (splat 0) 0)) (skyColor first_ray)) 1) 1) (0, 0)
      \<and> accumulationTexture first_frame (0, 0)
        = textureStore (createTexture 1 1) (0, 0)
            (vec4f (vadd (rgb (vec4f (splat 0) 0)) (skyColor first_ray)) 1) (0, 0)"
    unfolding uniformData_fresh empty_scene_tables c z fresh_fields createTexture_load
      main_accumulate_first first_frame_def [symmetric]
    by (simp only: option.case prod.case)
  then show "outputTexture first_frame (0, 0)
      = Some (vec4f (main_output (skyColor first_ray) 1) 1)"
    and "accumulationTexture first_frame (0, 0) = Some (vec4f (skyColor first_ray) 1)"
    by (simp_all add: textureStore_at createTexture_origin vadd_zero)
qed

lemma main_output_blue: "vz (main_output (skyColor d) 1) = 1"
  by (simp add: main_output_def Let_def vpow_def clamp01_def vdiv_def skyColor_blue)



text \<open>
  C10: every invocation of \<open>main\<close> that passes the bounds check and whose sampling
  returns stores, in the output texture, the accumulated colour divided by
  \<open>uniforms.sampleCount + 1\<close> in \<open>u32\<close> arithmetic (then clamped and gamma-corrected), and
  nothing else is a divisor; that number is at least 1 for every uniform value but
  \<open>0xffffffff\<close>. After \<open>resetAccumulation\<close> the host counter is 0, so is the uniform of the
  next dispatch, and in the frame that \<open>render\<close> then produces every pixel that is written
  holds its accumulated colour divided by 1.
\<close>

theorem main_divides_by_count_plus_one:
  "main uniforms camera spheres materials (px, py) (outputTex, accumulationTex) =
     (if sint px \<ge> sint (width uniforms) \<or> sint py \<ge> sint (height uniforms)
      then Some (outputTex, accumulationTex)
      else case main_accumulate uniforms camera spheres materials px py
                  (textureLoad accumulationTex (sint px, sint py)) of
             None \<Rightarrow> None
           | Some (accumulatedColor, n) \<Rightarrow>
               Some (textureStore outputTex (sint px, sint py)
                       (vec4f (vpow (clamp01 (vdiv accumulatedColor
                          (real (unat (sampleCount uniforms + 1))))) (1 / 2.2)) 1),
                     textureStore accumulationTex (sint px, sint py)
                       (vec4f accumulatedColor 1)))
   \<and> (1 \<le> unat (sampleCount uniforms + 1)) = (sampleCount uniforms \<noteq> 0xffffffff)
   \<and> sampleCount (uniformData (state_of (resetAccumulation rt)) scene settings) = 0
   \<and> (ready rt \<and> settings_width settings < 2 ^ 31 \<and> settings_height settings < 2 ^ 31
      \<and> 0 \<le> x \<and> x < settings_width settings \<and> 0 \<le> y \<and> y < settings_height settings
      \<and> outputTexture rt (x, y) \<noteq> None \<longrightarrow>
       (case main_accumulate (uniformData (state_of (resetAccumulation rt)) scene settings)
               (buildCameraData (state_of (resetAccumulation rt)) (scene_camera scene))
               (buildSphereData (scene_spheres scene))
               (buildMaterialData (scene_materials scene))
               (of_nat (nat x)) (of_nat (nat y)) (vec4f (splat 0) 0) of
          None \<Rightarrow>
            outputTexture (state_of (render (state_of (resetAccumulation rt)) scene settings))
              (x, y) = outputTexture rt (x, y)
        | Some (accumulatedColor, n) \<Rightarrow>
            outputTexture (state_of (render (state_of (resetAccumulation rt)) scene settings))
              (x, y)
              = Some (vec4f (vpow (clamp01 (vdiv accumulatedColor 1)) (1 / 2.2)) 1)))"
proof (intro conjI impI)
  show "main uniforms camera spheres materials (px, py) (outputTex, accumulationTex) =
     (if sint px \<ge> sint (width uniforms) \<or> sint py \<ge> sint (height uniforms)
      then Some (outputTex, accumulationTex)
      else case main_accumulate uniforms camera spheres materials px py
                  (textureLoad accumulationTex (sint px, sint py)) of
             None \<Rightarrow> None
           | Some (accumulatedColor, n) \<Rightarrow>
               Some (textureStore outputTex (sint px, sint py)
                       (vec4f (vpow (clamp01 (vdiv accumulatedColor
                          (real (unat (sampleCount uniforms + 1))))) (1 / 2.2)) 1),
                     textureStore accumulationTex (sint px, sint py)
                       (vec4f accumulatedColor 1)))"
  proof (cases "main_accumulate uniforms camera spheres materials px py
                  (textureLoad accumulationTex (sint px, sint py))")
    case None
    then show ?thesis by (simp add: main_def Let_def)
  next
    case (Some r)
    obtain a n where r: "r = (a, n)" by (cases r)
    from main_accumulate_Some [OF Some [unfolded r]] have "n = sampleCount uniforms + 1"
      by simp
    then show ?thesis by (simp add: main_def Let_def Some r main_output_def)
  qed
  show "(1 \<le> unat (sampleCount uniforms + 1)) = (sampleCount uniforms \<noteq> 0xffffffff)"
    by (rule succ_word_nonzero)
  show z: "sampleCount (uniformData (state_of (resetAccumulation rt)) scene settings) = 0"
    by (simp add: reset_state uniformData_def)
  let ?rt = "state_of (resetAccumulation rt)"
  let ?m = "main_accumulate (uniformData ?rt scene settings)
      (buildCameraData ?rt (scene_camera scene)) (buildSphereData (scene_spheres scene))
      (buildMaterialData (scene_materials scene)) (of_nat (nat x)) (of_nat (nat y))
      (vec4f (splat 0) 0)"
  assume h: "ready rt \<and> settings_width settings < 2 ^ 31 \<and> settings_height settings < 2 ^ 31
      \<and> 0 \<le> x \<and> x < settings_width settings \<and> 0 \<le> y \<and> y < settings_height settings
      \<and> outputTexture rt (x, y) \<noteq> None"
  then have rd: "ready ?rt"
    and x: "0 \<le> x" "x < settings_width settings" "settings_width settings < 2 ^ 31"
    and y: "0 \<le> y" "y < settings_height settings" "settings_height settings < 2 ^ 31"
    and c: "outputTexture rt (x, y) \<noteq> None"
    by (simp_all add: reset_state)
  have o: "outputTexture ?rt = outputTexture rt" by (simp add: reset_state)
  have l: "textureLoad (accumulationTexture ?rt) (x, y) = vec4f (splat 0) 0"
    by (simp add: reset_state createTexture_load)
  note P = render_pixel [OF rd x y, of scene, unfolded l o]
  show "case ?m of
      None \<Rightarrow> outputTexture (state_of (render ?rt scene settings)) (x, y)
          = outputTexture rt (x, y)
    | Some (accumulatedColor, n) \<Rightarrow>
        outputTexture (state_of (render ?rt scene settings)) (x, y)
          = Some (vec4f (vpow (clamp01 (vdiv accumulatedColor 1)) (1 / 2.2)) 1)"
  proof (cases ?m)
    case None
    from P show ?thesis unfolding None by simp
  next
    case (Some r)
    obtain a n where r: "r = (a, n)" by (cases r)
    from main_accumulate_Some [OF Some [unfolded r]] have "n = 1" by (simp add: z)
    then have "main_output a n = vpow (clamp01 (vdiv a 1)) (1 / 2.2)"
      by (simp add: main_output_def)
    with P c show ?thesis unfolding Some r by (simp add: textureStore_at)
  qed
qed

lemma uniformData_after_reset:
  "uniformData (state_of (resetAccumulation first_frame)) empty_scene one_pixel = u0"
  by (simp add: reset_state uniformData_def empty_scene_def one_pixel_def u0_def)

text \<open>The dispatch that follows a reset of \<open>first_frame\<close>: the invocation of pixel (0, 0)
  stores the sky colour of its ray divided by 1.\<close>

theorem main_divides_by_count_plus_one_witness:
  "ready first_frame
   \<and> settings_width one_pixel < 2 ^ 31 \<and> settings_height one_pixel < 2 ^ 31
   \<and> (0 :: int) \<le> 0 \<and> 0 < settings_width one_pixel \<and> 0 < settings_height one_pixel
   \<and> outputTexture first_frame (0, 0) \<noteq> None
   \<and> main_accumulate (uniformData (state_of (resetAccumulation first_frame)) empty_scene
          one_pixel)
        (buildCameraData (state_of (resetAccumulation first_frame)) (scene_camera empty_scene))
        (buildSphereData (scene_spheres empty_scene))
        (buildMaterialData (scene_materials empty_scene)) (of_nat (nat 0)) (of_nat (nat 0))
        (vec4f (splat 0) 0)
      = Some (skyColor first_ray, 1)
   \<and> outputTexture (state_of (render (state_of (resetAccumulation first_frame)) empty_scene
        one_pixel)) (0, 0)
      = Some (vec4f (vpow (clamp01 (vdiv (skyColor first_ray) 1)) (1 / 2.2)) 1)
   \<and> main u0 pinhole [] [] (0, 0) (createTexture 1 1, createTexture 1 1)
      = Some (textureStore (createTexture 1 1) (0, 0)
                (vec4f (vpow (clamp01 (vdiv (skyColor first_ray)
                   (real (unat (sampleCount u0 + 1))))) (1 / 2.2)) 1),
              textureStore (createTexture 1 1) (0, 0) (vec4f (skyColor first_ray) 1))
   \<and> real (unat (sampleCount u0 + 1)) = 1"
proof -
  note T = main_divides_by_count_plus_one [of _ _ _ _ _ _ _ _ first_frame empty_scene
      one_pixel 0 0, THEN conjunct2, THEN conjunct2, THEN conjunct2]
  note M = main_divides_by_count_plus_one [of u0 pinhole "[]" "[]" 0 0 "createTexture 1 1"
      "createTexture 1 1", THEN conjunct1]
  have w: "sint (width u0) = 1" "sint (height u0) = 1" by (simp_all add: u0_def)
  have k: "main u0 pinhole [] [] (0, 0) (createTexture 1 1, createTexture 1 1)
      = Some (textureStore (createTexture 1 1) (0, 0)
                (vec4f (vpow (clamp01 (vdiv (skyColor first_ray)
                   (real (unat (sampleCount u0 + 1))))) (1 / 2.2)) 1),
              textureStore (createTexture 1 1) (0, 0) (vec4f (skyColor first_ray) 1))"
    using M by (simp add: w main_accumulate_first createTexture_load vadd_zero)
  have one: "real (unat (sampleCount u0 + 1)) = 1" by (simp add: u0_def)
  have h: "ready first_frame
      \<and> settings_width one_pixel < 2 ^ 31 \<and> settings_height one_pixel < 2 ^ 31
      \<and> (0 :: int) \<le> 0 \<and> 0 < settings_width one_pixel
      \<and> (0 :: int) \<le> 0 \<and> 0 < settings_height one_pixel
      \<and> outputTexture first_frame (0, 0) \<noteq> None"
    by (simp add: first_frame_fields one_pixel_fields first_frame_texels)
  have z: "(of_nat (nat 0) :: u32) = 0" by simp
  have s: "rt_width (state_of (resetAccumulation first_frame)) = 1"
    "rt_height (state_of (resetAccumulation first_frame)) = 1"
    by (simp_all add: reset_state first_frame_fields)
  have c: "buildCameraData (state_of (resetAccumulation first_frame)) straight_camera
      = pinhole"
    by (rule straight_camera_pinhole [OF s])
  have m: "main_accumulate (uniformData (state_of (resetAccumulation first_frame)) empty_scene
          one_pixel)
        (buildCameraData (state_of (resetAccumulation first_frame)) (scene_camera empty_scene))
        (buildSphereData (scene_spheres empty_scene))
        (buildMaterialData (scene_materials empty_scene)) (of_nat (nat 0)) (of_nat (nat 0))
        (vec4f (splat 0) 0)
      = Some (skyColor first_ray, 1)"
    unfolding uniformData_after_reset empty_scene_tables c z main_accumulate_first
    by (simp add: vadd_zero)
  from T [THEN mp, OF h] have o: "outputTexture (state_of (render
        (state_of (resetAccumulation first_frame)) empty_scene one_pixel)) (0, 0)
      = Some (vec4f (vpow (clamp01 (vdiv (skyColor first_ray) 1)) (1 / 2.2)) 1)"
    unfolding m by simp
  from h m o k one show ?thesis by (intro conjI) simp_all
qed

text \<open>
  C9, as stated, fails: \<open>resetAccumulation\<close> does not touch the output texture, and the
  kernel has no zero-sample policy. After the first frame of the one-pixel run the output
  texel holds the gamma-corrected sky colour, whose blue channel is 1; after the reset
  that follows, the host counter is 0 and the output texel is unchanged, not black.
\<close>

theorem reset_output_not_black_counterexample:
  "render fresh_raytracer empty_scene one_pixel = Returned 4 first_frame
   \<and> resetAccumulation first_frame = Returned () (state_of (resetAccumulation first_frame))
   \<and> rt_sampleCount (state_of (resetAccumulation first_frame)) = 0
   \<and> textureLoad (outputTexture (state_of (resetAccumulation first_frame))) (0, 0)
        = vec4f (main_output (skyColor first_ray) 1) 1
   \<and> vz (main_output (skyColor first_ray) 1) = 1
   \<and> rgb (textureLoad (outputTexture (state_of (resetAccumulation first_frame))) (0, 0))
        \<noteq> vec3f 0 0 0"
proof -
  have rdy: "ready first_frame" by (rule first_frame_fields(1))
  have o: "resetAccumulation first_frame
      = Returned () (state_of (resetAccumulation first_frame))"
    using rdy by (simp add: resetAccumulation_def Let_def)
  have c: "rt_sampleCount (state_of (resetAccumulation first_frame)) = 0"
    by (simp add: reset_state)
  have t: "textureLoad (outputTexture (state_of (resetAccumulation first_frame))) (0, 0)
      = vec4f (main_output (skyColor first_ray) 1) 1"
    by (simp add: reset_state textureLoad_def first_frame_texels(1))
  have b: "vz (main_output (skyColor first_ray) 1) = 1" by (rule main_output_blue)
  have "rgb (textureLoad (outputTexture (state_of (resetAccumulation first_frame))) (0, 0))
      \<noteq> vec3f 0 0 0"
  proof
    assume "rgb (textureLoad (outputTexture (state_of (resetAccumulation first_frame))) (0, 0))
      = vec3f 0 0 0"
    then have "vz (main_output (skyColor first_ray) 1) = 0" unfolding t by simp
    with b show False by simp
  qed
  with first_frame_render o c t b show ?thesis by (intro conjI)
qed

text \<open>
  C9, amended: \<open>resetAccumulation\<close> sets the frame index and the sample counter to 0 and
  replaces the accumulation texture by a new one of the renderer's size, every cell of
  which reads as zero; it leaves the output texture as it was, so that reading the output
  right after a reset returns the last frame written. It returns when the renderer is
  initialised and otherwise throws from \<open>createBindGroup\<close>, after the fields have been
  reset.
\<close>

theorem resetAccumulation_keeps_output:
  "outputTexture (state_of (resetAccumulation rt)) = outputTexture rt
   \<and> rt_frameIndex (state_of (resetAccumulation rt)) = 0
   \<and> rt_sampleCount (state_of (resetAccumulation rt)) = 0
   \<and> accumulationTexture (state_of (resetAccumulation rt))
        = createTexture (rt_width rt) (rt_height rt)
   \<and> textureLoad (accumulationTexture (state_of (resetAccumulation rt))) p = vec4f (splat 0) 0
   \<and> (resetAccumulation rt = Returned () (state_of (resetAccumulation rt))) = ready rt
   \<and> (resetAccumulation rt = Threw ResourcesNotInitialized (state_of (resetAccumulation rt)))
        = (\<not> ready rt)"
proof (intro conjI)
  show "outputTexture (state_of (resetAccumulation rt)) = outputTexture rt"
    by (simp add: reset_state)
  show "rt_frameIndex (state_of (resetAccumulation rt)) = 0" by (simp add: reset_state)
  show "rt_sampleCount (state_of (resetAccumulation rt)) = 0" by (simp add: reset_state)
  show "accumulationTexture (state_of (resetAccumulation rt))
      = createTexture (rt_width rt) (rt_height rt)"
    by (simp add: reset_state)
  show "textureLoad (accumulationTexture (state_of (resetAccumulation rt))) p
      = vec4f (splat 0) 0"
    by (simp add: reset_state createTexture_load)
  show "(resetAccumulation rt = Returned () (state_of (resetAccumulation rt))) = ready rt"
    by (simp add: resetAccumulation_def Let_def)
  show "(resetAccumulation rt = Threw ResourcesNotInitialized (state_of (resetAccumulation rt)))
      = (\<not> ready rt)"
    by (simp add: resetAccumulation_def Let_def)
qed

end
